theory Spec2Isabelle
  imports Complex_Main
begin

section \<open>Strings, numbers and the runtime\<close>

text \<open>
  A JavaScript string is a sequence of UTF-16 code units; a code unit is modelled as a
  natural number and a string as a list of them, so that \<open>length\<close> and \<open>slice\<close> count
  what the source counts.
\<close>

type_synonym jchar = nat
type_synonym jstring = "jchar list"

text \<open>A value that the source throws: \<open>new Error(message)\<close>, or the engine's
  \<open>TypeError\<close> on reading a property of \<open>undefined\<close>.\<close>

datatype thrown = Error jstring | TypeError

text \<open>
  What the source takes from outside the repository: \<open>String.prototype.toLowerCase\<close>,
  the case canonicalisation that the regular-expression flag \<open>i\<close> applies to a code
  unit, the Snowball stemmer \<open>newStemmer('russian').stem\<close>, and the HTTP round trip of
  \<open>fetchOpenAIEmbeddings\<close>: given the input texts and the API key it either throws
  (transport failure, a response that is not \<open>ok\<close>, a body that has no \<open>data\<close>
  array of embeddings) or delivers the list of raw embeddings \<open>json.data[i].embedding\<close>.
  \<open>Math.log\<close> is taken from the engine as well: the language leaves its result
  implementation-approximated.
\<close>

record runtime =
  toLowerCase :: "jstring \<Rightarrow> jstring"
  canonicalize :: "jchar \<Rightarrow> jchar"
  stem :: "jstring \<Rightarrow> jstring"
  fetch :: "jstring list \<Rightarrow> jstring \<Rightarrow> thrown + real list list"
  Math_log :: "real \<Rightarrow> real"

subsection \<open>Numbers\<close>

text \<open>
  A JavaScript number is an IEEE 754 double and an element of a \<open>Float32Array\<close> is an
  IEEE 754 single. A finite number is modelled as the real that it denotes, and every
  arithmetic operation of the source as the exact operation followed by the rounding of
  its format: to the nearest number of the format, to the one with the even significand on
  a tie. Numbers below the smallest normal number are rounded on the grid of the subnormal
  numbers. What is not modelled: \<open>NaN\<close>, the infinities (a result beyond the largest finite
  number of the format) and the sign of zero.
\<close>

text \<open>The nearest integer, the even one on a tie.\<close>

definition roundHalfEven :: "real \<Rightarrow> int" where
  "roundHalfEven y =
     (let f = \<lfloor>y\<rfloor>; d = y - of_int f
      in if d < 1 / 2 then f else if 1 / 2 < d then f + 1 else if even f then f else f + 1)"

text \<open>The binary exponent of \<open>x\<close>, not below the exponent \<open>emin\<close> of the smallest
  normal number.\<close>

definition binade :: "int \<Rightarrow> real \<Rightarrow> int" where
  "binade emin x = max emin \<lfloor>log 2 \<bar>x\<bar>\<rfloor>"

text \<open>Rounding to a binary format with \<open>p\<close> significant bits: \<open>x\<close> is rounded to a
  multiple of the unit in its last place.\<close>

definition roundBinary :: "nat \<Rightarrow> int \<Rightarrow> real \<Rightarrow> real" where
  "roundBinary p emin x =
     (if x = 0 then 0
      else let ulp = 2 powi (binade emin x - int p + 1)
           in of_int (roundHalfEven (x / ulp)) * ulp)"

text \<open>Doubles have 53 significant bits, singles 24. \<open>binary64\<close> is also the value of a
  decimal literal of the source and of \<open>Number(text)\<close>; \<open>binary32\<close> is the store of a
  number into a \<open>Float32Array\<close>.\<close>

definition binary64 :: "real \<Rightarrow> real" where
  "binary64 x = roundBinary 53 (- 1022) x"

definition binary32 :: "real \<Rightarrow> real" where
  "binary32 x = roundBinary 24 (- 126) x"

text \<open>The operators \<open>+\<close>, \<open>-\<close>, \<open>*\<close> and \<open>/\<close> of the source on numbers, and
  \<open>Math.sqrt\<close>, which the language defines as the correctly rounded square root.\<close>

definition fadd :: "real \<Rightarrow> real \<Rightarrow> real" where
  "fadd x y = binary64 (x + y)"

definition fsub :: "real \<Rightarrow> real \<Rightarrow> real" where
  "fsub x y = binary64 (x - y)"

definition fmul :: "real \<Rightarrow> real \<Rightarrow> real" where
  "fmul x y = binary64 (x * y)"

definition fdiv :: "real \<Rightarrow> real \<Rightarrow> real" where
  "fdiv x y = binary64 (x / y)"

definition Math_sqrt :: "real \<Rightarrow> real" where
  "Math_sqrt x = binary64 (sqrt x)"

text \<open>\<open>Number(x.toFixed(6))\<close>: \<open>toFixed\<close> splits the sign off and takes the multiple
  of \<open>10\<^sup>-\<^sup>6\<close> nearest to the exact value of the number, the larger one on a tie;
  \<open>Number\<close> reads the decimal text back as a double.\<close>

definition toFixed6 :: "real \<Rightarrow> real" where
  "toFixed6 x =
     binary64 (if x < 0 then - (real_of_int \<lfloor>(- x) * 1000000 + 1 / 2\<rfloor> / 1000000)
               else real_of_int \<lfloor>x * 1000000 + 1 / 2\<rfloor> / 1000000)"

text \<open>\<open>Math.round\<close>: the integer nearest to the exact value of the number, the larger
  one on a tie.\<close>

definition Math_round :: "real \<Rightarrow> int" where
  "Math_round x = \<lfloor>x + 1 / 2\<rfloor>"

subsection \<open>Arrays and sets\<close>

text \<open>\<open>xs[i]\<close> on an array: \<open>undefined\<close> out of range.\<close>

definition arrayAt :: "'a list \<Rightarrow> nat \<Rightarrow> 'a option" where
  "arrayAt xs i = (if i < length xs then Some (xs ! i) else None)"

text \<open>\<open>new Set(xs)\<close>: the distinct elements in first-insertion order; \<open>size\<close> is the
  length of that list.\<close>

definition newSet :: "'a list \<Rightarrow> 'a list" where
  "newSet xs = rev (remdups (rev xs))"

text \<open>\<open>Array.prototype.sort((a, b) => b.score - a.score)\<close>: the stable sort by
  descending score (the language requires stability). The comparator is a difference of
  doubles, whose sign is that of the exact difference.\<close>

definition sortByScoreDesc :: "('a \<Rightarrow> real) \<Rightarrow> 'a list \<Rightarrow> 'a list" where
  "sortByScoreDesc sc xs = sort_key (\<lambda>c. - sc c) xs"

section \<open>src/lib/text.ts\<close>

definition STOP_WORDS :: "jstring list" where
  "STOP_WORDS = [
    [1080],
    [1074],
    [1074, 1086],
    [1085, 1077],
    [1095, 1090, 1086],
    [1086, 1085],
    [1086, 1085, 1072],
    [1085, 1086],
    [1072],
    [1082, 1072, 1082],
    [1082],
    [1082, 1086],
    [1076, 1086],
    [1074, 1099],
    [1084, 1099],
    [1086, 1085, 1080],
    [1080, 1079],
    [1091],
    [1087, 1086],
    [1085, 1072],
    [1101, 1090, 1086],
    [1090, 1086, 1090],
    [1090, 1072],
    [1090, 1077],
    [1076, 1083, 1103],
    [1087, 1088, 1080],
    [1086, 1090],
    [1089, 1086],
    [1089, 1086, 1086, 1090, 1074, 1077, 1090, 1089, 1090, 1074, 1080, 1077],
    [1082, 1086, 1084, 1087, 1083, 1077, 1082, 1090],
    [1089, 1080, 1089, 1090, 1077, 1084, 1072],
    [1089, 1080, 1089, 1090, 1077, 1084, 1099],
    [1089, 1080, 1089, 1090, 1077, 1084, 1085, 1099, 1081],
    [1086, 1073, 1086, 1088, 1091, 1076, 1086, 1074, 1072, 1085, 1080, 1077],
    [1086, 1073, 1086, 1088, 1091, 1076, 1086, 1074, 1072, 1085, 1080, 1103],
    [1088, 1077, 1096, 1077, 1085, 1080, 1077],
    [1088, 1077, 1096, 1077, 1085, 1080, 1103],
    [1087, 1083, 1072, 1090, 1092, 1086, 1088, 1084, 1072],
    [1087, 1083, 1072, 1090, 1092, 1086, 1088, 1084, 1099],
    [1089, 1077, 1088, 1080, 1103],
    [1089, 1077, 1088, 1080, 1080],
    [1090, 1080, 1087],
    [1090, 1080, 1087, 1072],
    [1091, 1089, 1090, 1088, 1086, 1081, 1089, 1090, 1074, 1086],
    [1091, 1089, 1090, 1088, 1086, 1081, 1089, 1090, 1074, 1072],
    [116, 105, 109, 109, 101, 114],
    [1073, 1088, 1077, 1085, 1076],
    [98, 114, 97, 110, 100],
    [115, 101, 114, 105, 101, 115],
    [115, 121, 115, 116, 101, 109],
    [115, 121, 115, 116, 101, 109, 115],
    [100, 101, 118, 105, 99, 101],
    [100, 101, 118, 105, 99, 101, 115]]"

text \<open>The characters of the class \<open>[a-z\<dots>0-9]\<close> of both regular expressions: Latin
  \<open>a\<close>-\<open>z\<close>, Cyrillic U+0430-U+044F, U+0451, and the digits.\<close>

definition TOKEN_CLASS :: "jchar list" where
  "TOKEN_CLASS = [97 ..< 123] @ [1072 ..< 1104] @ [1105] @ [48 ..< 58]"

text \<open>\<open>TOKEN_REGEX\<close> carries the flag \<open>i\<close>: a code unit matches the class when its
  canonical form is that of a member of the class.\<close>

definition isTokenChar :: "runtime \<Rightarrow> jchar \<Rightarrow> bool" where
  "isTokenChar rt c \<longleftrightarrow> canonicalize rt c \<in> set (map (canonicalize rt) TOKEN_CLASS)"

text \<open>\<open>text.match(/[\<dots>]+/g)\<close>: the maximal runs of matching code units, left to
  right; \<open>cur\<close> is the run being read.\<close>

fun matchRuns :: "(jchar \<Rightarrow> bool) \<Rightarrow> jstring \<Rightarrow> jstring \<Rightarrow> jstring list" where
  "matchRuns P cur [] = (if cur = [] then [] else [cur])"
| "matchRuns P cur (c # cs) =
     (if P c then matchRuns P (cur @ [c]) cs
      else (if cur = [] then [] else [cur]) @ matchRuns P [] cs)"

definition tokenize :: "runtime \<Rightarrow> jstring option \<Rightarrow> jstring list" where
  "tokenize rt text =
     (case text of
        None \<Rightarrow> []
      | Some t \<Rightarrow> if t = [] then [] else matchRuns (isTokenChar rt) [] t)"

definition normalizeTokens :: "runtime \<Rightarrow> jstring option \<Rightarrow> jstring list" where
  "normalizeTokens rt text =
     filter (\<lambda>token. length token > 1 \<and> token \<notin> set STOP_WORDS)
       (map (stem rt) (map (toLowerCase rt) (tokenize rt text)))"

text \<open>\<open>tokens.join(' ')\<close> and, more generally, \<open>Array.prototype.join\<close>.\<close>

fun join :: "jstring \<Rightarrow> jstring list \<Rightarrow> jstring" where
  "join sep [] = []"
| "join sep [x] = x"
| "join sep (x # y # ys) = x @ sep @ join sep (y # ys)"

definition joinTokens :: "jstring list \<Rightarrow> jstring" where
  "joinTokens tokens = join [32] tokens"

text \<open>The class \<open>\s\<close> of the language, which is also what \<open>trim\<close> strips.\<close>

definition isWhiteSpace :: "jchar \<Rightarrow> bool" where
  "isWhiteSpace c \<longleftrightarrow>
     c \<in> {9, 10, 11, 12, 13, 32, 160, 5760, 8232, 8233, 8239, 8287, 12288, 65279}
     \<or> (8192 \<le> c \<and> c \<le> 8202)"

text \<open>\<open>replace(/\s+/g, ' ')\<close>: every maximal run of white space becomes one space;
  \<open>inRun\<close> says that the code unit before was white space.\<close>

fun collapseWhiteSpace :: "bool \<Rightarrow> jstring \<Rightarrow> jstring" where
  "collapseWhiteSpace inRun [] = []"
| "collapseWhiteSpace inRun (c # cs) =
     (if isWhiteSpace c
      then (if inRun then collapseWhiteSpace True cs else 32 # collapseWhiteSpace True cs)
      else c # collapseWhiteSpace False cs)"

text \<open>\<open>replace(/[^a-z\<dots>0-9 ]/g, '')\<close>, without the flag \<open>i\<close>: only members of the
  class and the space survive.\<close>

definition isCleanChar :: "jchar \<Rightarrow> bool" where
  "isCleanChar c \<longleftrightarrow> c \<in> set TOKEN_CLASS \<or> c = 32"

definition generateCharNgrams :: "runtime \<Rightarrow> jstring \<Rightarrow> nat \<Rightarrow> nat \<Rightarrow> jstring list" where
  "generateCharNgrams rt val mn mx =
     (let normalized = collapseWhiteSpace False (toLowerCase rt val);
          cleaned = filter isCleanChar normalized
      in concat (map (\<lambda>n. map (\<lambda>i. take n (drop i cleaned)) [0 ..< Suc (length cleaned) - n])
                     [mn ..< Suc mx]))"

text \<open>\<open>computeOverlap\<close> walks the first set and counts the members of the second.\<close>

definition computeOverlap :: "jstring list \<Rightarrow> jstring list \<Rightarrow> nat" where
  "computeOverlap tokensA tokensB =
     fold (\<lambda>token count. if token \<in> set tokensB then count + 1 else count) tokensA 0"

text \<open>\<open>String.prototype.trim\<close>.\<close>

definition trim :: "jstring \<Rightarrow> jstring" where
  "trim s = rev (dropWhile isWhiteSpace (rev (dropWhile isWhiteSpace s)))"

section \<open>src/lib/tfidf.ts\<close>

text \<open>
  The class \<open>TfIdfVectorizer\<close>, which \<open>seo-mapper.ts\<close> imports from \<open>./tfidf\<close>; its
  text stands at lines 133-200 of \<open>src/lib/exporters.ts\<close>. The field \<open>vocabulary\<close> is a
  \<open>Map\<close> from a token to its index: it is kept as the list of its keys in the order of
  insertion, the index of a key being its position, since the constructor enters a new
  token with \<open>vocabulary.size\<close>. The field \<open>idf\<close> is a \<open>Float32Array\<close> with one weight
  per token, and \<open>vocabSize\<close> is the size of the vocabulary.
\<close>

record TfIdfVectorizer =
  vocabulary :: "jstring list"
  idf :: "real list"

definition vocabSize :: "TfIdfVectorizer \<Rightarrow> nat" where
  "vocabSize v = length (vocabulary v)"

text \<open>\<open>vocabulary.get(token)\<close>.\<close>

fun vocabularyGet :: "jstring list \<Rightarrow> jstring \<Rightarrow> nat option" where
  "vocabularyGet [] token = None"
| "vocabularyGet (t # ts) token =
     (if token = t then Some 0 else map_option Suc (vocabularyGet ts token))"

text \<open>Lines 141-147: every token that the vocabulary does not have yet is entered
  behind the others.\<close>

definition addToken :: "jstring list \<Rightarrow> jstring \<Rightarrow> jstring list" where
  "addToken vocab token = (if token \<in> set vocab then vocab else vocab @ [token])"

definition buildVocabulary :: "jstring list list \<Rightarrow> jstring list" where
  "buildVocabulary documents = foldl (foldl addToken) [] documents"

text \<open>Lines 151-161: \<open>docFreq\<close> is a \<open>Float32Array\<close>; within a document an index is
  counted once, the set \<open>seen\<close> holding the indices counted already.\<close>

definition countToken ::
  "jstring list \<Rightarrow> real list \<times> nat list \<Rightarrow> jstring \<Rightarrow> real list \<times> nat list" where
  "countToken vocab state token =
     (case vocabularyGet vocab token of
        None \<Rightarrow> state
      | Some idx \<Rightarrow>
          (if idx \<in> set (snd state) then state
           else ((fst state)[idx := binary32 (fadd (fst state ! idx) 1)], idx # snd state)))"

definition countDocument :: "jstring list \<Rightarrow> real list \<Rightarrow> jstring list \<Rightarrow> real list" where
  "countDocument vocab docFreq tokens = fst (foldl (countToken vocab) (docFreq, []) tokens)"

definition documentFrequency :: "jstring list \<Rightarrow> jstring list list \<Rightarrow> real list" where
  "documentFrequency vocab documents =
     foldl (countDocument vocab) (replicate (length vocab) 0) documents"

text \<open>The constructor (lines 138-168): the weight of the token at index \<open>i\<close> is
  \<open>Math.log((totalDocs + 1) / (docFreq[i] + 1)) + 1\<close>, stored in single precision.\<close>

definition newTfIdfVectorizer :: "runtime \<Rightarrow> jstring list list \<Rightarrow> TfIdfVectorizer" where
  "newTfIdfVectorizer rt documents =
     (let vocab = buildVocabulary documents;
          docFreq = documentFrequency vocab documents;
          totalDocs = max 1 (length documents)
      in \<lparr>vocabulary = vocab,
          idf = map (\<lambda>i. binary32 (fadd (Math_log rt (fdiv (fadd (real totalDocs) 1)
                                                         (fadd (docFreq ! i) 1))) 1))
                    [0 ..< length vocab]\<rparr>)"

text \<open>\<open>vectorize\<close> (lines 170-191). The array \<open>tf\<close> is a \<open>Float32Array\<close>: the count of
  a token of the vocabulary is raised by \<open>tf[idx] += 1\<close>, tokens outside the vocabulary
  are skipped; then every entry is multiplied by its weight and its square is added to
  \<open>norm\<close>, a double; a vector whose norm is zero is returned as it is, any other one is
  divided by its norm, entry by entry.\<close>

definition countTerm :: "TfIdfVectorizer \<Rightarrow> real list \<Rightarrow> jstring \<Rightarrow> real list" where
  "countTerm v tf token =
     (case vocabularyGet (vocabulary v) token of
        None \<Rightarrow> tf
      | Some idx \<Rightarrow> tf[idx := binary32 (fadd (tf ! idx) 1)])"

definition vectorize :: "TfIdfVectorizer \<Rightarrow> jstring list \<Rightarrow> real list" where
  "vectorize v tokens =
     (let counts = foldl (countTerm v) (replicate (vocabSize v) 0) tokens;
          tf = map (\<lambda>i. binary32 (fmul (counts ! i) (idf v ! i))) [0 ..< vocabSize v];
          norm = Math_sqrt (foldl (\<lambda>norm x. fadd norm (fmul x x)) 0 tf)
      in if norm = 0 then tf else map (\<lambda>x. binary32 (fdiv x norm)) tf)"

text \<open>\<open>similarity\<close> (lines 193-199): the dot product over the indices of the
  vocabulary, accumulated in a double. Both arguments are vectors of the vectorizer
  wherever \<open>mapProducts\<close> calls it, so that every index is in range.\<close>

definition similarity :: "TfIdfVectorizer \<Rightarrow> real list \<Rightarrow> real list \<Rightarrow> real" where
  "similarity v vecA vecB =
     foldl (\<lambda>sum i. fadd sum (fmul (vecA ! i) (vecB ! i))) 0 [0 ..< vocabSize v]"

section \<open>src/lib/types.ts\<close>

record SeoCategory =
  id_cat :: jstring
  rawPath :: jstring
  levels :: "jstring list"
  tokens_cat :: "jstring list"
  normalizedText :: jstring

record ProductRecord =
  id_prod :: jstring
  sourceFile :: jstring
  rowIndex :: nat
  fields_prod :: "jstring \<rightharpoonup> jstring"
  productName :: jstring
  categoryOld :: "jstring option"
  description :: "jstring option"
  aggregatedText :: jstring
  tokens_prod :: "jstring list"

record CandidateMatch =
  categoryId :: jstring
  categoryPath :: jstring
  score :: real
  overlap :: nat
  jaccard :: real

record MappingOptions =
  similarityThreshold :: real
  gapThreshold :: real
  tokenOverlapThreshold :: real
  useOpenAI :: bool
  openAIApiKey :: "jstring option"
  confidenceMinPercent :: real

datatype status = mapped | not_mapped

text \<open>
  The reason of an outcome is a text assembled from fixed phrases and formatted numbers.
  It is kept as the list of its phrases, in order; the empty list is the empty text. The
  rendering (the separators, \<open>toFixed(2)\<close>) is not modelled. A \<open>summary\<close> is the text
  \<open>score=\<dots>, overlap=\<dots>, gap=\<dots>, jaccard=\<dots>\<close>, which the source builds when there is a
  best candidate and leaves empty otherwise.
\<close>

record summary =
  score_s :: real
  overlap_s :: nat
  gap_s :: real
  jaccard_s :: real

datatype phrase =
    AutoMapped "summary option"
  | LowConfidence "summary option"
  | NoCandidates
  | CategoryNotFound
  | OpenAINoText
  | OpenAIConfirmed real real
  | OpenAINoMatch real real
  | OpenAIFallbackError thrown
  | SummaryText summary
  | ConfidenceFloorNote

text \<open>\<open>MappedProduct extends ProductRecord\<close>: the product and the added fields.\<close>

record MappedProduct =
  productRecord :: ProductRecord
  seoCategory :: "jstring option"
  confidence :: int
  status :: status
  candidates :: "CandidateMatch list"
  reason :: "phrase list"

record MappingStatistics =
  brandName_stats :: "jstring option"
  sourceFile_stats :: jstring
  totalProducts :: nat
  mappedProducts :: nat
  unmappedProducts :: nat
  mappingSuccessRate :: real
  categoriesUsed :: nat

record MappingResponse =
  items :: "MappedProduct list"
  stats :: MappingStatistics

section \<open>src/lib/seo-mapper.ts\<close>

record ParsedProducts =
  brandName :: "jstring option"
  sourceFile_parsed :: jstring
  records :: "ProductRecord list"

definition DEFAULT_OPTIONS :: MappingOptions where
  "DEFAULT_OPTIONS =
     \<lparr>similarityThreshold = binary64 (55 / 100), gapThreshold = binary64 (5 / 100),
      tokenOverlapThreshold = 1,
      useOpenAI = False, openAIApiKey = None, confidenceMinPercent = 50\<rparr>"

definition OPENAI_TOP_K :: nat where
  "OPENAI_TOP_K = 6"

definition OPENAI_SIMILARITY_THRESHOLD :: real where
  "OPENAI_SIMILARITY_THRESHOLD = binary64 (78 / 100)"

definition OPENAI_GAP_THRESHOLD :: real where
  "OPENAI_GAP_THRESHOLD = binary64 (2 / 100)"

text \<open>\<open>normalizeVector\<close> on the array of numbers of a response:
  \<open>Float32Array.from\<close> stores every entry in single precision, the squares are added up in
  a double, and every entry divided by the norm is stored in single precision again.\<close>

definition normalizeVector :: "real list \<Rightarrow> real list" where
  "normalizeVector vector =
     (let floatArr = map binary32 vector;
          norm = Math_sqrt (foldl (\<lambda>norm x. fadd norm (fmul x x)) 0 floatArr)
      in if norm = 0 then floatArr else map (\<lambda>x. binary32 (fdiv x norm)) floatArr)"

definition fetchOpenAIEmbeddings :: "runtime \<Rightarrow> jstring list \<Rightarrow> jstring \<Rightarrow> thrown + real list list" where
  "fetchOpenAIEmbeddings rt inputs apiKey =
     (case fetch rt inputs apiKey of
        Inl error \<Rightarrow> Inl error
      | Inr data \<Rightarrow> Inr (map normalizeVector data))"

text \<open>\<open>cosineSimilarity\<close>: the dot product over the first
  \<open>Math.min(vecA.length, vecB.length)\<close> entries, accumulated in a double.\<close>

definition cosineSimilarity :: "real list \<Rightarrow> real list \<Rightarrow> real" where
  "cosineSimilarity vecA vecB =
     foldl (\<lambda>dot (x, y). fadd dot (fmul x y)) 0 (zip vecA vecB)"

subsection \<open>Parsing one row\<close>

text \<open>\<open>rawPath.split('///')\<close>; \<open>cur\<close> is the piece being read.\<close>

function splitLevels :: "jstring \<Rightarrow> jstring \<Rightarrow> jstring list" where
  "splitLevels cur [] = [cur]"
| "splitLevels cur (c # cs) =
     (if take 3 (c # cs) = [47, 47, 47] then cur # splitLevels [] (drop 2 cs)
      else splitLevels (cur @ [c]) cs)"
  by pat_completeness auto
termination
  by (relation "measure (\<lambda>(cur, s). length s)") auto

text \<open>The body of \<open>rows.forEach\<close> in \<open>parseSeoStructure\<close>, for the first cell of a row
  (a text, or nothing) and the identifier that \<open>uuidv4()\<close> delivers.\<close>

definition parseSeoRow :: "runtime \<Rightarrow> jstring \<Rightarrow> jstring option \<Rightarrow> SeoCategory option" where
  "parseSeoRow rt uuid cell =
     (case cell of
        None \<Rightarrow> None
      | Some c \<Rightarrow>
          if c = [] then None
          else let rawPath = trim c
               in if rawPath = [] then None
                  else let levels = filter (\<lambda>level. level \<noteq> []) (map trim (splitLevels [] rawPath));
                           tokens = normalizeTokens rt (Some rawPath)
                       in Some \<lparr>id_cat = uuid, rawPath = rawPath, levels = levels,
                                tokens_cat = tokens, normalizedText = joinTokens tokens\<rparr>)"

text \<open>The column names that \<open>parseProducts\<close> reads: \<open>Product name\<close>, \<open>product name\<close>,
  \<open>Category\<close>, \<open>category\<close>, \<open>Description\<close>, \<open>description\<close>, \<open>Meta description\<close>,
  \<open>Page title\<close>, \<open>SEO name\<close> and the Russian word for characteristics.\<close>

definition COL_Product_name :: jstring where
  "COL_Product_name = [80, 114, 111, 100, 117, 99, 116, 32, 110, 97, 109, 101]"
definition COL_product_name :: jstring where
  "COL_product_name = [112, 114, 111, 100, 117, 99, 116, 32, 110, 97, 109, 101]"
definition COL_Category :: jstring where
  "COL_Category = [67, 97, 116, 101, 103, 111, 114, 121]"
definition COL_category :: jstring where
  "COL_category = [99, 97, 116, 101, 103, 111, 114, 121]"
definition COL_Description :: jstring where
  "COL_Description = [68, 101, 115, 99, 114, 105, 112, 116, 105, 111, 110]"
definition COL_description :: jstring where
  "COL_description = [100, 101, 115, 99, 114, 105, 112, 116, 105, 111, 110]"
definition COL_Meta_description :: jstring where
  "COL_Meta_description = [77, 101, 116, 97, 32, 100, 101, 115, 99, 114, 105, 112, 116, 105, 111, 110]"
definition COL_Page_title :: jstring where
  "COL_Page_title = [80, 97, 103, 101, 32, 116, 105, 116, 108, 101]"
definition COL_SEO_name :: jstring where
  "COL_SEO_name = [83, 69, 79, 32, 110, 97, 109, 101]"
definition COL_Characteristics :: jstring where
  "COL_Characteristics =
     [1061, 1072, 1088, 1072, 1082, 1090, 1077, 1088, 1080, 1089, 1090, 1080, 1082, 1080]"

text \<open>\<open>String(row[a] ?? row[b] ?? '')\<close> and \<open>String(row[a] ?? '')\<close> on a row of texts.\<close>

definition cell2 :: "(jstring \<rightharpoonup> jstring) \<Rightarrow> jstring \<Rightarrow> jstring \<Rightarrow> jstring" where
  "cell2 row a b =
     (case row a of Some v \<Rightarrow> v | None \<Rightarrow> (case row b of Some v \<Rightarrow> v | None \<Rightarrow> []))"

definition cell1 :: "(jstring \<rightharpoonup> jstring) \<Rightarrow> jstring \<Rightarrow> jstring" where
  "cell1 row a = (case row a of Some v \<Rightarrow> v | None \<Rightarrow> [])"

text \<open>\<open>s || undefined\<close> and \<open>s ?? ''\<close>.\<close>

definition orUndefined :: "jstring \<Rightarrow> jstring option" where
  "orUndefined s = (if s = [] then None else Some s)"

definition orEmpty :: "jstring option \<Rightarrow> jstring" where
  "orEmpty s = (case s of Some v \<Rightarrow> v | None \<Rightarrow> [])"

text \<open>The body of \<open>rows.map\<close> in \<open>parseProducts\<close>, for one row of the sheet.\<close>

definition parseProductRow ::
  "runtime \<Rightarrow> jstring \<Rightarrow> jstring \<Rightarrow> nat \<Rightarrow> (jstring \<rightharpoonup> jstring) \<Rightarrow> ProductRecord" where
  "parseProductRow rt uuid filename index row =
     (let productName = trim (cell2 row COL_Product_name COL_product_name);
          categoryOld = orUndefined (trim (cell2 row COL_Category COL_category));
          description = orUndefined (trim (cell2 row COL_Description COL_description));
          metaDescription = trim (cell1 row COL_Meta_description);
          pageTitle = trim (cell1 row COL_Page_title);
          seoName = trim (cell1 row COL_SEO_name);
          characteristics = trim (cell1 row COL_Characteristics);
          aggregatedText =
            join [32] (filter (\<lambda>s. s \<noteq> [])
              [productName, orEmpty categoryOld, orEmpty description, metaDescription,
               pageTitle, seoName, characteristics]);
          tokens = normalizeTokens rt (Some aggregatedText)
      in \<lparr>id_prod = uuid, sourceFile = filename, rowIndex = index, fields_prod = row,
          productName = productName, categoryOld = categoryOld, description = description,
          aggregatedText = aggregatedText, tokens_prod = tokens\<rparr>)"

subsection \<open>Scoring one product against the corpus (mapProducts, lines 211-248)\<close>

text \<open>\<open>categoryMap\<close>: filled by \<open>forEach\<close>, a later category replacing an earlier one
  with the same identifier.\<close>

definition categoryMapOf :: "SeoCategory list \<Rightarrow> (jstring \<rightharpoonup> SeoCategory)" where
  "categoryMapOf categories =
     fold (\<lambda>category m. m(id_cat category \<mapsto> category)) categories Map.empty"

text \<open>Lines 212-214: the two vectors of a product. The character axis reads the text
  \<open>`${product.productName} ${product.categoryOld ?? ''}`\<close>.\<close>

definition productWordVec :: "TfIdfVectorizer \<Rightarrow> ProductRecord \<Rightarrow> real list" where
  "productWordVec wordVectorizer product = vectorize wordVectorizer (tokens_prod product)"

definition productCharVec :: "runtime \<Rightarrow> TfIdfVectorizer \<Rightarrow> ProductRecord \<Rightarrow> real list" where
  "productCharVec rt charVectorizer product =
     (let charTokens =
            generateCharNgrams rt (productName product @ [32] @ orEmpty (categoryOld product)) 3 5
      in vectorize charVectorizer charTokens)"

text \<open>Lines 220-221: the two cosines of a product against the category at \<open>index\<close>.\<close>

definition wordScoreOf :: "TfIdfVectorizer \<Rightarrow> real list list \<Rightarrow> ProductRecord \<Rightarrow> nat \<Rightarrow> real" where
  "wordScoreOf wordVectorizer categoryWordVectors product index =
     similarity wordVectorizer (productWordVec wordVectorizer product)
       (categoryWordVectors ! index)"

definition charScoreOf ::
  "runtime \<Rightarrow> TfIdfVectorizer \<Rightarrow> real list list \<Rightarrow> ProductRecord \<Rightarrow> nat \<Rightarrow> real" where
  "charScoreOf rt charVectorizer categoryCharVectors product index =
     similarity charVectorizer (productCharVec rt charVectorizer product)
       (categoryCharVectors ! index)"

text \<open>Lines 223-245: the candidate for one category, from the two cosines, the set
  \<open>oldTokens\<close> of the legacy label and the set \<open>productTokenSet\<close>. The sizes and the
  overlap counts are integers, on which the arithmetic of doubles is exact.\<close>

definition scoreCandidate ::
  "real \<Rightarrow> real \<Rightarrow> jstring list \<Rightarrow> jstring list \<Rightarrow> SeoCategory \<Rightarrow> CandidateMatch" where
  "scoreCandidate wordScore charScore oldTokens productTokenSet category =
     (let combined0 = fadd (fmul (binary64 (6 / 10)) wordScore)
                           (fmul (binary64 (4 / 10)) charScore);
          categoryTokenSet = newSet (tokens_cat category);
          combined1 =
            (if length oldTokens > 0
             then (let overlapOld = computeOverlap oldTokens categoryTokenSet
                   in if overlapOld > 0
                      then fadd combined0 (fmul (binary64 (5 / 100)) (real overlapOld))
                      else combined0)
             else combined0);
          overlap = computeOverlap productTokenSet categoryTokenSet;
          unionSize = int (length productTokenSet) + int (length categoryTokenSet) - int overlap;
          jaccard = (if unionSize > 0 then fdiv (real overlap) (real_of_int unionSize) else 0);
          combined2 = fadd combined1 (fmul (binary64 (1 / 10)) jaccard)
      in \<lparr>categoryId = id_cat category, categoryPath = rawPath category,
          score = toFixed6 combined2, overlap = overlap, jaccard = toFixed6 jaccard\<rparr>)"

text \<open>Lines 216-246: \<open>categories.map((category, index) => \<dots>)\<close>, the candidates in the
  order of the corpus.\<close>

definition scoredCandidates ::
  "runtime \<Rightarrow> SeoCategory list \<Rightarrow> TfIdfVectorizer \<Rightarrow> real list list \<Rightarrow> TfIdfVectorizer \<Rightarrow>
   real list list \<Rightarrow> ProductRecord \<Rightarrow> CandidateMatch list" where
  "scoredCandidates rt categories wordVectorizer categoryWordVectors charVectorizer
     categoryCharVectors product =
     (let oldTokens = newSet (normalizeTokens rt (categoryOld product));
          productTokenSet = newSet (tokens_prod product)
      in map (\<lambda>index.
                scoreCandidate
                  (wordScoreOf wordVectorizer categoryWordVectors product index)
                  (charScoreOf rt charVectorizer categoryCharVectors product index)
                  oldTokens productTokenSet (categories ! index))
             [0 ..< length categories])"

subsection \<open>The lexical gate (mapProducts, lines 248-282)\<close>

text \<open>The variables of the loop body that the later steps read and assign.\<close>

record verdict =
  rankedCandidates_v :: "CandidateMatch list"
  best_v :: "CandidateMatch option"
  second_v :: "CandidateMatch option"
  gap_v :: real
  summary_v :: "summary option"
  status_v :: status
  reason_v :: "phrase list"
  confidencePercent_v :: int

text \<open>\<open>best && second ? best.score - second.score : best?.score ?? 0\<close>.\<close>

definition gapOf :: "CandidateMatch option \<Rightarrow> CandidateMatch option \<Rightarrow> real" where
  "gapOf best second =
     (case best of
        None \<Rightarrow> 0
      | Some b \<Rightarrow> (case second of None \<Rightarrow> score b | Some s \<Rightarrow> fsub (score b) (score s)))"

definition summaryOf :: "CandidateMatch option \<Rightarrow> real \<Rightarrow> summary option" where
  "summaryOf best gap =
     (case best of
        None \<Rightarrow> None
      | Some b \<Rightarrow> Some \<lparr>score_s = score b, overlap_s = overlap b, gap_s = gap,
                        jaccard_s = jaccard b\<rparr>)"

text \<open>\<open>Math.round((best?.score ?? 0) * 100)\<close>.\<close>

definition confidenceOf :: "CandidateMatch option \<Rightarrow> int" where
  "confidenceOf best = Math_round (fmul (case best of None \<Rightarrow> 0 | Some b \<Rightarrow> score b) 100)"

definition lexicalGate :: "MappingOptions \<Rightarrow> CandidateMatch list \<Rightarrow> verdict" where
  "lexicalGate options scored =
     (let rankedCandidates = sortByScoreDesc score scored;
          best = arrayAt rankedCandidates 0;
          second = arrayAt rankedCandidates 1;
          gap = gapOf best second;
          summary = summaryOf best gap;
          confidencePercent = confidenceOf best
      in case best of
           None \<Rightarrow>
             \<lparr>rankedCandidates_v = rankedCandidates, best_v = best, second_v = second, gap_v = gap,
              summary_v = summary, status_v = not_mapped, reason_v = [NoCandidates],
              confidencePercent_v = confidencePercent\<rparr>
         | Some b \<Rightarrow>
             (let passesScore = (score b \<ge> similarityThreshold options);
                  passesOverlap = (real (overlap b) \<ge> tokenOverlapThreshold options);
                  passesGap = (gap \<ge> gapThreshold options);
                  passesJaccard = (jaccard b \<ge> binary64 (3 / 10));
                  allowMapping =
                    ((passesScore \<and> passesOverlap \<and> passesGap)
                     \<or> (passesScore \<and> passesOverlap \<and> passesJaccard
                          \<and> gap \<ge> fmul (gapThreshold options) (binary64 (4 / 10)))
                     \<or> (passesScore \<and> passesJaccard
                          \<and> real (overlap b) \<ge> fadd (tokenOverlapThreshold options) 1
                          \<and> (second = None
                              \<or> gap \<ge> fmul (gapThreshold options) (binary64 (2 / 10))))
                     \<or> (passesScore \<and> passesJaccard
                          \<and> score b \<ge> fadd (similarityThreshold options) (binary64 (8 / 100))))
              in if \<not> allowMapping
                 then \<lparr>rankedCandidates_v = rankedCandidates, best_v = best, second_v = second,
                       gap_v = gap, summary_v = summary, status_v = not_mapped,
                       reason_v = [LowConfidence summary],
                       confidencePercent_v = confidencePercent\<rparr>
                 else \<lparr>rankedCandidates_v = rankedCandidates, best_v = best, second_v = second,
                       gap_v = gap, summary_v = summary, status_v = mapped,
                       reason_v = [AutoMapped summary],
                       confidencePercent_v = confidencePercent\<rparr>))"

subsection \<open>refineWithOpenAI\<close>

record refinement =
  status_r :: status
  bestCandidate :: "CandidateMatch option"
  rankedCandidates_r :: "CandidateMatch list"
  confidence_r :: int
  reason_r :: "phrase list"

text \<open>Lines 407-414: the top candidates with their scores replaced by the cosines of
  the embeddings.\<close>

definition rescore :: "real list list \<Rightarrow> CandidateMatch list \<Rightarrow> CandidateMatch list" where
  "rescore embeddings topCandidates =
     (let productEmbedding = embeddings ! 0
      in map (\<lambda>(candidate, index).
                candidate\<lparr>score :=
                  toFixed6 (cosineSimilarity productEmbedding (embeddings ! (index + 1)))\<rparr>)
             (zip topCandidates [0 ..< length topCandidates]))"

text \<open>Lines 416-454: the decision on the rescored candidates, sorted, and the merged
  list that is returned with it.\<close>

definition decideRefinement ::
  "MappingOptions \<Rightarrow> CandidateMatch list \<Rightarrow> CandidateMatch list \<Rightarrow> refinement" where
  "decideRefinement options rescoredSorted mergedCandidates =
     (let best = arrayAt rescoredSorted 0;
          second = arrayAt rescoredSorted 1;
          gap = gapOf best second;
          confidencePercent = confidenceOf best;
          similarityThreshold = max (similarityThreshold options) OPENAI_SIMILARITY_THRESHOLD;
          gapThreshold = max (fdiv (gapThreshold options) 2) OPENAI_GAP_THRESHOLD;
          requiredOverlap = max 0 (fsub (tokenOverlapThreshold options) 1)
      in (case best of
            None \<Rightarrow>
              \<lparr>status_r = not_mapped, bestCandidate = None,
               rankedCandidates_r = mergedCandidates, confidence_r = confidencePercent,
               reason_r = [OpenAINoMatch 0 gap]\<rparr>
          | Some b \<Rightarrow>
              (if score b \<ge> similarityThreshold \<and> real (overlap b) \<ge> requiredOverlap
                  \<and> (second = None \<or> gap \<ge> gapThreshold)
               then \<lparr>status_r = mapped, bestCandidate = Some b,
                     rankedCandidates_r = mergedCandidates, confidence_r = confidencePercent,
                     reason_r = [OpenAIConfirmed (score b) gap]\<rparr>
               else \<lparr>status_r = not_mapped, bestCandidate = Some b,
                     rankedCandidates_r = mergedCandidates, confidence_r = confidencePercent,
                     reason_r = [OpenAINoMatch (score b) gap]\<rparr>)))"

text \<open>Lines 396-423, once the product has a text: the request, the rescoring and the
  merge. Reading \<open>embeddings[index + 1]\<close> (or \<open>embeddings[0]\<close>) beyond the response gives
  \<open>undefined\<close>, whose \<open>length\<close> \<open>cosineSimilarity\<close> reads: a \<open>TypeError\<close>.\<close>

definition rerank ::
  "runtime \<Rightarrow> jstring \<Rightarrow> jstring \<Rightarrow> CandidateMatch list \<Rightarrow> (jstring \<rightharpoonup> SeoCategory) \<Rightarrow>
   MappingOptions \<Rightarrow> thrown + refinement option" where
  "rerank rt apiKey productText ranked categoryMap options =
     (let topCandidates = take (min OPENAI_TOP_K (length ranked)) ranked
      in (if topCandidates = [] then Inr None
          else (let candidateTexts =
                      map (\<lambda>candidate.
                             (case categoryMap (categoryId candidate) of
                                Some category \<Rightarrow> rawPath category
                              | None \<Rightarrow> categoryPath candidate))
                          topCandidates
                in (case fetchOpenAIEmbeddings rt (productText # candidateTexts) apiKey of
                      Inl error \<Rightarrow> Inl error
                    | Inr embeddings \<Rightarrow>
                        (if length embeddings < Suc (length topCandidates) then Inl TypeError
                         else (let rescoredTop = rescore embeddings topCandidates;
                                   rescoredSorted = sortByScoreDesc score rescoredTop;
                                   mergedCandidates =
                                     sortByScoreDesc score
                                       (rescoredSorted @ drop (length topCandidates) ranked)
                               in Inr (Some (decideRefinement options rescoredSorted
                                               mergedCandidates))))))))"

text \<open>The result of \<open>refineWithOpenAI\<close> is a thrown value, \<open>null\<close> or a refinement.\<close>

definition refineWithOpenAI ::
  "runtime \<Rightarrow> ProductRecord \<Rightarrow> CandidateMatch list \<Rightarrow> (jstring \<rightharpoonup> SeoCategory) \<Rightarrow>
   MappingOptions \<Rightarrow> thrown + refinement option" where
  "refineWithOpenAI rt product ranked categoryMap options =
     (case openAIApiKey options of
        None \<Rightarrow> Inr None
      | Some apiKey \<Rightarrow>
          (if apiKey = [] then Inr None
           else (let productText = trim (aggregatedText product)
                 in (if productText = []
                     then Inr (Some \<lparr>status_r = not_mapped, bestCandidate = arrayAt ranked 0,
                                      rankedCandidates_r = ranked, confidence_r = 0,
                                      reason_r = [OpenAINoText]\<rparr>)
                     else rerank rt apiKey productText ranked categoryMap options))))"

subsection \<open>The fallback and the outcome (mapProducts, lines 284-348)\<close>

text \<open>\<open>summary ? `; ${summary}` : ''\<close>.\<close>

definition summaryPhrase :: "summary option \<Rightarrow> phrase list" where
  "summaryPhrase summary = (case summary of None \<Rightarrow> [] | Some s \<Rightarrow> [SummaryText s])"

text \<open>Lines 284-324. A throw of \<open>refineWithOpenAI\<close> happens before any assignment of
  the \<open>try\<close> block, so the \<open>catch\<close> changes the reason only.\<close>

definition openAIFallback ::
  "runtime \<Rightarrow> ProductRecord \<Rightarrow> (jstring \<rightharpoonup> SeoCategory) \<Rightarrow> MappingOptions \<Rightarrow> verdict \<Rightarrow> verdict" where
  "openAIFallback rt product categoryMap options v =
     (if status_v v = not_mapped \<and> useOpenAI options
         \<and> openAIApiKey options \<noteq> None \<and> openAIApiKey options \<noteq> Some []
      then case refineWithOpenAI rt product (rankedCandidates_v v) categoryMap options of
             Inl error \<Rightarrow>
               v\<lparr>reason_v :=
                   (if reason_v v \<noteq> [] then reason_v v @ [OpenAIFallbackError error]
                    else OpenAIFallbackError error # summaryPhrase (summary_v v))\<rparr>
           | Inr None \<Rightarrow> v
           | Inr (Some openAIResult) \<Rightarrow>
               (let ranked = rankedCandidates_r openAIResult;
                    best1 = arrayAt ranked 0;
                    second1 = arrayAt ranked 1;
                    gap1 = gapOf best1 second1;
                    summary1 = summaryOf best1 gap1;
                    confidence1 = confidenceOf best1
                in if status_r openAIResult = mapped \<and> bestCandidate openAIResult \<noteq> None
                   then (let best2 = bestCandidate openAIResult;
                             second2 = arrayAt ranked 1;
                             gap2 = gapOf best2 second2;
                             summary2 = summaryOf best2 gap2
                         in \<lparr>rankedCandidates_v = ranked, best_v = best2, second_v = second2,
                             gap_v = gap2, summary_v = summary2, status_v = mapped,
                             reason_v = reason_r openAIResult @ summaryPhrase summary2,
                             confidencePercent_v = confidence_r openAIResult\<rparr>)
                   else if reason_r openAIResult \<noteq> []
                   then \<lparr>rankedCandidates_v = ranked, best_v = best1, second_v = second1,
                         gap_v = gap1, summary_v = summary1, status_v = status_v v,
                         reason_v = reason_r openAIResult @ summaryPhrase summary1,
                         confidencePercent_v = confidence1\<rparr>
                   else \<lparr>rankedCandidates_v = ranked, best_v = best1, second_v = second1,
                         gap_v = gap1, summary_v = summary1, status_v = status_v v,
                         reason_v = reason_v v, confidencePercent_v = confidence1\<rparr>)
      else v)"

text \<open>Lines 326-348: the confidence note, the default reason and the record pushed.\<close>

definition finishProduct :: "MappingOptions \<Rightarrow> ProductRecord \<Rightarrow> verdict \<Rightarrow> MappedProduct" where
  "finishProduct options product v =
     (let reason1 =
            (if status_v v = not_mapped
                \<and> real_of_int (confidencePercent_v v) \<ge> confidenceMinPercent options
             then reason_v v @ [ConfidenceFloorNote] else reason_v v);
          reason2 =
            (if reason1 = []
             then (case summary_v v of
                     Some s \<Rightarrow>
                       (if status_v v = mapped then [AutoMapped (Some s)]
                        else [LowConfidence (Some s)])
                   | None \<Rightarrow>
                       (if status_v v = mapped then [AutoMapped None] else [CategoryNotFound]))
             else reason1)
      in \<lparr>productRecord = product,
          seoCategory =
            (if status_v v = mapped
             then (case best_v v of Some b \<Rightarrow> Some (categoryPath b) | None \<Rightarrow> None)
             else None),
          confidence = confidencePercent_v v,
          status = status_v v,
          candidates = take 5 (rankedCandidates_v v),
          reason = reason2\<rparr>)"

subsection \<open>mapProducts\<close>

text \<open>The models that \<open>mapProducts\<close> builds once from the corpus (lines 197-207).\<close>

record models =
  categoryMap_m :: "jstring \<rightharpoonup> SeoCategory"
  wordVectorizer_m :: TfIdfVectorizer
  categoryWordVectors_m :: "real list list"
  charVectorizer_m :: TfIdfVectorizer
  categoryCharVectors_m :: "real list list"

definition buildModels :: "runtime \<Rightarrow> SeoCategory list \<Rightarrow> models" where
  "buildModels rt categories =
     (let categoryMap = categoryMapOf categories;
          wordVectorizer = newTfIdfVectorizer rt (map tokens_cat categories);
          categoryWordVectors = map (\<lambda>c. vectorize wordVectorizer (tokens_cat c)) categories;
          categoryCharTokens = map (\<lambda>c. generateCharNgrams rt (rawPath c) 3 5) categories;
          charVectorizer = newTfIdfVectorizer rt categoryCharTokens;
          categoryCharVectors = map (\<lambda>tokens. vectorize charVectorizer tokens) categoryCharTokens
      in \<lparr>categoryMap_m = categoryMap, wordVectorizer_m = wordVectorizer,
          categoryWordVectors_m = categoryWordVectors, charVectorizer_m = charVectorizer,
          categoryCharVectors_m = categoryCharVectors\<rparr>)"

text \<open>One turn of the loop over \<open>products.records\<close> (lines 211-348).\<close>

definition lexicalVerdict ::
  "runtime \<Rightarrow> SeoCategory list \<Rightarrow> models \<Rightarrow> MappingOptions \<Rightarrow> ProductRecord \<Rightarrow> verdict" where
  "lexicalVerdict rt categories m options product =
     lexicalGate options
       (scoredCandidates rt categories (wordVectorizer_m m) (categoryWordVectors_m m)
          (charVectorizer_m m) (categoryCharVectors_m m) product)"

definition mapProduct ::
  "runtime \<Rightarrow> SeoCategory list \<Rightarrow> models \<Rightarrow> MappingOptions \<Rightarrow> ProductRecord \<Rightarrow> MappedProduct" where
  "mapProduct rt categories m options product =
     finishProduct options product
       (openAIFallback rt product (categoryMap_m m) options
          (lexicalVerdict rt categories m options product))"

text \<open>The message of the error for an empty corpus.\<close>

definition MSG_NOT_LOADED :: jstring where
  "MSG_NOT_LOADED =
     [83, 69, 79, 32, 1089, 1090, 1088, 1091, 1082, 1090, 1091, 1088, 1072, 32, 1085, 1077, 32,
      1079, 1072, 1075, 1088, 1091, 1078, 1077, 1085, 1072]"

definition mapProducts ::
  "runtime \<Rightarrow> SeoCategory list \<Rightarrow> ParsedProducts \<Rightarrow> MappingOptions \<Rightarrow> thrown + MappingResponse" where
  "mapProducts rt categories products options =
     (if categories = [] then Inl (Error MSG_NOT_LOADED)
      else
        let m = buildModels rt categories;
            mappedProducts = map (mapProduct rt categories m options) (records products);
            mappedCount = length (filter (\<lambda>item. status item = mapped) mappedProducts);
            categoriesUsed =
              length (newSet (concat (map (\<lambda>item.
                  case seoCategory item of
                    None \<Rightarrow> []
                  | Some path \<Rightarrow> if path = [] then [] else [path]) mappedProducts)))
        in Inr \<lparr>items = mappedProducts,
                stats = \<lparr>brandName_stats = brandName products,
                          sourceFile_stats = sourceFile_parsed products,
                          totalProducts = length mappedProducts,
                          mappedProducts = mappedCount,
                          unmappedProducts = length mappedProducts - mappedCount,
                          mappingSuccessRate =
                            (if length mappedProducts > 0
                             then fmul (fdiv (real mappedCount) (real (length mappedProducts))) 100
                             else 0),
                          categoriesUsed = categoriesUsed\<rparr>\<rparr>)"

section \<open>The notions of the specification\<close>

subsection \<open>The numbers of a format\<close>

text \<open>The numbers of a binary format with \<open>p\<close> significant bits: \<open>m \<sqdot> 2\<^sup>k\<close> with
  \<open>\<bar>m\<bar> < 2\<^sup>p\<close> and \<open>k\<close> not below the exponent of the subnormal numbers.\<close>

definition representable :: "nat \<Rightarrow> int \<Rightarrow> real \<Rightarrow> bool" where
  "representable p emin x \<longleftrightarrow>
     (\<exists>m k. x = of_int m * 2 powi k \<and> \<bar>m\<bar> < 2 ^ p \<and> emin - int p + 1 \<le> k)"

subsection \<open>The acceptance gate\<close>

text \<open>The arithmetic of the specification is that of the numbers of the program: a
  difference, a sum or a product is the double that the operation delivers, and a decimal
  constant is the double that it denotes.\<close>

text \<open>The gap of the specification: the best score minus the second score when there
  is a second candidate, the best score otherwise.\<close>

definition gapSpec :: "CandidateMatch \<Rightarrow> CandidateMatch option \<Rightarrow> real" where
  "gapSpec b second =
     (case second of Some s \<Rightarrow> fsub (score b) (score s) | None \<Rightarrow> score b)"

definition R1 :: "MappingOptions \<Rightarrow> CandidateMatch \<Rightarrow> real \<Rightarrow> bool" where
  "R1 options b g \<longleftrightarrow>
     score b \<ge> similarityThreshold options \<and> real (overlap b) \<ge> tokenOverlapThreshold options
     \<and> g \<ge> gapThreshold options"

definition R2 :: "MappingOptions \<Rightarrow> CandidateMatch \<Rightarrow> real \<Rightarrow> bool" where
  "R2 options b g \<longleftrightarrow>
     score b \<ge> similarityThreshold options \<and> real (overlap b) \<ge> tokenOverlapThreshold options
     \<and> jaccard b \<ge> binary64 (3 / 10) \<and> g \<ge> fmul (binary64 (4 / 10)) (gapThreshold options)"

definition R3 :: "MappingOptions \<Rightarrow> CandidateMatch \<Rightarrow> CandidateMatch option \<Rightarrow> real \<Rightarrow> bool" where
  "R3 options b second g \<longleftrightarrow>
     score b \<ge> similarityThreshold options \<and> jaccard b \<ge> binary64 (3 / 10)
     \<and> real (overlap b) \<ge> fadd (tokenOverlapThreshold options) 1
     \<and> (second = None \<or> g \<ge> fmul (binary64 (2 / 10)) (gapThreshold options))"

definition R4 :: "MappingOptions \<Rightarrow> CandidateMatch \<Rightarrow> bool" where
  "R4 options b \<longleftrightarrow>
     score b \<ge> similarityThreshold options \<and> jaccard b \<ge> binary64 (3 / 10)
     \<and> score b \<ge> fadd (similarityThreshold options) (binary64 (8 / 100))"

text \<open>The gate on a ranked list: there is a best candidate, and one of the four rules
  admits it.\<close>

definition gateSpec :: "MappingOptions \<Rightarrow> CandidateMatch list \<Rightarrow> bool" where
  "gateSpec options ranked =
     (case ranked of
        [] \<Rightarrow> False
      | b # rest \<Rightarrow>
          (let second = (case rest of [] \<Rightarrow> None | s # _ \<Rightarrow> Some s);
               g = gapSpec b second
           in R1 options b g \<or> R2 options b g \<or> R3 options b second g \<or> R4 options b))"

text \<open>The stricter acceptance of the reranker on a sorted list: the first candidate is
  the best, the next one the number two.\<close>

definition strictGate :: "MappingOptions \<Rightarrow> CandidateMatch list \<Rightarrow> bool" where
  "strictGate options cs =
     (case cs of
        [] \<Rightarrow> False
      | b # rest \<Rightarrow>
          score b \<ge> max (similarityThreshold options) (binary64 (78 / 100))
          \<and> real (overlap b) \<ge> max 0 (fsub (tokenOverlapThreshold options) 1)
          \<and> (case rest of
                [] \<Rightarrow> True
              | s # _ \<Rightarrow>
                  fsub (score b) (score s)
                    \<ge> max (fdiv (gapThreshold options) 2) (binary64 (2 / 100))))"

text \<open>The candidates of a product in a corpus, scored with the models of the corpus and
  sorted (lines 197-248).\<close>

definition lexicalRanking ::
  "runtime \<Rightarrow> SeoCategory list \<Rightarrow> ProductRecord \<Rightarrow> CandidateMatch list" where
  "lexicalRanking rt categories product =
     sortByScoreDesc score
       (scoredCandidates rt categories
          (wordVectorizer_m (buildModels rt categories))
          (categoryWordVectors_m (buildModels rt categories))
          (charVectorizer_m (buildModels rt categories))
          (categoryCharVectors_m (buildModels rt categories)) product)"

subsection \<open>The reranker seen from the loop\<close>

text \<open>The response to the request that the reranker sends for a ranked list.\<close>

definition rerankResult ::
  "runtime \<Rightarrow> jstring \<Rightarrow> jstring \<Rightarrow> CandidateMatch list \<Rightarrow> (jstring \<rightharpoonup> SeoCategory) \<Rightarrow>
   thrown + real list list" where
  "rerankResult rt apiKey productText ranked categoryMap =
     fetchOpenAIEmbeddings rt
       (productText # map (\<lambda>candidate.
                             (case categoryMap (categoryId candidate) of
                                Some category \<Rightarrow> rawPath category
                              | None \<Rightarrow> categoryPath candidate))
                          (take (min OPENAI_TOP_K (length ranked)) ranked)) apiKey"

text \<open>\<open>refineWithOpenAI\<close> delivers a refinement that maps the product.\<close>

definition refineAccepts ::
  "runtime \<Rightarrow> ProductRecord \<Rightarrow> CandidateMatch list \<Rightarrow> (jstring \<rightharpoonup> SeoCategory) \<Rightarrow>
   MappingOptions \<Rightarrow> bool" where
  "refineAccepts rt product ranked categoryMap options =
     (case refineWithOpenAI rt product ranked categoryMap options of
        Inl error \<Rightarrow> False
      | Inr None \<Rightarrow> False
      | Inr (Some r) \<Rightarrow> status_r r = mapped \<and> bestCandidate r \<noteq> None)"

subsection \<open>A run\<close>

text \<open>The outcomes of a run, one per product; none when the run is aborted.\<close>

definition outcomes ::
  "runtime \<Rightarrow> SeoCategory list \<Rightarrow> ParsedProducts \<Rightarrow> MappingOptions \<Rightarrow> MappedProduct list" where
  "outcomes rt categories products options =
     (case mapProducts rt categories products options of
        Inl error \<Rightarrow> []
      | Inr response \<Rightarrow> items response)"

subsection \<open>The combined score\<close>

text \<open>The stem-overlap count of two token lists and the Jaccard index of their token
  sets.\<close>

definition stemOverlap :: "jstring list \<Rightarrow> jstring list \<Rightarrow> nat" where
  "stemOverlap a b = card (set a \<inter> set b)"

definition jaccardIndex :: "jstring list \<Rightarrow> jstring list \<Rightarrow> real" where
  "jaccardIndex a b =
     (if set a \<union> set b = {} then 0
      else fdiv (real (card (set a \<inter> set b))) (real (card (set a \<union> set b))))"

text \<open>The combined value of the specification, from the two cosines, the terms being
  added from left to right: the legacy boost is added when the product carries a legacy
  label and the overlap is positive, without a cap.\<close>

definition combinedSpec ::
  "runtime \<Rightarrow> real \<Rightarrow> real \<Rightarrow> ProductRecord \<Rightarrow> SeoCategory \<Rightarrow> real" where
  "combinedSpec rt wordCosine charCosine product category =
     (let axes = fadd (fmul (binary64 (6 / 10)) wordCosine)
                      (fmul (binary64 (4 / 10)) charCosine);
          legacy = stemOverlap (normalizeTokens rt (categoryOld product)) (tokens_cat category);
          boosted = (if categoryOld product \<noteq> None \<and> legacy > 0
                     then fadd axes (fmul (binary64 (5 / 100)) (real legacy))
                     else axes)
      in fadd boosted
           (fmul (binary64 (1 / 10))
              (jaccardIndex (tokens_prod product) (tokens_cat category))))"

text \<open>A vector whose entries are all zero.\<close>

definition allZero :: "real list \<Rightarrow> bool" where
  "allZero v = list_all (\<lambda>x. x = 0) v"

subsection \<open>The outcome of one product\<close>

text \<open>The variables of the loop body at the moment the outcome is pushed.\<close>

definition finalVerdict ::
  "runtime \<Rightarrow> SeoCategory list \<Rightarrow> MappingOptions \<Rightarrow> ProductRecord \<Rightarrow> verdict" where
  "finalVerdict rt categories options product =
     openAIFallback rt product (categoryMap_m (buildModels rt categories)) options
       (lexicalVerdict rt categories (buildModels rt categories) options product)"

subsection \<open>The order of the candidates\<close>

definition sortedDesc :: "CandidateMatch list \<Rightarrow> bool" where
  "sortedDesc cs = sorted_wrt (\<lambda>a b. score b \<le> score a) cs"

text \<open>What the loop body maintains: there are candidates, they are sorted, there is a
  best one, the confidence is computed from it, and a product that is not mapped has the
  head of the list as its best candidate.\<close>

definition coherent :: "verdict \<Rightarrow> bool" where
  "coherent v \<longleftrightarrow>
     rankedCandidates_v v \<noteq> []
     \<and> sortedDesc (rankedCandidates_v v)
     \<and> best_v v \<noteq> None
     \<and> confidencePercent_v v = confidenceOf (best_v v)
     \<and> (status_v v = not_mapped \<longrightarrow> best_v v = arrayAt (rankedCandidates_v v) 0)"




section \<open>Sample inputs\<close>

text \<open>
  A runtime for texts of Latin letters, basic Cyrillic letters and digits: lower-casing
  and the canonicalisation of the flag \<open>i\<close> shift the capital letters, and the stemmer
  leaves a word without Cyrillic letters as it is (the Russian Snowball stemmer removes
  Cyrillic suffixes only). Its \<open>Math.log\<close> is the correctly rounded logarithm. The
  embedding service is the argument.
\<close>

definition sampleToLowerCase :: "jstring \<Rightarrow> jstring" where
  "sampleToLowerCase s =
     map (\<lambda>c. if (65 \<le> c \<and> c \<le> 90) \<or> (1040 \<le> c \<and> c \<le> 1071) then c + 32
              else if c = 1025 then 1105 else c) s"

definition sampleCanonicalize :: "jchar \<Rightarrow> jchar" where
  "sampleCanonicalize c =
     (if (97 \<le> c \<and> c \<le> 122) \<or> (1072 \<le> c \<and> c \<le> 1103) then c - 32
      else if c = 1105 then 1025 else c)"

definition sampleRuntime :: "(jstring list \<Rightarrow> jstring \<Rightarrow> thrown + real list list) \<Rightarrow> runtime" where
  "sampleRuntime f =
     \<lparr>toLowerCase = sampleToLowerCase, canonicalize = sampleCanonicalize,
      stem = (\<lambda>w. w), fetch = f, Math_log = (\<lambda>x. binary64 (ln x))\<rparr>"

text \<open>A service that is down: every request throws.\<close>

definition failingFetch :: "jstring list \<Rightarrow> jstring \<Rightarrow> thrown + real list list" where
  "failingFetch inputs apiKey = Inl (Error [53, 48, 51])"

text \<open>The category \<open>aaa\<close> as \<open>parseSeoStructure\<close> builds it, and the product of a row
  whose only cell is the product name \<open>aaa\<close>, as \<open>parseProducts\<close> builds it.\<close>

definition catA :: SeoCategory where
  "catA = \<lparr>id_cat = [99, 49], rawPath = [97, 97, 97], levels = [[97, 97, 97]],
           tokens_cat = [[97, 97, 97]], normalizedText = [97, 97, 97]\<rparr>"

definition productA :: ProductRecord where
  "productA =
     \<lparr>id_prod = [112, 49], sourceFile = [102], rowIndex = 0,
      fields_prod = [COL_Product_name \<mapsto> [97, 97, 97]],
      productName = [97, 97, 97], categoryOld = None, description = None,
      aggregatedText = [97, 97, 97], tokens_prod = [[97, 97, 97]]\<rparr>"

text \<open>The models of the corpus \<open>[catA]\<close> and the candidate of \<open>productA\<close> in it.\<close>

definition modelsA :: models where
  "modelsA =
     \<lparr>categoryMap_m = [[99, 49] \<mapsto> catA],
      wordVectorizer_m = \<lparr>vocabulary = [[97, 97, 97]], idf = [1]\<rparr>,
      categoryWordVectors_m = [[1]],
      charVectorizer_m = \<lparr>vocabulary = [[97, 97, 97]], idf = [1]\<rparr>,
      categoryCharVectors_m = [[1]]\<rparr>"

definition candA :: CandidateMatch where
  "candA = \<lparr>categoryId = [99, 49], categoryPath = [97, 97, 97], score = binary64 (11 / 10),
            overlap = 1, jaccard = 1\<rparr>"

text \<open>Options with reranking switched on and a credential.\<close>

definition rerankOptions :: MappingOptions where
  "rerankOptions = DEFAULT_OPTIONS\<lparr>useOpenAI := True, openAIApiKey := Some [107]\<rparr>"

text \<open>The sheet with the single row of \<open>productA\<close>.\<close>

definition parsedA :: ParsedProducts where
  "parsedA = \<lparr>brandName = None, sourceFile_parsed = [102], records = [productA]\<rparr>"

text \<open>The product of a row with the same product name and a description \<open>zzz\<close>.\<close>

definition productD :: ProductRecord where
  "productD =
     \<lparr>id_prod = [112, 50], sourceFile = [102], rowIndex = 1,
      fields_prod = [COL_Product_name \<mapsto> [97, 97, 97], COL_Description \<mapsto> [122, 122, 122]],
      productName = [97, 97, 97], categoryOld = None, description = Some [122, 122, 122],
      aggregatedText = [97, 97, 97, 32, 122, 122, 122],
      tokens_prod = [[97, 97, 97], [122, 122, 122]]\<rparr>"

text \<open>Reranking switched on, with a similarity threshold that no lexical score of the
  samples reaches.\<close>

definition strictOptions :: MappingOptions where
  "strictOptions = rerankOptions\<lparr>similarityThreshold := 2\<rparr>"

text \<open>The product of a row whose product name is \<open>aaa bbb ccc\<close>, the product of a
  row whose only cell is in a column \<open>SKU\<close> that the parser does not read, and thresholds
  that are all zero.\<close>

definition productT :: ProductRecord where
  "productT =
     \<lparr>id_prod = [112, 51], sourceFile = [102], rowIndex = 2,
      fields_prod = [COL_Product_name \<mapsto> [97, 97, 97, 32, 98, 98, 98, 32, 99, 99, 99]],
      productName = [97, 97, 97, 32, 98, 98, 98, 32, 99, 99, 99], categoryOld = None,
      description = None,
      aggregatedText = [97, 97, 97, 32, 98, 98, 98, 32, 99, 99, 99],
      tokens_prod = [[97, 97, 97], [98, 98, 98], [99, 99, 99]]\<rparr>"

definition rowE :: "jstring \<rightharpoonup> jstring" where
  "rowE = [[83, 75, 85] \<mapsto> [49]]"

definition productE :: ProductRecord where
  "productE =
     \<lparr>id_prod = [112, 52], sourceFile = [102], rowIndex = 3, fields_prod = rowE,
      productName = [], categoryOld = None, description = None, aggregatedText = [],
      tokens_prod = []\<rparr>"

definition zeroOptions :: MappingOptions where
  "zeroOptions =
     DEFAULT_OPTIONS\<lparr>similarityThreshold := 0, gapThreshold := 0, tokenOverlapThreshold := 0\<rparr>"

text \<open>Seven categories \<open>aaa\<close>, \<open>bbb\<close>, \<dots>, \<open>ggg\<close> as \<open>parseSeoStructure\<close> builds them,
  and a product \<open>zzz\<close> that shares nothing with them.\<close>

definition tripleCategory :: "jchar \<Rightarrow> jchar \<Rightarrow> SeoCategory" where
  "tripleCategory n c =
     \<lparr>id_cat = [99, n], rawPath = [c, c, c], levels = [[c, c, c]], tokens_cat = [[c, c, c]],
      normalizedText = [c, c, c]\<rparr>"

definition cats7 :: "SeoCategory list" where
  "cats7 = [catA, tripleCategory 50 98, tripleCategory 51 99, tripleCategory 52 100,
            tripleCategory 53 101, tripleCategory 54 102, tripleCategory 55 103]"

definition productZ :: ProductRecord where
  "productZ =
     \<lparr>id_prod = [112, 53], sourceFile = [102], rowIndex = 4,
      fields_prod = [COL_Product_name \<mapsto> [122, 122, 122]],
      productName = [122, 122, 122], categoryOld = None, description = None,
      aggregatedText = [122, 122, 122], tokens_prod = [[122, 122, 122]]\<rparr>"

definition parsedZ :: ParsedProducts where
  "parsedZ = \<lparr>brandName = None, sourceFile_parsed = [102], records = [productZ]\<rparr>"

text \<open>Candidates without overlap: the lexical candidates of \<open>zzz\<close>, the first six of
  them rescored, and the merged list.\<close>

definition plainCandidate :: "jchar \<Rightarrow> jchar \<Rightarrow> real \<Rightarrow> CandidateMatch" where
  "plainCandidate n c s =
     \<lparr>categoryId = [99, n], categoryPath = [c, c, c], score = s, overlap = 0, jaccard = 0\<rparr>"

definition zeros7 :: "CandidateMatch list" where
  "zeros7 = [plainCandidate 49 97 0, plainCandidate 50 98 0, plainCandidate 51 99 0,
             plainCandidate 52 100 0, plainCandidate 53 101 0, plainCandidate 54 102 0,
             plainCandidate 55 103 0]"

definition rescored7 :: "CandidateMatch list" where
  "rescored7 = [plainCandidate 49 97 1, plainCandidate 50 98 (- 1), plainCandidate 51 99 (- 1),
                plainCandidate 52 100 (- 1), plainCandidate 53 101 (- 1),
                plainCandidate 54 102 (- 1)]"

definition merged7 :: "CandidateMatch list" where
  "merged7 = [plainCandidate 49 97 1, plainCandidate 55 103 0, plainCandidate 50 98 (- 1),
              plainCandidate 51 99 (- 1), plainCandidate 52 100 (- 1),
              plainCandidate 53 101 (- 1), plainCandidate 54 102 (- 1)]"

text \<open>A service that answers with one-dimensional embeddings: the product and the
  first candidate point one way, all other candidates the other way.\<close>

definition fetchFirst :: "jstring list \<Rightarrow> jstring \<Rightarrow> thrown + real list list" where
  "fetchFirst inputs apiKey =
     Inr (map (\<lambda>i. if i < 2 then [1] else [- 1]) [0 ..< length inputs])"

text \<open>Reranking switched on, with a gap threshold of 3.\<close>

definition wideGapOptions :: MappingOptions where
  "wideGapOptions = rerankOptions\<lparr>gapThreshold := 3\<rparr>"







section \<open>Auxiliary facts\<close>

subsection \<open>Rounding\<close>

lemma roundHalfEven_of_int: "roundHalfEven (of_int n) = n"
  by (simp add: roundHalfEven_def)

lemma roundHalfEven_upper: "of_int (roundHalfEven y) \<le> y + 1 / 2"
  unfolding roundHalfEven_def Let_def by (auto; linarith)

lemma roundHalfEven_lower: "y - 1 / 2 \<le> of_int (roundHalfEven y)"
  unfolding roundHalfEven_def Let_def by (auto; linarith)

lemma roundHalfEven_mono:
  assumes "x \<le> y"
  shows "roundHalfEven x \<le> roundHalfEven y"
proof (rule ccontr)
  assume "\<not> roundHalfEven x \<le> roundHalfEven y"
  then have gt: "roundHalfEven y + 1 \<le> roundHalfEven x" by simp
  then have "real_of_int (roundHalfEven y) + 1 \<le> real_of_int (roundHalfEven x)"
    by linarith
  with roundHalfEven_upper [of x] roundHalfEven_lower [of y] assms
  have "x = y" by linarith
  with gt show False by simp
qed

lemma roundHalfEven_uminus: "roundHalfEven (- y) = - roundHalfEven y"
proof (cases "y = of_int \<lfloor>y\<rfloor>")
  case True
  then obtain n where "y = of_int n" ..
  then have "- y = of_int (- n)" by simp
  then show ?thesis
    unfolding \<open>y = of_int n\<close> roundHalfEven_of_int
    by (metis \<open>y = of_int n\<close> roundHalfEven_of_int)
next
  case False
  then have fl: "\<lfloor>- y\<rfloor> = - \<lfloor>y\<rfloor> - 1"
    by (metis ceiling_altdef ceiling_def minus_diff_eq uminus_add_conv_diff add.commute
        diff_minus_eq_add floor_minus minus_minus of_int_floor_cancel)
  have d: "0 < y - of_int \<lfloor>y\<rfloor>" using False
    by (metis diff_gt_0_iff_gt less_eq_real_def of_int_floor_le)
  show ?thesis
    unfolding roundHalfEven_def Let_def fl using d by auto
qed


lemma binade_ge: "emin \<le> binade emin x"
  by (simp add: binade_def)

lemma binade_uminus: "binade emin (- x) = binade emin x"
  by (simp add: binade_def)

lemma powi2_pos: "0 < (2::real) powi k"
  by (simp add: zero_less_power_int)

lemma floor_log2_bounds:
  assumes "0 < x"
  shows "2 powi \<lfloor>log 2 x\<rfloor> \<le> x" "x < 2 powi (\<lfloor>log 2 x\<rfloor> + 1)"
proof -
  have a: "(2::real) powr real_of_int \<lfloor>log 2 x\<rfloor> = 2 powi \<lfloor>log 2 x\<rfloor>"
    by (rule powr_real_of_int') simp_all
  have b: "(2::real) powr real_of_int (\<lfloor>log 2 x\<rfloor> + 1) = 2 powi (\<lfloor>log 2 x\<rfloor> + 1)"
    by (rule powr_real_of_int') simp_all
  have "2 powr real_of_int \<lfloor>log 2 x\<rfloor> \<le> x \<and> x < 2 powr real_of_int (\<lfloor>log 2 x\<rfloor> + 1)"
    using floor_log_eq_powr_iff [of x 2 "\<lfloor>log 2 x\<rfloor>"] assms by fastforce
  then show "2 powi \<lfloor>log 2 x\<rfloor> \<le> x" "x < 2 powi (\<lfloor>log 2 x\<rfloor> + 1)"
    unfolding a b by blast+
qed

lemma floor_log2_eq:
  assumes "2 powi e \<le> x" "x < 2 powi (e + 1)"
  shows "\<lfloor>log 2 x\<rfloor> = e"
proof -
  have a: "(2::real) powr real_of_int e = 2 powi e"
    by (rule powr_real_of_int') simp_all
  have b: "(2::real) powr real_of_int (e + 1) = 2 powi (e + 1)"
    by (rule powr_real_of_int') simp_all
  have "0 < x" using assms(1) powi2_pos [of e] by linarith
  then have "(\<lfloor>log 2 x\<rfloor> = e) = (2 powr real_of_int e \<le> x \<and> x < 2 powr real_of_int (e + 1))"
    by (intro floor_log_eq_powr_iff) simp_all
  then show ?thesis unfolding a b using assms by blast
qed

lemma binade_upper:
  assumes "x \<noteq> 0"
  shows "\<bar>x\<bar> < 2 powi (binade emin x + 1)"
proof -
  have "\<bar>x\<bar> < 2 powi (\<lfloor>log 2 \<bar>x\<bar>\<rfloor> + 1)"
    using floor_log2_bounds(2) [of "\<bar>x\<bar>"] assms by simp
  also have "\<dots> \<le> 2 powi (binade emin x + 1)"
    by (rule power_int_increasing) (simp_all add: binade_def)
  finally show ?thesis .
qed

lemma binade_lower:
  assumes "x \<noteq> 0" "emin < binade emin x"
  shows "2 powi (binade emin x) \<le> \<bar>x\<bar>"
proof -
  have "binade emin x = \<lfloor>log 2 \<bar>x\<bar>\<rfloor>" using assms(2) by (simp add: binade_def max_def split: if_splits)
  then show ?thesis using floor_log2_bounds(1) [of "\<bar>x\<bar>"] assms(1) by simp
qed

lemma binade_eq:
  assumes "emin \<le> e" "2 powi e \<le> \<bar>x\<bar>" "\<bar>x\<bar> < 2 powi (e + 1)"
  shows "binade emin x = e"
  using floor_log2_eq [OF assms(2,3)] assms(1) by (simp add: binade_def)

lemma binade_subnormal:
  assumes "x \<noteq> 0" "\<bar>x\<bar> < 2 powi emin"
  shows "binade emin x = emin"
proof -
  have "2 powi \<lfloor>log 2 \<bar>x\<bar>\<rfloor> < (2::real) powi emin"
    using floor_log2_bounds(1) [of "\<bar>x\<bar>"] assms by simp
  then have "\<lfloor>log 2 \<bar>x\<bar>\<rfloor> < emin"
    by (metis linorder_not_less one_le_numeral power_int_increasing)
  then show ?thesis by (simp add: binade_def)
qed

lemma binade_mono:
  assumes "x \<noteq> 0" "\<bar>x\<bar> \<le> \<bar>y\<bar>"
  shows "binade emin x \<le> binade emin y"
proof -
  have "log 2 \<bar>x\<bar> \<le> log 2 \<bar>y\<bar>" using assms by simp
  then have "\<lfloor>log 2 \<bar>x\<bar>\<rfloor> \<le> \<lfloor>log 2 \<bar>y\<bar>\<rfloor>" by (rule floor_mono)
  then show ?thesis by (simp add: binade_def)
qed

lemma roundBinary_0: "roundBinary p emin 0 = 0"
  by (simp add: roundBinary_def)

lemma roundBinary_uminus: "roundBinary p emin (- x) = - roundBinary p emin x"
  by (simp add: roundBinary_def binade_uminus roundHalfEven_uminus Let_def)

lemma roundBinary_eval:
  assumes "emin \<le> e" "2 powi e \<le> \<bar>x\<bar>" "\<bar>x\<bar> < 2 powi (e + 1)"
  shows "roundBinary p emin x =
           of_int (roundHalfEven (x / 2 powi (e - int p + 1))) * 2 powi (e - int p + 1)"
proof -
  have "0 < \<bar>x\<bar>" using assms(2) powi2_pos [of e] by linarith
  then have "x \<noteq> 0" by simp
  then show ?thesis
    by (simp add: roundBinary_def Let_def binade_eq [OF assms])
qed

lemma roundBinary_eval_subnormal:
  assumes "\<bar>x\<bar> < 2 powi emin"
  shows "roundBinary p emin x =
           of_int (roundHalfEven (x / 2 powi (emin - int p + 1))) * 2 powi (emin - int p + 1)"
proof (cases "x = 0")
  case True
  then show ?thesis by (simp add: roundBinary_def roundHalfEven_def)
next
  case False
  then show ?thesis
    by (simp add: roundBinary_def Let_def binade_subnormal [OF False assms])
qed

lemma roundBinary_exact:
  assumes "representable p emin x"
  shows "roundBinary p emin x = x"
proof (cases "x = 0")
  case True
  then show ?thesis by (simp add: roundBinary_0)
next
  case False
  from assms obtain m k where x: "x = of_int m * 2 powi k" and m: "\<bar>m\<bar> < 2 ^ p"
    and k: "emin - int p + 1 \<le> k"
    unfolding representable_def by blast
  define e where "e = binade emin x"
  have "e \<le> k + int p - 1 \<or> e = emin"
  proof (cases "emin < e")
    case True
    then have "2 powi e \<le> \<bar>x\<bar>" using binade_lower [OF False] by (simp add: e_def)
    also have "\<bar>x\<bar> = of_int \<bar>m\<bar> * 2 powi k" by (simp add: x abs_mult)
    also have "\<dots> < 2 ^ p * 2 powi k"
    proof -
      have "real_of_int \<bar>m\<bar> < 2 ^ p" using m by (metis of_int_less_numeral_power_cancel_iff)
      then show ?thesis by (simp add: zero_less_power_int)
    qed
    also have "\<dots> = 2 powi (int p + k)" by (simp add: power_int_add)
    finally have "e < int p + k"
      by (metis linorder_not_less one_le_numeral power_int_increasing)
    then show ?thesis by simp
  next
    case False
    then show ?thesis using binade_ge [of emin x] by (simp add: e_def)
  qed
  with k have le: "e - int p + 1 \<le> k" by auto
  define j where "j = nat (k - (e - int p + 1))"
  have kj: "k = (e - int p + 1) + int j" using le by (simp add: j_def)
  have "x / 2 powi (e - int p + 1) = of_int (m * 2 ^ j)"
    by (simp add: x kj power_int_add)
  then have "roundHalfEven (x / 2 powi (e - int p + 1)) = m * 2 ^ j"
    by (simp only: roundHalfEven_of_int)
  then have "roundBinary p emin x = of_int (m * 2 ^ j) * 2 powi (e - int p + 1)"
    using False by (simp add: roundBinary_def Let_def e_def)
  also have "\<dots> = x" by (simp add: x kj power_int_add)
  finally show ?thesis .
qed


lemma roundBinary_nonneg:
  assumes "0 \<le> x"
  shows "0 \<le> roundBinary p emin x"
proof (cases "x = 0")
  case True
  then show ?thesis by (simp add: roundBinary_0)
next
  case False
  define u :: real where "u = 2 powi (binade emin x - int p + 1)"
  have u: "0 < u" by (simp add: u_def powi2_pos)
  have "0 \<le> x / u" using assms u by simp
  then have "roundHalfEven 0 \<le> roundHalfEven (x / u)" by (rule roundHalfEven_mono)
  then have "0 \<le> roundHalfEven (x / u)" using roundHalfEven_of_int [of 0] by simp
  then show ?thesis using False u by (simp add: roundBinary_def Let_def u_def)
qed

lemma roundBinary_mono_pos:
  assumes p: "0 < p" and x: "0 < x" and xy: "x \<le> y"
  shows "roundBinary p emin x \<le> roundBinary p emin y"
proof -
  define e1 where "e1 = binade emin x"
  define e2 where "e2 = binade emin y"
  define u1 :: real where "u1 = 2 powi (e1 - int p + 1)"
  define u2 :: real where "u2 = 2 powi (e2 - int p + 1)"
  have u1: "0 < u1" and u2: "0 < u2" by (simp_all add: u1_def u2_def powi2_pos)
  have y: "0 < y" using x xy by simp
  have Rx: "roundBinary p emin x = of_int (roundHalfEven (x / u1)) * u1"
    using x by (simp add: roundBinary_def Let_def u1_def e1_def)
  have Ry: "roundBinary p emin y = of_int (roundHalfEven (y / u2)) * u2"
    using y by (simp add: roundBinary_def Let_def u2_def e2_def)
  have le: "e1 \<le> e2" unfolding e1_def e2_def using x xy by (intro binade_mono) simp_all
  show ?thesis
  proof (cases "e1 = e2")
    case True
    then have "u1 = u2" by (simp add: u1_def u2_def)
    moreover have "x / u2 \<le> y / u2" using xy u2 by (simp add: divide_right_mono)
    then have "roundHalfEven (x / u2) \<le> roundHalfEven (y / u2)" by (rule roundHalfEven_mono)
    ultimately show ?thesis unfolding Rx Ry using u2 by simp
  next
    case False
    with le have lt: "e1 < e2" by simp
    have "x < 2 powi (e1 + 1)" using binade_upper [of x emin] x by (simp add: e1_def)
    then have "x / u1 < 2 powi (e1 + 1) / u1" using u1 by (simp add: divide_strict_right_mono)
    also have "2 powi (e1 + 1) / u1 = (2::real) powi (int p)"
      unfolding u1_def by (subst power_int_diff [symmetric]) simp_all
    also have "\<dots> = of_int (2 ^ p)" by simp
    finally have "roundHalfEven (x / u1) \<le> roundHalfEven (of_int (2 ^ p))"
      by (intro roundHalfEven_mono) simp
    then have "roundHalfEven (x / u1) \<le> 2 ^ p" by (simp only: roundHalfEven_of_int)
    then have "real_of_int (roundHalfEven (x / u1)) \<le> 2 ^ p"
      by (metis of_int_le_numeral_power_cancel_iff)
    then have "roundBinary p emin x \<le> 2 ^ p * u1" unfolding Rx using u1 by simp
    also have "2 ^ p * u1 = 2 powi (e1 + 1)"
      unfolding u1_def by (simp add: power_int_add power_int_diff)
    also have "\<dots> \<le> 2 powi e2" using lt by (intro power_int_increasing) simp_all
    finally have a: "roundBinary p emin x \<le> 2 powi e2" .
    have "emin < e2" using lt binade_ge [of emin x] by (simp add: e1_def)
    then have "2 powi e2 \<le> y" using binade_lower [of y emin] y by (simp add: e2_def)
    then have "2 powi e2 / u2 \<le> y / u2" using u2 by (simp add: divide_right_mono)
    moreover have "2 powi e2 / u2 = (2::real) powi (int (p - 1))"
      unfolding u2_def using p by (subst power_int_diff [symmetric]) (simp_all add: of_nat_diff)
    moreover have "(2::real) powi (int (p - 1)) = of_int (2 ^ (p - 1))" by simp
    ultimately have "roundHalfEven (of_int (2 ^ (p - 1))) \<le> roundHalfEven (y / u2)"
      by (intro roundHalfEven_mono) simp
    then have "2 ^ (p - 1) \<le> roundHalfEven (y / u2)" by (simp only: roundHalfEven_of_int)
    then have "2 ^ (p - 1) \<le> real_of_int (roundHalfEven (y / u2))"
      by (metis numeral_power_le_of_int_cancel_iff)
    then have "2 ^ (p - 1) * u2 \<le> roundBinary p emin y" unfolding Ry using u2 by simp
    moreover have "2 ^ (p - 1) * u2 = 2 powi e2"
    proof -
      have "(2::real) ^ (p - 1) * u2 = 2 powi (int (p - 1)) * 2 powi (e2 - int p + 1)"
        by (simp add: u2_def)
      also have "\<dots> = 2 powi (int (p - 1) + (e2 - int p + 1))"
        by (subst power_int_add) simp_all
      also have "int (p - 1) + (e2 - int p + 1) = e2" using p by (simp add: of_nat_diff)
      finally show ?thesis .
    qed
    ultimately have b: "2 powi e2 \<le> roundBinary p emin y" by simp
    from a b show ?thesis by simp
  qed
qed

lemma roundBinary_mono:
  assumes "0 < p" "x \<le> y"
  shows "roundBinary p emin x \<le> roundBinary p emin y"
proof -
  consider "0 < x" | "x \<le> 0" "0 \<le> y" | "y < 0" by linarith
  then show ?thesis
  proof cases
    case 1
    then show ?thesis using assms by (intro roundBinary_mono_pos)
  next
    case 2
    have "0 \<le> roundBinary p emin (- x)" using 2 by (intro roundBinary_nonneg) simp
    then have "roundBinary p emin x \<le> 0" by (simp add: roundBinary_uminus)
    moreover have "0 \<le> roundBinary p emin y" using 2 by (intro roundBinary_nonneg)
    ultimately show ?thesis by simp
  next
    case 3
    have "roundBinary p emin (- y) \<le> roundBinary p emin (- x)"
      using assms 3 by (intro roundBinary_mono_pos) simp_all
    then show ?thesis by (simp add: roundBinary_uminus)
  qed
qed

lemma roundBinary_half_ulp:
  "\<bar>roundBinary p emin x - x\<bar> \<le> 2 powi (binade emin x - int p)"
proof (cases "x = 0")
  case True
  then show ?thesis using powi2_pos [of "binade emin x - int p"] by (simp add: roundBinary_0)
next
  case False
  define u :: real where "u = 2 powi (binade emin x - int p + 1)"
  have u: "0 < u" by (simp add: u_def powi2_pos)
  have half: "2 powi (binade emin x - int p) = u / 2"
    unfolding u_def by (subst power_int_add) simp_all
  have "\<bar>of_int (roundHalfEven (x / u)) - x / u\<bar> \<le> 1 / 2"
    using roundHalfEven_upper [of "x / u"] roundHalfEven_lower [of "x / u"] by linarith
  then have "\<bar>of_int (roundHalfEven (x / u)) - x / u\<bar> * u \<le> 1 / 2 * u"
    using u by (intro mult_right_mono) simp_all
  moreover have "\<bar>of_int (roundHalfEven (x / u)) - x / u\<bar> * u
      = \<bar>of_int (roundHalfEven (x / u)) * u - x\<bar>"
  proof -
    have "\<bar>of_int (roundHalfEven (x / u)) - x / u\<bar> * u
        = \<bar>(of_int (roundHalfEven (x / u)) - x / u) * u\<bar>"
      using u by (simp add: abs_mult)
    also have "(of_int (roundHalfEven (x / u)) - x / u) * u = of_int (roundHalfEven (x / u)) * u - x"
      using u by (simp add: algebra_simps)
    finally show ?thesis .
  qed
  moreover have "roundBinary p emin x = of_int (roundHalfEven (x / u)) * u"
    using False by (simp add: roundBinary_def Let_def u_def)
  ultimately show ?thesis unfolding half by linarith
qed

lemma roundBinary_relative:
  assumes "2 powi emin \<le> \<bar>x\<bar>"
  shows "\<bar>roundBinary p emin x - x\<bar> \<le> \<bar>x\<bar> / 2 ^ p"
proof -
  have "0 < \<bar>x\<bar>" using assms powi2_pos [of emin] by linarith
  then have x: "x \<noteq> 0" by simp
  have "2 powi (binade emin x) \<le> \<bar>x\<bar>"
  proof (cases "emin < binade emin x")
    case True
    then show ?thesis using binade_lower [OF x] by simp
  next
    case False
    then have "binade emin x = emin" using binade_ge [of emin x] by simp
    then show ?thesis using assms by simp
  qed
  then have "2 powi (binade emin x) / 2 ^ p \<le> \<bar>x\<bar> / 2 ^ p"
    by (simp add: divide_right_mono)
  moreover have "2 powi (binade emin x - int p) = (2::real) powi (binade emin x) / 2 ^ p"
    by (subst power_int_diff) simp_all
  ultimately show ?thesis using roundBinary_half_ulp [of p emin x] by simp
qed

lemma roundBinary_representable:
  assumes "0 < p"
  shows "representable p emin (roundBinary p emin x)"
proof (cases "x = 0")
  case True
  have "(0::real) = of_int 0 * 2 powi (emin - int p + 1) \<and> \<bar>0::int\<bar> < 2 ^ p
      \<and> emin - int p + 1 \<le> emin - int p + 1" by simp
  then have "representable p emin 0" unfolding representable_def by blast
  then show ?thesis using True by (simp add: roundBinary_0)
next
  case False
  define e where "e = binade emin x"
  define u :: real where "u = 2 powi (e - int p + 1)"
  define n where "n = roundHalfEven (x / u)"
  have u: "0 < u" by (simp add: u_def powi2_pos)
  have R: "roundBinary p emin x = of_int n * u"
    using False by (simp add: roundBinary_def Let_def u_def e_def n_def)
  have "\<bar>x\<bar> < 2 powi (e + 1)" using binade_upper [OF False] by (simp add: e_def)
  then have "\<bar>x\<bar> / u < 2 powi (e + 1) / u" using u by (simp add: divide_strict_right_mono)
  also have "2 powi (e + 1) / u = (2::real) powi (int p)"
    unfolding u_def by (subst power_int_diff [symmetric]) simp_all
  also have "\<dots> = of_int (2 ^ p)" by simp
  finally have ub: "\<bar>x\<bar> / u < of_int (2 ^ p)" .
  have "x / u \<le> \<bar>x\<bar> / u" using u by (simp add: divide_right_mono)
  with ub have "roundHalfEven (x / u) \<le> roundHalfEven (of_int (2 ^ p))"
    by (intro roundHalfEven_mono) linarith
  then have n1: "n \<le> 2 ^ p" by (simp only: roundHalfEven_of_int n_def)
  have "(- \<bar>x\<bar>) / u \<le> x / u" using u by (intro divide_right_mono) simp_all
  then have "- (\<bar>x\<bar> / u) \<le> x / u" by simp
  moreover have "real_of_int (- (2 ^ p)) = - real_of_int (2 ^ p)" by simp
  ultimately have "real_of_int (- (2 ^ p)) \<le> x / u" using ub by linarith
  then have "roundHalfEven (of_int (- (2 ^ p))) \<le> roundHalfEven (x / u)"
    by (rule roundHalfEven_mono)
  then have n2: "- (2 ^ p) \<le> n" by (simp only: roundHalfEven_of_int n_def)
  have k: "emin - int p + 1 \<le> e - int p + 1" using binade_ge [of emin x] by (simp add: e_def)
  consider "\<bar>n\<bar> < 2 ^ p" | "n = 2 ^ p" | "n = - (2 ^ p)" using n1 n2 by linarith
  then show ?thesis
  proof cases
    case 1
    then show ?thesis unfolding R representable_def u_def using k by blast
  next
    case 2
    have "of_int n * u = of_int 1 * 2 powi (e + 1)"
      unfolding 2 u_def by (simp add: power_int_add power_int_diff)
    moreover have "\<bar>1::int\<bar> < 2 ^ p" using assms by simp
    moreover have "emin - int p + 1 \<le> e + 1" using k by simp
    ultimately show ?thesis unfolding R representable_def by blast
  next
    case 3
    have "of_int n * u = of_int (- 1) * 2 powi (e + 1)"
      unfolding 3 u_def by (simp add: power_int_add power_int_diff)
    moreover have "\<bar>- 1::int\<bar> < 2 ^ p" using assms by simp
    moreover have "emin - int p + 1 \<le> e + 1" using k by simp
    ultimately show ?thesis unfolding R representable_def by blast
  qed
qed

lemma roundBinary_idem:
  "0 < p \<Longrightarrow> roundBinary p emin (roundBinary p emin x) = roundBinary p emin x"
  by (intro roundBinary_exact roundBinary_representable)



lemma representable_of_int:
  assumes "\<bar>n\<bar> < 2 ^ p" "emin - int p + 1 \<le> 0"
  shows "representable p emin (of_int n)"
proof -
  have "(of_int n :: real) = of_int n * 2 powi 0" by simp
  then show ?thesis unfolding representable_def using assms by blast
qed

subsection \<open>The arithmetic of doubles and singles\<close>

lemma binary64_0: "binary64 0 = 0"
  by (simp add: binary64_def roundBinary_0)

lemma binary32_0: "binary32 0 = 0"
  by (simp add: binary32_def roundBinary_0)

lemma binary64_mono: "x \<le> y \<Longrightarrow> binary64 x \<le> binary64 y"
  by (simp add: binary64_def roundBinary_mono)



lemma binary64_of_int: "\<bar>n\<bar> < 2 ^ 53 \<Longrightarrow> binary64 (of_int n) = of_int n"
  unfolding binary64_def by (intro roundBinary_exact representable_of_int) simp_all

lemma binary32_of_int: "\<bar>n\<bar> < 2 ^ 24 \<Longrightarrow> binary32 (of_int n) = of_int n"
  unfolding binary32_def by (intro roundBinary_exact representable_of_int) simp_all

lemma binary64_small:
  "binary64 1 = 1" "binary64 (- 1) = - 1" "binary64 2 = 2" "binary64 3 = 3"
  "binary64 100 = 100"
  using binary64_of_int [of 1] binary64_of_int [of "- 1"] binary64_of_int [of 2]
    binary64_of_int [of 3] binary64_of_int [of 100]
  by simp_all

lemma binary32_small: "binary32 1 = 1" "binary32 (- 1) = - 1"
  using binary32_of_int [of 1] binary32_of_int [of "- 1"] by simp_all

lemma binary64_halves: "binary64 (1 / 2) = 1 / 2" "binary64 (3 / 2) = 3 / 2"
proof -
  have "representable 53 (- 1022) (of_int 1 * 2 powi (- 1))"
    unfolding representable_def by (intro exI [of _ 1] exI [of _ "- 1"]) simp
  then show "binary64 (1 / 2) = 1 / 2"
    unfolding binary64_def using roundBinary_exact [of 53 "- 1022" "1 / 2"] by simp
  have "representable 53 (- 1022) (of_int 3 * 2 powi (- 1))"
    unfolding representable_def by (intro exI [of _ 3] exI [of _ "- 1"]) simp
  then show "binary64 (3 / 2) = 3 / 2"
    unfolding binary64_def using roundBinary_exact [of 53 "- 1022" "3 / 2"] by simp
qed

lemma binary64_relative:
  assumes "1 / 2 ^ 1022 \<le> \<bar>x\<bar>"
  shows "\<bar>binary64 x - x\<bar> \<le> \<bar>x\<bar> / 2 ^ 53"
proof -
  have "(2::real) powi (- 1022) = 1 / 2 ^ 1022"
    by (simp add: power_int_minus_divide)
  with assms show ?thesis
    unfolding binary64_def by (intro roundBinary_relative) simp
qed

lemma binary64_idem: "binary64 (binary64 x) = binary64 x"
  by (simp add: binary64_def roundBinary_idem)




lemma fadd_0: "fadd 0 0 = 0" "fsub 0 0 = 0"
  by (simp_all add: fadd_def fsub_def binary64_0)

lemma fmul_0: "fmul 0 x = 0" "fmul x 0 = 0"
  by (simp_all add: fmul_def binary64_0)

lemma fdiv_0: "fdiv 0 x = 0"
  by (simp add: fdiv_def binary64_0)

lemma Math_sqrt_0: "Math_sqrt 0 = 0"
  by (simp add: Math_sqrt_def binary64_0)

lemma fmul_commute: "fmul x y = fmul y x"
  by (simp add: fmul_def mult.commute)

lemma fadd_mono: "a \<le> b \<Longrightarrow> fadd a c \<le> fadd b c"
  by (simp add: fadd_def binary64_mono)

lemma toFixed6_0: "toFixed6 0 = 0"
  by (simp add: toFixed6_def binary64_0)

lemma toFixed6_unit: "toFixed6 1 = 1" "toFixed6 (- 1) = - 1"
  by (simp_all add: toFixed6_def binary64_small)

subsection \<open>Arrays and the two gates\<close>

lemma arrayAt_0: "arrayAt xs 0 = (case xs of [] \<Rightarrow> None | x # _ \<Rightarrow> Some x)"
  by (cases xs) (simp_all add: arrayAt_def)

lemma arrayAt_1:
  "arrayAt xs (Suc 0) =
     (case xs of [] \<Rightarrow> None | x # ys \<Rightarrow> (case ys of [] \<Rightarrow> None | y # _ \<Rightarrow> Some y))"
  by (cases xs; cases "tl xs") (auto simp add: arrayAt_def)

lemma lexicalGate_ranked:
  "rankedCandidates_v (lexicalGate options scored) = sortByScoreDesc score scored"
  by (simp add: lexicalGate_def Let_def split: option.splits)

lemma lexicalGate_status:
  "status_v (lexicalGate options scored) = mapped
     \<longleftrightarrow> gateSpec options (sortByScoreDesc score scored)"
  by (cases "sortByScoreDesc score scored"; cases "tl (sortByScoreDesc score scored)")
     (auto simp add: lexicalGate_def gateSpec_def Let_def arrayAt_0 arrayAt_1 gapOf_def
        gapSpec_def R1_def R2_def R3_def R4_def fmul_commute split: option.splits)

lemma lexicalGate_best:
  "best_v (lexicalGate options scored) = arrayAt (sortByScoreDesc score scored) 0"
  by (simp add: lexicalGate_def Let_def split: option.splits)

lemma lexicalGate_confidence:
  "confidencePercent_v (lexicalGate options scored)
     = confidenceOf (arrayAt (sortByScoreDesc score scored) 0)"
  by (simp add: lexicalGate_def Let_def split: option.splits)

lemma lexicalGate_useOpenAI:
  "lexicalGate (options\<lparr>useOpenAI := flag\<rparr>) scored = lexicalGate options scored"
  by (simp add: lexicalGate_def Let_def split: option.splits)

lemma decideRefinement_status:
  "status_r (decideRefinement options rs merged) = mapped \<longleftrightarrow> strictGate options rs"
  by (cases rs; cases "tl rs")
     (auto simp add: decideRefinement_def strictGate_def Let_def arrayAt_0 arrayAt_1 gapOf_def
        OPENAI_SIMILARITY_THRESHOLD_def OPENAI_GAP_THRESHOLD_def split: option.splits)

lemma decideRefinement_ranked:
  "rankedCandidates_r (decideRefinement options rs merged) = merged"
  by (simp add: decideRefinement_def Let_def split: option.splits)

lemma decideRefinement_best:
  "bestCandidate (decideRefinement options rs merged) = arrayAt rs 0"
  by (simp add: decideRefinement_def Let_def split: option.splits)

lemma decideRefinement_confidence:
  "confidence_r (decideRefinement options rs merged) = confidenceOf (arrayAt rs 0)"
  by (simp add: decideRefinement_def Let_def split: option.splits)


lemma strictGate_nonempty: "strictGate options cs \<Longrightarrow> \<exists>y. arrayAt cs 0 = Some y"
  by (cases cs) (simp_all add: strictGate_def arrayAt_def)

lemma strictGate_mono:
  "t1 \<le> t2 \<Longrightarrow> strictGate (options\<lparr>similarityThreshold := t2\<rparr>) cs
     \<Longrightarrow> strictGate (options\<lparr>similarityThreshold := t1\<rparr>) cs"
  by (auto simp add: strictGate_def split: list.splits)

lemma rules_mono:
  assumes "t1 \<le> t2"
  shows "R1 (options\<lparr>similarityThreshold := t2\<rparr>) b g
           \<Longrightarrow> R1 (options\<lparr>similarityThreshold := t1\<rparr>) b g"
    and "R2 (options\<lparr>similarityThreshold := t2\<rparr>) b g
           \<Longrightarrow> R2 (options\<lparr>similarityThreshold := t1\<rparr>) b g"
    and "R3 (options\<lparr>similarityThreshold := t2\<rparr>) b second g
           \<Longrightarrow> R3 (options\<lparr>similarityThreshold := t1\<rparr>) b second g"
    and "R4 (options\<lparr>similarityThreshold := t2\<rparr>) b
           \<Longrightarrow> R4 (options\<lparr>similarityThreshold := t1\<rparr>) b"
proof -
  have "fadd t1 c \<le> fadd t2 c" for c
    using assms by (rule fadd_mono)
  then have a: "fadd t2 c \<le> s \<Longrightarrow> fadd t1 c \<le> s" for c s
    using order_trans by blast
  show "R1 (options\<lparr>similarityThreshold := t2\<rparr>) b g
           \<Longrightarrow> R1 (options\<lparr>similarityThreshold := t1\<rparr>) b g"
    using assms by (simp add: R1_def)
  show "R2 (options\<lparr>similarityThreshold := t2\<rparr>) b g
           \<Longrightarrow> R2 (options\<lparr>similarityThreshold := t1\<rparr>) b g"
    using assms by (simp add: R2_def)
  show "R3 (options\<lparr>similarityThreshold := t2\<rparr>) b second g
           \<Longrightarrow> R3 (options\<lparr>similarityThreshold := t1\<rparr>) b second g"
    using assms by (simp add: R3_def)
  show "R4 (options\<lparr>similarityThreshold := t2\<rparr>) b
           \<Longrightarrow> R4 (options\<lparr>similarityThreshold := t1\<rparr>) b"
    using assms a by (simp add: R4_def)
qed

lemma gateSpec_mono:
  assumes "t1 \<le> t2" and "gateSpec (options\<lparr>similarityThreshold := t2\<rparr>) cs"
  shows "gateSpec (options\<lparr>similarityThreshold := t1\<rparr>) cs"
proof (cases cs)
  case Nil
  with assms(2) show ?thesis by (simp add: gateSpec_def)
next
  case (Cons b rest)
  with assms(2) show ?thesis
    unfolding gateSpec_def Let_def
    using rules_mono [OF assms(1)] by (simp split: list.splits) blast+
qed

subsection \<open>The reranker\<close>

lemma rerank_cases:
  "rerank rt apiKey productText ranked categoryMap options =
     (if ranked = [] then Inr None
      else (case rerankResult rt apiKey productText ranked categoryMap of
              Inl error \<Rightarrow> Inl error
            | Inr embeddings \<Rightarrow>
                (if length embeddings < Suc (min OPENAI_TOP_K (length ranked)) then Inl TypeError
                 else Inr (Some (decideRefinement options
                        (sortByScoreDesc score (rescore embeddings (take OPENAI_TOP_K ranked)))
                        (sortByScoreDesc score
                           (sortByScoreDesc score (rescore embeddings (take OPENAI_TOP_K ranked))
                            @ drop OPENAI_TOP_K ranked)))))))"
  by (cases ranked)
     (auto simp add: rerank_def rerankResult_def Let_def OPENAI_TOP_K_def min_def
        split: sum.splits)

lemma refineAccepts_iff:
  "refineAccepts rt product ranked categoryMap options \<longleftrightarrow>
     (\<exists>apiKey embeddings.
        openAIApiKey options = Some apiKey \<and> apiKey \<noteq> []
        \<and> trim (aggregatedText product) \<noteq> [] \<and> ranked \<noteq> []
        \<and> rerankResult rt apiKey (trim (aggregatedText product)) ranked categoryMap = Inr embeddings
        \<and> Suc (min OPENAI_TOP_K (length ranked)) \<le> length embeddings
        \<and> strictGate options
             (sortByScoreDesc score (rescore embeddings (take OPENAI_TOP_K ranked))))"
  unfolding refineAccepts_def refineWithOpenAI_def rerank_cases Let_def
  by (auto simp add: decideRefinement_status decideRefinement_best strictGate_nonempty
        split: option.splits sum.splits if_splits)

lemma refineAccepts_mono:
  assumes "t1 \<le> t2"
    and "refineAccepts rt product ranked categoryMap (options\<lparr>similarityThreshold := t2\<rparr>)"
  shows "refineAccepts rt product ranked categoryMap (options\<lparr>similarityThreshold := t1\<rparr>)"
  using assms unfolding refineAccepts_iff
  by (auto intro: strictGate_mono)

subsection \<open>The loop body\<close>

lemma openAIFallback_mapped:
  "status_v v = mapped \<Longrightarrow> openAIFallback rt product categoryMap options v = v"
  by (simp add: openAIFallback_def)

lemma openAIFallback_off:
  "\<not> useOpenAI options \<Longrightarrow> openAIFallback rt product categoryMap options v = v"
  by (simp add: openAIFallback_def)

lemma openAIFallback_status:
  "status_v (openAIFallback rt product categoryMap options v) = mapped \<longleftrightarrow>
     status_v v = mapped
     \<or> (useOpenAI options \<and> refineAccepts rt product (rankedCandidates_v v) categoryMap options)"
proof (cases "status_v v")
  case mapped
  then show ?thesis by (simp add: openAIFallback_def)
next
  case not_mapped
  show ?thesis
  proof (cases "useOpenAI options \<and> openAIApiKey options \<noteq> None
                 \<and> openAIApiKey options \<noteq> Some []")
    case True
    then show ?thesis
      using not_mapped
      by (auto simp add: openAIFallback_def refineAccepts_def Let_def
            split: sum.splits option.splits)
  next
    case False
    then show ?thesis
      using not_mapped
      by (auto simp add: openAIFallback_def refineAccepts_def refineWithOpenAI_def)
  qed
qed

lemma openAIFallback_thrown:
  assumes "status_v v = not_mapped" and "useOpenAI options"
    and "refineWithOpenAI rt product (rankedCandidates_v v) categoryMap options = Inl e"
  shows "status_v (openAIFallback rt product categoryMap options v) = not_mapped"
    and "OpenAIFallbackError e \<in> set (reason_v (openAIFallback rt product categoryMap options v))"
    and "rankedCandidates_v (openAIFallback rt product categoryMap options v)
           = rankedCandidates_v v"
proof -
  from assms(3) have key: "openAIApiKey options \<noteq> None \<and> openAIApiKey options \<noteq> Some []"
    by (auto simp add: refineWithOpenAI_def split: option.splits if_splits)
  with assms show "status_v (openAIFallback rt product categoryMap options v) = not_mapped"
    and "OpenAIFallbackError e \<in> set (reason_v (openAIFallback rt product categoryMap options v))"
    and "rankedCandidates_v (openAIFallback rt product categoryMap options v)
           = rankedCandidates_v v"
    by (simp_all add: openAIFallback_def)
qed

lemma mapProduct_status:
  "status (mapProduct rt categories m options product) =
     status_v (openAIFallback rt product (categoryMap_m m) options
                 (lexicalVerdict rt categories m options product))"
  by (simp add: mapProduct_def finishProduct_def Let_def)

lemma mapProduct_record:
  "productRecord (mapProduct rt categories m options product) = product"
  by (simp add: mapProduct_def finishProduct_def Let_def)

lemma finishProduct_reason:
  "x \<in> set (reason_v v) \<Longrightarrow> x \<in> set (reason (finishProduct options product v))"
  by (auto simp add: finishProduct_def Let_def)

lemma lexicalVerdict_ranked:
  "rankedCandidates_v (lexicalVerdict rt categories m options product) =
     sortByScoreDesc score
       (scoredCandidates rt categories (wordVectorizer_m m) (categoryWordVectors_m m)
          (charVectorizer_m m) (categoryCharVectors_m m) product)"
  by (simp add: lexicalVerdict_def lexicalGate_ranked)

lemma lexicalVerdict_status:
  "status_v (lexicalVerdict rt categories m options product) = mapped \<longleftrightarrow>
     gateSpec options (rankedCandidates_v (lexicalVerdict rt categories m options product))"
  by (simp add: lexicalVerdict_ranked) (simp add: lexicalVerdict_def lexicalGate_status)

lemma lexicalVerdict_useOpenAI:
  "lexicalVerdict rt categories m (options\<lparr>useOpenAI := flag\<rparr>) product
     = lexicalVerdict rt categories m options product"
  by (simp add: lexicalVerdict_def lexicalGate_useOpenAI)

lemma finishProduct_useOpenAI:
  "finishProduct (options\<lparr>useOpenAI := flag\<rparr>) product v = finishProduct options product v"
  by (simp add: finishProduct_def Let_def)

lemma mapProduct_status_iff:
  "status (mapProduct rt categories m options product) = mapped \<longleftrightarrow>
     (let ranked = sortByScoreDesc score
            (scoredCandidates rt categories (wordVectorizer_m m) (categoryWordVectors_m m)
               (charVectorizer_m m) (categoryCharVectors_m m) product)
      in gateSpec options ranked
         \<or> (useOpenAI options \<and> refineAccepts rt product ranked (categoryMap_m m) options))"
  by (simp add: mapProduct_status openAIFallback_status lexicalVerdict_status Let_def)
     (simp add: lexicalVerdict_ranked)

lemma mapProduct_mono:
  assumes "t1 \<le> t2"
    and "status (mapProduct rt categories m (options\<lparr>similarityThreshold := t2\<rparr>) product) = mapped"
  shows "status (mapProduct rt categories m (options\<lparr>similarityThreshold := t1\<rparr>) product) = mapped"
  using assms unfolding mapProduct_status_iff Let_def
  by (auto intro: gateSpec_mono refineAccepts_mono)

lemma mapProducts_items:
  "categories \<noteq> [] \<Longrightarrow>
     \<exists>resp. mapProducts rt categories products options = Inr resp
        \<and> items resp = map (mapProduct rt categories (buildModels rt categories) options)
                          (records products)"
  by (simp add: mapProducts_def Let_def)

lemma outcomes_eq:
  "categories \<noteq> [] \<Longrightarrow>
     outcomes rt categories products options
       = map (mapProduct rt categories (buildModels rt categories) options) (records products)"
  by (simp add: outcomes_def mapProducts_def Let_def)

lemma outcomes_empty: "outcomes rt [] products options = []"
  by (simp add: outcomes_def mapProducts_def)

lemma outcomes_length:
  "i < length (outcomes rt categories products options)
     \<Longrightarrow> categories \<noteq> [] \<and> i < length (records products)"
  by (cases "categories = []") (simp_all add: outcomes_empty outcomes_eq)

subsection \<open>The score of a candidate\<close>

lemma trim_empty: "trim [] = []"
  by (simp add: trim_def)

lemma set_newSet: "set (newSet xs) = set xs"
  by (simp add: newSet_def)

lemma distinct_newSet: "distinct (newSet xs)"
  by (simp add: newSet_def)

lemma length_newSet: "length (newSet xs) = card (set xs)"
  using distinct_card [OF distinct_newSet, of xs] by (simp add: set_newSet)

lemma fold_count:
  "fold (\<lambda>token count. if P token then count + 1 else count) xs n = n + length (filter P xs)"
  by (induction xs arbitrary: n) simp_all

lemma computeOverlap_card:
  "computeOverlap (newSet a) (newSet b) = card (set a \<inter> set b)"
proof -
  have "computeOverlap (newSet a) (newSet b) = length (filter (\<lambda>t. t \<in> set b) (newSet a))"
    by (simp add: computeOverlap_def fold_count set_newSet)
  also have "\<dots> = card {t \<in> set (newSet a). t \<in> set b}"
    using distinct_length_filter [OF distinct_newSet, of "\<lambda>t. t \<in> set b" a]
    by (simp add: Int_def conj_commute)
  also have "\<dots> = card (set a \<inter> set b)"
    by (simp add: set_newSet Int_def)
  finally show ?thesis .
qed

lemma normalizeTokens_None: "normalizeTokens rt None = []"
  by (simp add: normalizeTokens_def tokenize_def)

lemma legacy_boost:
  "(if length (newSet old) > 0
    then (let overlapOld = computeOverlap (newSet old) (newSet tc)
          in if overlapOld > 0 then fadd x (fmul k (real overlapOld)) else x)
    else x)
   = (if stemOverlap old tc > 0 then fadd x (fmul k (real (stemOverlap old tc))) else x)"
proof (cases "set old = {}")
  case True
  then show ?thesis
    by (simp add: length_newSet stemOverlap_def)
next
  case False
  then have "0 < card (set old)"
    by (simp add: card_gt_0_iff)
  then show ?thesis
    by (simp add: length_newSet computeOverlap_card stemOverlap_def Let_def)
qed

lemma jaccard_code:
  "(if int (length (newSet pt)) + int (length (newSet tc))
        - int (computeOverlap (newSet pt) (newSet tc)) > 0
    then fdiv (real (computeOverlap (newSet pt) (newSet tc)))
           (real_of_int (int (length (newSet pt)) + int (length (newSet tc))
                          - int (computeOverlap (newSet pt) (newSet tc))))
    else 0)
   = jaccardIndex pt tc"
proof -
  have un: "int (card (set pt)) + int (card (set tc)) - int (card (set pt \<inter> set tc))
              = int (card (set pt \<union> set tc))"
    using card_Un_Int [of "set pt" "set tc"] by simp
  have pos: "0 < card (set pt \<union> set tc) \<longleftrightarrow> set pt \<union> set tc \<noteq> {}"
    by (simp add: card_gt_0_iff)
  show ?thesis
    unfolding length_newSet computeOverlap_card un jaccardIndex_def
    using pos by auto
qed

lemma scoreCandidate_score:
  "score (scoreCandidate w c (newSet old) (newSet pt) category) =
     toFixed6
       (fadd (if stemOverlap old (tokens_cat category) > 0
              then fadd (fadd (fmul (binary64 (6 / 10)) w) (fmul (binary64 (4 / 10)) c))
                     (fmul (binary64 (5 / 100)) (real (stemOverlap old (tokens_cat category))))
              else fadd (fmul (binary64 (6 / 10)) w) (fmul (binary64 (4 / 10)) c))
          (fmul (binary64 (1 / 10)) (jaccardIndex pt (tokens_cat category))))"
  unfolding scoreCandidate_def Let_def CandidateMatch.select_convs
  unfolding legacy_boost [unfolded Let_def] jaccard_code
  by (rule refl)

lemma scoredCandidates_nth:
  "index < length categories \<Longrightarrow>
     scoredCandidates rt categories wv cwv cv ccv product ! index =
       scoreCandidate (wordScoreOf wv cwv product index) (charScoreOf rt cv ccv product index)
         (newSet (normalizeTokens rt (categoryOld product))) (newSet (tokens_prod product))
         (categories ! index)"
  by (simp add: scoredCandidates_def Let_def)

subsection \<open>A product without text\<close>

lemma join_nonempty:
  "\<forall>x \<in> set xs. x \<noteq> [] \<Longrightarrow> join sep xs = [] \<Longrightarrow> xs = []"
  by (induction sep xs rule: join.induct) auto

lemma orEmpty_orUndefined: "orEmpty (orUndefined s) = s"
  by (simp add: orEmpty_def orUndefined_def)

lemma normalizeTokens_empty: "normalizeTokens rt (Some []) = []"
  by (simp add: normalizeTokens_def tokenize_def)

lemma parse_empty_text:
  assumes "aggregatedText (parseProductRow rt uuid filename index row) = []"
  shows "productName (parseProductRow rt uuid filename index row) = []"
    and "categoryOld (parseProductRow rt uuid filename index row) = None"
    and "tokens_prod (parseProductRow rt uuid filename index row) = []"
proof -
  let ?name = "trim (cell2 row COL_Product_name COL_product_name)"
  let ?old = "trim (cell2 row COL_Category COL_category)"
  define parts where "parts =
    [?name, orEmpty (orUndefined ?old),
     orEmpty (orUndefined (trim (cell2 row COL_Description COL_description))),
     trim (cell1 row COL_Meta_description), trim (cell1 row COL_Page_title),
     trim (cell1 row COL_SEO_name), trim (cell1 row COL_Characteristics)]"
  have "aggregatedText (parseProductRow rt uuid filename index row)
          = join [32] (filter (\<lambda>s. s \<noteq> []) parts)"
    unfolding parseProductRow_def Let_def parts_def by simp
  with assms have "join [32] (filter (\<lambda>s. s \<noteq> []) parts) = []"
    by simp
  then have "filter (\<lambda>s. s \<noteq> []) parts = []"
    using join_nonempty [of "filter (\<lambda>s. s \<noteq> []) parts" "[32]"] by simp
  then have "\<forall>s \<in> set parts. s = []"
    by (simp add: filter_empty_conv)
  then have e: "?name = []" "?old = []"
    by (simp_all add: parts_def orEmpty_orUndefined)
  from e show "productName (parseProductRow rt uuid filename index row) = []"
    by (simp add: parseProductRow_def Let_def)
  from e show "categoryOld (parseProductRow rt uuid filename index row) = None"
    by (simp add: parseProductRow_def Let_def orUndefined_def)
  from assms show "tokens_prod (parseProductRow rt uuid filename index row) = []"
    by (simp add: parseProductRow_def Let_def normalizeTokens_empty)
qed

lemma vocabularyGet_None: "vocabularyGet vocab token = None \<longleftrightarrow> token \<notin> set vocab"
  by (induction vocab) auto

lemma foldl_countTerm_skip:
  "set tokens \<inter> set (vocabulary v) = {} \<Longrightarrow> foldl (countTerm v) tf tokens = tf"
proof (induction tokens arbitrary: tf)
  case Nil
  then show ?case by simp
next
  case (Cons t ts)
  then have "vocabularyGet (vocabulary v) t = None"
    by (simp add: vocabularyGet_None)
  then have "countTerm v tf t = tf"
    by (simp add: countTerm_def)
  with Cons show ?case by simp
qed

lemma foldl_squares_zero:
  "\<forall>x \<in> set xs. x = 0 \<Longrightarrow> foldl (\<lambda>norm x. fadd norm (fmul x x)) 0 xs = 0"
  by (induction xs) (simp_all add: fmul_0 fadd_0)

lemma length_vectorize: "length (vectorize v tokens) = vocabSize v"
  by (simp add: vectorize_def Let_def)

lemma vectorize_allZero:
  assumes "set tokens \<inter> set (vocabulary v) = {}"
  shows "allZero (vectorize v tokens)"
proof -
  define tf where "tf = map (\<lambda>i. binary32 (fmul (replicate (vocabSize v) 0 ! i) (idf v ! i)))
                           [0 ..< vocabSize v]"
  have z: "\<forall>x \<in> set tf. x = 0"
    unfolding tf_def by (auto simp add: fmul_0 binary32_0)
  then have "Math_sqrt (foldl (\<lambda>norm x. fadd norm (fmul x x)) 0 tf) = 0"
    by (simp add: foldl_squares_zero Math_sqrt_0)
  then have "vectorize v tokens = tf"
    unfolding vectorize_def Let_def foldl_countTerm_skip [OF assms] tf_def by simp
  with z show ?thesis
    by (simp add: allZero_def list_all_iff)
qed

lemma foldl_dot_zero:
  "\<forall>i \<in> set is. a ! i = 0 \<Longrightarrow> foldl (\<lambda>sum i. fadd sum (fmul (a ! i) (b ! i))) 0 is = 0"
  by (induction "is") (simp_all add: fmul_0 fadd_0)

lemma similarity_allZero:
  assumes "allZero a" and "length a = vocabSize v"
  shows "similarity v a b = 0"
proof -
  have "\<forall>i \<in> set [0 ..< vocabSize v]. a ! i = 0"
    using assms by (simp add: allZero_def list_all_length)
  then show ?thesis
    unfolding similarity_def by (rule foldl_dot_zero)
qed

lemma ngrams_space:
  "toLowerCase rt [32] = [32] \<Longrightarrow> generateCharNgrams rt [32] 3 5 = []"
  by (simp add: generateCharNgrams_def Let_def isWhiteSpace_def isCleanChar_def upt_rec)

lemma scoreCandidate_zero:
  "scoreCandidate 0 0 [] [] category =
     \<lparr>categoryId = id_cat category, categoryPath = rawPath category, score = 0, overlap = 0,
      jaccard = 0\<rparr>"
  by (simp add: scoreCandidate_def Let_def computeOverlap_def toFixed6_0 fmul_0 fadd_0 fdiv_0)

lemma newSet_Nil: "newSet [] = []"
  by (simp add: newSet_def)

lemma gateSpec_low:
  assumes "\<forall>c \<in> set cs. score c < similarityThreshold options"
  shows "\<not> gateSpec options (sortByScoreDesc score cs)"
proof (cases "sortByScoreDesc score cs")
  case Nil
  then show ?thesis by (simp add: gateSpec_def)
next
  case (Cons b rest)
  then have "b \<in> set (sortByScoreDesc score cs)" by simp
  then have "b \<in> set cs" by (simp add: sortByScoreDesc_def)
  with assms have "score b < similarityThreshold options" by blast
  with Cons show ?thesis
    by (simp add: gateSpec_def R1_def R2_def R3_def R4_def Let_def)
qed

text \<open>Candidates without any score: the gate admits them exactly when no threshold is
  positive.\<close>

lemma jaccard_bar_pos: "0 < binary64 (3 / 10)"
proof -
  have "(1 / 4 :: real) = of_int 1 * 2 powi (- 2)" by simp
  then have "representable 53 (- 1022) (1 / 4)"
    unfolding representable_def by (intro exI [of _ 1] exI [of _ "- 2"]) simp
  then have "binary64 (1 / 4) = 1 / 4"
    unfolding binary64_def by (rule roundBinary_exact)
  moreover have "binary64 (1 / 4) \<le> binary64 (3 / 10)"
    by (rule binary64_mono) simp
  ultimately show ?thesis by simp
qed

lemma gateSpec_zero:
  assumes z: "\<forall>c \<in> set cs. score c = 0 \<and> overlap c = 0 \<and> jaccard c = 0"
    and ne: "cs \<noteq> []"
  shows "gateSpec options (sortByScoreDesc score cs) \<longleftrightarrow>
           similarityThreshold options \<le> 0 \<and> tokenOverlapThreshold options \<le> 0
           \<and> gapThreshold options \<le> 0"
proof -
  have s: "\<forall>c \<in> set (sortByScoreDesc score cs). score c = 0 \<and> overlap c = 0 \<and> jaccard c = 0"
    using z by (simp add: sortByScoreDesc_def)
  have "set (sortByScoreDesc score cs) = set cs"
    by (simp add: sortByScoreDesc_def)
  with ne have "sortByScoreDesc score cs \<noteq> []"
    by (metis set_empty)
  then obtain b rest where br: "sortByScoreDesc score cs = b # rest"
    by (cases "sortByScoreDesc score cs") auto
  with s have b: "score b = 0" "overlap b = 0" "jaccard b = 0"
    by simp_all
  have g: "gapSpec b (case rest of [] \<Rightarrow> None | s # x \<Rightarrow> Some s) = 0"
  proof (cases rest)
    case Nil
    then show ?thesis by (simp add: gapSpec_def b)
  next
    case (Cons s' rest')
    with s br have "score s' = 0" by simp
    with Cons show ?thesis by (simp add: gapSpec_def b fadd_0)
  qed
  have j: "\<not> binary64 (3 / 10) \<le> 0"
    using jaccard_bar_pos by simp
  show ?thesis
    unfolding br gateSpec_def Let_def list.case g
    by (simp add: R1_def R2_def R3_def R4_def b j)
qed

lemma empty_text_product:
  assumes "toLowerCase rt [32] = [32]"
    and "productName product = []" and "categoryOld product = None"
    and "tokens_prod product = []"
  shows "allZero (productWordVec wv product)"
    and "allZero (productCharVec rt cv product)"
    and "\<forall>c \<in> set (scoredCandidates rt categories wv cwv cv ccv product).
           score c = 0 \<and> overlap c = 0 \<and> jaccard c = 0"
proof -
  show w: "allZero (productWordVec wv product)"
    by (simp add: productWordVec_def assms vectorize_allZero)
  show c: "allZero (productCharVec rt cv product)"
    by (simp add: productCharVec_def assms orEmpty_def ngrams_space vectorize_allZero)
  have "wordScoreOf wv cwv product index = 0" for index
    unfolding wordScoreOf_def using w
    by (rule similarity_allZero) (simp add: productWordVec_def length_vectorize)
  moreover have "charScoreOf rt cv ccv product index = 0" for index
    unfolding charScoreOf_def using c
    by (rule similarity_allZero) (simp add: productCharVec_def length_vectorize)
  ultimately
  show "\<forall>c \<in> set (scoredCandidates rt categories wv cwv cv ccv product).
          score c = 0 \<and> overlap c = 0 \<and> jaccard c = 0"
    by (simp add: scoredCandidates_def Let_def assms normalizeTokens_None newSet_Nil
          scoreCandidate_zero)
qed

subsection \<open>The invariant of the loop body\<close>

lemma length_sortByScoreDesc: "length (sortByScoreDesc f xs) = length xs"
  by (simp add: sortByScoreDesc_def)

lemma set_sortByScoreDesc: "set (sortByScoreDesc f xs) = set xs"
  by (simp add: sortByScoreDesc_def)

lemma sortedDesc_sort: "sortedDesc (sortByScoreDesc score xs)"
proof -
  have "sorted (map (\<lambda>c. - score c) (sort_key (\<lambda>c. - score c) xs))"
    by (rule sorted_sort_key)
  then show ?thesis
    by (simp add: sortedDesc_def sortByScoreDesc_def sorted_map)
qed


lemma length_scoredCandidates:
  "length (scoredCandidates rt categories wv cwv cv ccv product) = length categories"
  by (simp add: scoredCandidates_def Let_def)

lemma length_rescore: "length (rescore embeddings cs) = length cs"
  by (simp add: rescore_def Let_def)

text \<open>What a refinement is, in each of the two ways to get one.\<close>

lemma refine_Some_cases:
  assumes "refineWithOpenAI rt product ranked categoryMap options = Inr (Some r)"
  shows "(trim (aggregatedText product) = []
          \<and> r = \<lparr>status_r = not_mapped, bestCandidate = arrayAt ranked 0,
                  rankedCandidates_r = ranked, confidence_r = 0, reason_r = [OpenAINoText]\<rparr>)
       \<or> (trim (aggregatedText product) \<noteq> [] \<and> ranked \<noteq> []
          \<and> (\<exists>apiKey embeddings.
                openAIApiKey options = Some apiKey \<and> apiKey \<noteq> []
                \<and> rerankResult rt apiKey (trim (aggregatedText product)) ranked categoryMap
                    = Inr embeddings
                \<and> Suc (min OPENAI_TOP_K (length ranked)) \<le> length embeddings
                \<and> r = decideRefinement options
                        (sortByScoreDesc score (rescore embeddings (take OPENAI_TOP_K ranked)))
                        (sortByScoreDesc score
                           (sortByScoreDesc score (rescore embeddings (take OPENAI_TOP_K ranked))
                            @ drop OPENAI_TOP_K ranked))))"
  using assms unfolding refineWithOpenAI_def rerank_cases Let_def
  by (auto split: option.splits sum.splits if_splits)

lemma refine_ranked_length:
  assumes "refineWithOpenAI rt product ranked categoryMap options = Inr (Some r)"
  shows "length (rankedCandidates_r r) = length ranked"
  using refine_Some_cases [OF assms]
  by (auto simp add: decideRefinement_ranked length_sortByScoreDesc length_rescore)

lemma refine_ranked_sorted:
  assumes "refineWithOpenAI rt product ranked categoryMap options = Inr (Some r)"
    and "sortedDesc ranked"
  shows "sortedDesc (rankedCandidates_r r)"
  using refine_Some_cases [OF assms(1)] assms(2)
  by (auto simp add: decideRefinement_ranked sortedDesc_sort)

lemma refine_mapped_confidence:
  assumes "refineWithOpenAI rt product ranked categoryMap options = Inr (Some r)"
    and "status_r r = mapped"
  shows "confidence_r r = confidenceOf (bestCandidate r)"
  using refine_Some_cases [OF assms(1)] assms(2)
  by (auto simp add: decideRefinement_confidence decideRefinement_best)

lemma arrayAt_nonempty: "xs \<noteq> [] \<Longrightarrow> \<exists>b. arrayAt xs 0 = Some b"
  by (cases xs) (simp_all add: arrayAt_def)

lemma arrayAt_take5: "arrayAt (take 5 xs) 0 = arrayAt xs 0"
  by (cases xs) (simp_all add: arrayAt_def)

text \<open>The invariant of the loop body, before and after the fallback.\<close>

lemma lexicalGate_coherent:
  assumes "scored \<noteq> []"
  shows "coherent (lexicalGate options scored)"
proof -
  from assms have "sortByScoreDesc score scored \<noteq> []"
    using length_sortByScoreDesc [of score scored] by (metis length_0_conv)
  then obtain b where "arrayAt (sortByScoreDesc score scored) 0 = Some b"
    using arrayAt_nonempty by blast
  then show ?thesis
    using \<open>sortByScoreDesc score scored \<noteq> []\<close>
    by (simp add: coherent_def lexicalGate_ranked lexicalGate_best lexicalGate_confidence
          sortedDesc_sort)
qed

lemma openAIFallback_coherent:
  assumes "coherent v"
  shows "coherent (openAIFallback rt product categoryMap options v)"
proof (cases "status_v v = not_mapped \<and> useOpenAI options
               \<and> openAIApiKey options \<noteq> None \<and> openAIApiKey options \<noteq> Some []")
  case False
  then have "openAIFallback rt product categoryMap options v = v"
    by (auto simp add: openAIFallback_def)
  with assms show ?thesis by simp
next
  case True
  show ?thesis
  proof (cases "refineWithOpenAI rt product (rankedCandidates_v v) categoryMap options")
    case (Inl e)
    with True assms show ?thesis
      by (auto simp add: openAIFallback_def coherent_def)
  next
    case (Inr ro)
    show ?thesis
    proof (cases ro)
      case None
      with Inr True assms show ?thesis
        by (simp add: openAIFallback_def)
    next
      case (Some r)
      with Inr have ref: "refineWithOpenAI rt product (rankedCandidates_v v) categoryMap options
                            = Inr (Some r)"
        by simp
      from assms have "rankedCandidates_v v \<noteq> []" and "sortedDesc (rankedCandidates_v v)"
        by (simp_all add: coherent_def)
      then have ne: "rankedCandidates_r r \<noteq> []" and so: "sortedDesc (rankedCandidates_r r)"
        using refine_ranked_length [OF ref] refine_ranked_sorted [OF ref] by auto
      then obtain b where b: "arrayAt (rankedCandidates_r r) 0 = Some b"
        using arrayAt_nonempty by blast
      have conf: "status_r r = mapped \<Longrightarrow> confidence_r r = confidenceOf (bestCandidate r)"
        using refine_mapped_confidence [OF ref] .
      from True ref ne so b conf show ?thesis
        by (auto simp add: openAIFallback_def coherent_def Let_def)
    qed
  qed
qed

lemma finalVerdict_coherent:
  assumes "categories \<noteq> []"
  shows "coherent (finalVerdict rt categories options product)"
proof -
  let ?m = "buildModels rt categories"
  have "scoredCandidates rt categories (wordVectorizer_m ?m) (categoryWordVectors_m ?m)
          (charVectorizer_m ?m) (categoryCharVectors_m ?m) product \<noteq> []"
    using assms length_scoredCandidates by (metis length_0_conv)
  then show ?thesis
    unfolding finalVerdict_def lexicalVerdict_def
    by (intro openAIFallback_coherent lexicalGate_coherent)
qed

lemma mapProduct_final:
  "mapProduct rt categories (buildModels rt categories) options product
     = finishProduct options product (finalVerdict rt categories options product)"
  by (simp add: mapProduct_def finalVerdict_def)

subsection \<open>Stability of the sort\<close>









lemma rescore_nth:
  "i < length cs \<Longrightarrow>
     rescore embeddings cs ! i
       = (cs ! i)\<lparr>score := toFixed6 (cosineSimilarity (embeddings ! 0) (embeddings ! Suc i))\<rparr>"
  by (simp add: rescore_def Let_def)

subsection \<open>The counts of a vectorizer\<close>

lemma vocabularyGet_Some:
  "vocabularyGet vocab token = Some i \<Longrightarrow> i < length vocab \<and> vocab ! i = token"
proof (induction vocab arbitrary: i)
  case Nil
  then show ?case by simp
next
  case (Cons t ts)
  then show ?case
    by (cases "token = t") (auto split: if_splits)
qed

lemma length_foldl_countTerm:
  "length (foldl (countTerm v) tf tokens) = length tf"
proof (induction tokens arbitrary: tf)
  case Nil
  then show ?case by simp
next
  case (Cons t ts)
  have "length (countTerm v tf t) = length tf"
    by (simp add: countTerm_def split: option.splits)
  with Cons show ?case by simp
qed

lemma foldl_countTerm_nth:
  assumes "distinct (vocabulary v)" and "length tf = length (vocabulary v)"
    and "i < length (vocabulary v)"
  shows "foldl (countTerm v) tf tokens ! i
           = ((\<lambda>x. binary32 (fadd x 1)) ^^ count_list tokens (vocabulary v ! i)) (tf ! i)"
  using assms(2)
proof (induction tokens arbitrary: tf)
  case Nil
  then show ?case by simp
next
  case (Cons t ts)
  let ?f = "\<lambda>x. binary32 (fadd x 1)"
  have len: "length (countTerm v tf t) = length (vocabulary v)"
    using Cons.prems by (simp add: countTerm_def split: option.splits)
  have step: "countTerm v tf t ! i = (if t = vocabulary v ! i then ?f (tf ! i) else tf ! i)"
  proof (cases "vocabularyGet (vocabulary v) t")
    case None
    then have "t \<notin> set (vocabulary v)" by (simp add: vocabularyGet_None)
    then have "t \<noteq> vocabulary v ! i" using assms(3) nth_mem by metis
    with None show ?thesis by (simp add: countTerm_def)
  next
    case (Some idx)
    then have idx: "idx < length (vocabulary v)" "vocabulary v ! idx = t"
      using vocabularyGet_Some by blast+
    show ?thesis
    proof (cases "idx = i")
      case True
      with Some idx Cons.prems assms(3) show ?thesis by (simp add: countTerm_def)
    next
      case False
      then have "vocabulary v ! idx \<noteq> vocabulary v ! i"
        using assms(1,3) idx(1) by (simp add: nth_eq_iff_index_eq)
      with Some idx False Cons.prems show ?thesis by (simp add: countTerm_def)
    qed
  qed
  have "foldl (countTerm v) tf (t # ts) ! i
          = (?f ^^ count_list ts (vocabulary v ! i)) (countTerm v tf t ! i)"
    using Cons.IH [OF len] by simp
  also have "\<dots> = (?f ^^ count_list (t # ts) (vocabulary v ! i)) (tf ! i)"
  proof (cases "t = vocabulary v ! i")
    case True
    have "(?f ^^ n) (?f x) = (?f ^^ Suc n) x" for n x
      by (simp only: funpow_Suc_right o_apply)
    with True show ?thesis
      unfolding step by simp
  next
    case False
    then show ?thesis
      unfolding step by simp
  qed
  finally show ?case .
qed

lemma vectorize_counts:
  assumes "distinct (vocabulary v)"
  shows "vectorize v tokens =
     (let tf = map (\<lambda>i. binary32 (fmul (((\<lambda>x. binary32 (fadd x 1))
                                             ^^ count_list tokens (vocabulary v ! i)) 0)
                                      (idf v ! i)))
                   [0 ..< vocabSize v];
          norm = Math_sqrt (foldl (\<lambda>norm x. fadd norm (fmul x x)) 0 tf)
      in if norm = 0 then tf else map (\<lambda>x. binary32 (fdiv x norm)) tf)"
proof -
  have "foldl (countTerm v) (replicate (vocabSize v) 0) tokens ! i
          = ((\<lambda>x. binary32 (fadd x 1)) ^^ count_list tokens (vocabulary v ! i)) 0"
    if "i < vocabSize v" for i
    using foldl_countTerm_nth [OF assms, of "replicate (vocabSize v) 0" i tokens] that
    by (simp add: vocabSize_def)
  then have "map (\<lambda>i. binary32 (fmul (foldl (countTerm v) (replicate (vocabSize v) 0) tokens ! i)
                                    (idf v ! i))) [0 ..< vocabSize v]
           = map (\<lambda>i. binary32 (fmul (((\<lambda>x. binary32 (fadd x 1))
                                          ^^ count_list tokens (vocabulary v ! i)) 0)
                                    (idf v ! i))) [0 ..< vocabSize v]"
    by (intro map_cong) simp_all
  then show ?thesis
    unfolding vectorize_def Let_def by (simp only:)
qed

subsection \<open>Values of the arithmetic\<close>

lemma binary64_eval:
  assumes "- 1022 \<le> e" "2 powi e \<le> \<bar>x\<bar>" "\<bar>x\<bar> < 2 powi (e + 1)"
  shows "binary64 x = of_int (roundHalfEven (x / 2 powi (e - 52))) * 2 powi (e - 52)"
  unfolding binary64_def using roundBinary_eval [OF assms, of 53] by simp

lemma literals:
  "binary64 (3 / 5) = 5404319552844595 / 9007199254740992"
  "binary64 (2 / 5) = 3602879701896397 / 9007199254740992"
  "binary64 (1 / 10) = 3602879701896397 / 36028797018963968"
  "binary64 (11 / 10) = 2476979795053773 / 2251799813685248"
  "binary64 (1 / 3) = 6004799503160661 / 18014398509481984"
proof -
  show "binary64 (3 / 5) = 5404319552844595 / 9007199254740992"
    by (subst binary64_eval [where e = "- 1"]) (simp_all add: roundHalfEven_def Let_def)
  show "binary64 (2 / 5) = 3602879701896397 / 9007199254740992"
    by (subst binary64_eval [where e = "- 2"]) (simp_all add: roundHalfEven_def Let_def)
  show "binary64 (1 / 10) = 3602879701896397 / 36028797018963968"
    by (subst binary64_eval [where e = "- 4"]) (simp_all add: roundHalfEven_def Let_def)
  show "binary64 (11 / 10) = 2476979795053773 / 2251799813685248"
    by (subst binary64_eval [where e = 0]) (simp_all add: roundHalfEven_def Let_def)
  show "binary64 (1 / 3) = 6004799503160661 / 18014398509481984"
    by (subst binary64_eval [where e = "- 2"]) (simp_all add: roundHalfEven_def Let_def)
qed

lemma fmul_1: "fmul (binary64 x) 1 = binary64 x"
  by (simp add: fmul_def binary64_idem)

lemma fdiv_self_1: "fdiv 1 1 = 1"
  by (simp add: fdiv_def binary64_small)

lemma axes_one: "fadd (fmul (binary64 (3 / 5)) 1) (fmul (binary64 (2 / 5)) 1) = 1"
  unfolding fmul_1 unfolding literals fadd_def by (simp add: binary64_small)

lemma score_full: "toFixed6 (fadd 1 (fmul (binary64 (1 / 10)) 1)) = binary64 (11 / 10)"
proof -
  have s: "fadd 1 (fmul (binary64 (1 / 10)) 1) = 2476979795053773 / 2251799813685248"
    unfolding fmul_1 unfolding literals fadd_def
    by (subst binary64_eval [where e = 0]) (simp_all add: roundHalfEven_def Let_def)
  show ?thesis
    unfolding s toFixed6_def by simp
qed

lemma score_third:
  "fadd 1 (fmul (binary64 (1 / 10)) (fdiv 1 3)) = 4653719614949513 / 4503599627370496"
  "toFixed6 (fadd 1 (fmul (binary64 (1 / 10)) (fdiv 1 3))) = binary64 (1033333 / 1000000)"
  "toFixed6 (fdiv 1 3) = binary64 (333333 / 1000000)"
  "binary64 (1033333 / 1000000) = 4653718113749637 / 4503599627370496"
proof -
  have t: "fdiv 1 3 = 6004799503160661 / 18014398509481984"
    unfolding fdiv_def literals ..
  have m: "fmul (binary64 (1 / 10)) (6004799503160661 / 18014398509481984)
             = 4803839602528529 / 144115188075855872"
    unfolding fmul_def literals
    by (subst binary64_eval [where e = "- 5"]) (simp_all add: roundHalfEven_def Let_def)
  have s: "fadd 1 (4803839602528529 / 144115188075855872) = 4653719614949513 / 4503599627370496"
    unfolding fadd_def
    by (subst binary64_eval [where e = 0]) (simp_all add: roundHalfEven_def Let_def)
  show "fadd 1 (fmul (binary64 (1 / 10)) (fdiv 1 3)) = 4653719614949513 / 4503599627370496"
    unfolding t m s ..
  show "toFixed6 (fadd 1 (fmul (binary64 (1 / 10)) (fdiv 1 3)))
               = binary64 (1033333 / 1000000)"
    unfolding t m s toFixed6_def by simp
  show "binary64 (1033333 / 1000000) = 4653718113749637 / 4503599627370496"
    by (subst binary64_eval [where e = 0]) (simp_all add: roundHalfEven_def Let_def)
  show "toFixed6 (fdiv 1 3) = binary64 (333333 / 1000000)"
    unfolding t toFixed6_def by simp
qed

lemma confidence_110: "Math_round (fmul (binary64 (11 / 10)) 100) = 110"
proof -
  have s: "fmul (binary64 (11 / 10)) 100 = 7740561859543041 / 70368744177664"
    unfolding fmul_def literals
    by (subst binary64_eval [where e = 6]) (simp_all add: roundHalfEven_def Let_def)
  show ?thesis
    unfolding s Math_round_def by simp
qed

lemma literal_bounds:
  "1 / 2 \<le> binary64 (11 / 20)" "binary64 (11 / 20) \<le> 1" "binary64 (39 / 50) \<le> 1"
  "binary64 (1 / 50) \<le> 1" "binary64 (1 / 20) \<le> 1" "binary64 (3 / 10) \<le> 1"
  "1 \<le> binary64 (11 / 10)" "binary64 (11 / 10) \<le> 3 / 2"
  using binary64_mono [of "1 / 2" "11 / 20"] binary64_mono [of "11 / 20" 1]
    binary64_mono [of "39 / 50" 1] binary64_mono [of "1 / 50" 1] binary64_mono [of "1 / 20" 1]
    binary64_mono [of "3 / 10" 1] binary64_mono [of 1 "11 / 10"]
    binary64_mono [of "11 / 10" "3 / 2"]
  by (simp_all add: binary64_small binary64_halves)

text \<open>The rounding is that of the engine: the difference of the scores 0.7 and 0.65 is
  0.04999999999999993, below the double 0.05, and the products \<open>1.025 * 100\<close> and
  \<open>0.575 * 100\<close> are 102.49999999999999 and 57.49999999999999.\<close>

lemma rounding_examples:
  "fsub (binary64 (7 / 10)) (binary64 (65 / 100)) = 450359962737049 / 9007199254740992"
  "fsub (binary64 (7 / 10)) (binary64 (65 / 100)) < binary64 (5 / 100)"
  "Math_round (fmul (binary64 (1025 / 1000)) 100) = 102"
  "Math_round (fmul (binary64 (575 / 1000)) 100) = 57"
proof -
  have a: "binary64 (7 / 10) = 3152519739159347 / 4503599627370496"
    by (subst binary64_eval [where e = "- 1"]) (simp_all add: roundHalfEven_def Let_def)
  have b: "binary64 (65 / 100) = 5854679515581645 / 9007199254740992"
    by (subst binary64_eval [where e = "- 1"]) (simp_all add: roundHalfEven_def Let_def)
  have c: "binary64 (5 / 100) = 3602879701896397 / 72057594037927936"
    by (subst binary64_eval [where e = "- 5"]) (simp_all add: roundHalfEven_def Let_def)
  show g: "fsub (binary64 (7 / 10)) (binary64 (65 / 100)) = 450359962737049 / 9007199254740992"
    unfolding fsub_def a b
    by (subst binary64_eval [where e = "- 5"]) (simp_all add: roundHalfEven_def Let_def)
  show "fsub (binary64 (7 / 10)) (binary64 (65 / 100)) < binary64 (5 / 100)"
    unfolding g c by simp
  have d: "binary64 (1025 / 1000) = 2308094809027379 / 2251799813685248"
    by (subst binary64_eval [where e = 0]) (simp_all add: roundHalfEven_def Let_def)
  have p: "fmul (binary64 (1025 / 1000)) 100 = 7212796278210559 / 70368744177664"
    unfolding fmul_def d
    by (subst binary64_eval [where e = 6]) (simp_all add: roundHalfEven_def Let_def)
  show "Math_round (fmul (binary64 (1025 / 1000)) 100) = 102"
    unfolding p Math_round_def by simp
  have e: "binary64 (575 / 1000) = 2589569785738035 / 4503599627370496"
    by (subst binary64_eval [where e = "- 1"]) (simp_all add: roundHalfEven_def Let_def)
  have q: "fmul (binary64 (575 / 1000)) 100 = 8092405580431359 / 140737488355328"
    unfolding fmul_def e
    by (subst binary64_eval [where e = 5]) (simp_all add: roundHalfEven_def Let_def)
  show "Math_round (fmul (binary64 (575 / 1000)) 100) = 57"
    unfolding q Math_round_def by simp
qed

subsection \<open>Evaluating the sample inputs\<close>

lemmas sample_defs = sampleRuntime_def sampleToLowerCase_def sampleCanonicalize_def
  isTokenChar_def TOKEN_CLASS_def isWhiteSpace_def isCleanChar_def STOP_WORDS_def

lemmas col_defs = COL_Product_name_def COL_product_name_def COL_Category_def COL_category_def
  COL_Description_def COL_description_def COL_Meta_description_def COL_Page_title_def
  COL_SEO_name_def COL_Characteristics_def

lemma trim_aaa: "trim [97, 97, 97] = [97, 97, 97]"
  by (simp add: trim_def isWhiteSpace_def)

lemma tokens_aaa: "normalizeTokens (sampleRuntime f) (Some [97, 97, 97]) = [[97, 97, 97]]"
  by (simp add: normalizeTokens_def tokenize_def sample_defs)

lemma catA_parsed: "parseSeoRow (sampleRuntime f) [99, 49] (Some [97, 97, 97]) = Some catA"
  by (simp add: parseSeoRow_def catA_def trim_aaa tokens_aaa joinTokens_def Let_def)

lemma cells_name_only:
  "cell2 [COL_Product_name \<mapsto> name] COL_Product_name COL_product_name = name"
  "cell2 [COL_Product_name \<mapsto> name] COL_Category COL_category = []"
  "cell2 [COL_Product_name \<mapsto> name] COL_Description COL_description = []"
  "cell1 [COL_Product_name \<mapsto> name] COL_Meta_description = []"
  "cell1 [COL_Product_name \<mapsto> name] COL_Page_title = []"
  "cell1 [COL_Product_name \<mapsto> name] COL_SEO_name = []"
  "cell1 [COL_Product_name \<mapsto> name] COL_Characteristics = []"
  by (simp_all add: cell1_def cell2_def col_defs)

lemma parse_name_only:
  assumes "trim name = name" and "name \<noteq> []"
  shows "parseProductRow rt uuid file i [COL_Product_name \<mapsto> name] =
     \<lparr>id_prod = uuid, sourceFile = file, rowIndex = i,
      fields_prod = [COL_Product_name \<mapsto> name],
      productName = name, categoryOld = None, description = None,
      aggregatedText = name, tokens_prod = normalizeTokens rt (Some name)\<rparr>"
  using assms
  by (simp add: parseProductRow_def cells_name_only trim_empty orUndefined_def orEmpty_def Let_def)

lemma productA_parsed:
  "parseProductRow (sampleRuntime f) [112, 49] [102] 0 [COL_Product_name \<mapsto> [97, 97, 97]]
     = productA"
  by (simp add: parse_name_only trim_aaa tokens_aaa productA_def)

lemma ngrams_aaa: "generateCharNgrams (sampleRuntime f) [97, 97, 97] 3 5 = [[97, 97, 97]]"
  by (simp add: generateCharNgrams_def Let_def upt_rec sample_defs)

lemma ngrams_aaa_sp:
  "generateCharNgrams (sampleRuntime f) [97, 97, 97, 32] 3 5
     = [[97, 97, 97], [97, 97, 32], [97, 97, 97, 32]]"
  by (simp add: generateCharNgrams_def Let_def upt_rec sample_defs)

lemma set_foldl_addToken: "set (foldl addToken vocab tokens) = set vocab \<union> set tokens"
  by (induction tokens arbitrary: vocab) (auto simp add: addToken_def)

lemma set_foldl_documents:
  "set (foldl (foldl addToken) vocab documents) = set vocab \<union> set (concat documents)"
  by (induction documents arbitrary: vocab) (auto simp add: set_foldl_addToken)

lemma set_buildVocabulary: "set (buildVocabulary documents) = set (concat documents)"
  by (simp add: buildVocabulary_def set_foldl_documents)

lemma Math_log_sample: "Math_log (sampleRuntime f) x = binary64 (ln x)"
  by (simp add: sampleRuntime_def)

lemma tfidf_single:
  "newTfIdfVectorizer (sampleRuntime f) [[t]] = \<lparr>vocabulary = [t], idf = [1]\<rparr>"
  by (simp add: newTfIdfVectorizer_def buildVocabulary_def addToken_def documentFrequency_def
        countDocument_def countToken_def Let_def Math_log_sample fadd_def fdiv_def
        binary64_small binary64_0 binary32_small)

lemma vectorize_single:
  "count_list tokens t = 1 \<Longrightarrow> vectorize \<lparr>vocabulary = [t], idf = [1]\<rparr> tokens = [1]"
  "count_list tokens t = 0 \<Longrightarrow> vectorize \<lparr>vocabulary = [t], idf = [1]\<rparr> tokens = [0]"
  by (simp_all add: vectorize_counts vocabSize_def Let_def fadd_def fmul_def fdiv_def
        Math_sqrt_def binary64_small binary64_0 binary32_small binary32_0)

lemma similarity_single:
  "similarity \<lparr>vocabulary = [t], idf = ws\<rparr> [x] [y] = fadd 0 (fmul x y)"
  by (simp add: similarity_def vocabSize_def)

lemma dot_values: "fadd 0 (fmul 1 1) = 1" "fadd 0 (fmul 0 y) = 0" "fadd 0 (fmul 1 (- 1)) = - 1"
  by (simp_all add: fadd_def fmul_def binary64_small binary64_0)

lemma buildModels_A: "buildModels (sampleRuntime f) [catA] = modelsA"
  by (simp add: buildModels_def Let_def catA_def ngrams_aaa tfidf_single vectorize_single
        modelsA_def categoryMapOf_def)

lemma candidate_full: "scoreCandidate 1 1 [] [[97, 97, 97]] catA = candA"
  by (simp add: scoreCandidate_def catA_def candA_def newSet_def computeOverlap_def Let_def
        axes_one fdiv_self_1 score_full toFixed6_unit)

lemma scored_A:
  "scoredCandidates (sampleRuntime f) [catA] (wordVectorizer_m modelsA)
     (categoryWordVectors_m modelsA) (charVectorizer_m modelsA) (categoryCharVectors_m modelsA)
     productA = [candA]"
proof -
  have w: "wordScoreOf (wordVectorizer_m modelsA) (categoryWordVectors_m modelsA) productA 0 = 1"
    by (simp add: wordScoreOf_def productWordVec_def modelsA_def productA_def vectorize_single
          similarity_single dot_values)
  have c: "charScoreOf (sampleRuntime f) (charVectorizer_m modelsA)
             (categoryCharVectors_m modelsA) productA 0 = 1"
    by (simp add: charScoreOf_def productCharVec_def modelsA_def productA_def orEmpty_def
          ngrams_aaa_sp vectorize_single similarity_single dot_values)
  have "scoredCandidates (sampleRuntime f) [catA] (wordVectorizer_m modelsA)
          (categoryWordVectors_m modelsA) (charVectorizer_m modelsA)
          (categoryCharVectors_m modelsA) productA
        = [scoreCandidate 1 1 [] [[97, 97, 97]] catA]"
    unfolding scoredCandidates_def Let_def
    by (simp add: w c) (simp add: productA_def normalizeTokens_None newSet_def)
  then show ?thesis
    by (simp add: candidate_full)
qed

lemma ranked_A:
  "rankedCandidates_v (lexicalVerdict (sampleRuntime f) [catA] modelsA options productA) = [candA]"
  by (simp add: lexicalVerdict_ranked scored_A sortByScoreDesc_def)

lemma gate_A_default:
  "t \<le> binary64 (11 / 10) \<Longrightarrow> gateSpec (DEFAULT_OPTIONS\<lparr>similarityThreshold := t\<rparr>) [candA]"
  using literal_bounds(5,7)
  by (simp add: gateSpec_def gapSpec_def R1_def DEFAULT_OPTIONS_def candA_def)

lemma gate_A_high:
  "binary64 (11 / 10) < similarityThreshold options \<Longrightarrow> \<not> gateSpec options [candA]"
  by (simp add: gateSpec_def gapSpec_def R1_def R2_def R3_def R4_def candA_def)

lemma outcomes_A:
  "outcomes (sampleRuntime f) [catA] parsedA options
     = [mapProduct (sampleRuntime f) [catA] modelsA options productA]"
  by (simp add: outcomes_eq buildModels_A parsedA_def)

lemma status_A:
  "status (mapProduct (sampleRuntime f) [catA] modelsA options productA) = mapped \<longleftrightarrow>
     gateSpec options [candA]
     \<or> (useOpenAI options \<and> refineAccepts (sampleRuntime f) productA [candA]
                               (categoryMap_m modelsA) options)"
  by (simp add: mapProduct_status_iff scored_A sortByScoreDesc_def Let_def)

lemma trim_zzz: "trim [122, 122, 122] = [122, 122, 122]"
  by (simp add: trim_def isWhiteSpace_def)

lemma tokens_aaa_zzz:
  "normalizeTokens (sampleRuntime f) (Some [97, 97, 97, 32, 122, 122, 122])
     = [[97, 97, 97], [122, 122, 122]]"
  by (simp add: normalizeTokens_def tokenize_def sample_defs)

lemma cells_name_description:
  "cell2 [COL_Product_name \<mapsto> name, COL_Description \<mapsto> d] COL_Product_name COL_product_name
     = name"
  "cell2 [COL_Product_name \<mapsto> name, COL_Description \<mapsto> d] COL_Category COL_category = []"
  "cell2 [COL_Product_name \<mapsto> name, COL_Description \<mapsto> d] COL_Description COL_description = d"
  "cell1 [COL_Product_name \<mapsto> name, COL_Description \<mapsto> d] COL_Meta_description = []"
  "cell1 [COL_Product_name \<mapsto> name, COL_Description \<mapsto> d] COL_Page_title = []"
  "cell1 [COL_Product_name \<mapsto> name, COL_Description \<mapsto> d] COL_SEO_name = []"
  "cell1 [COL_Product_name \<mapsto> name, COL_Description \<mapsto> d] COL_Characteristics = []"
  by (simp_all add: cell1_def cell2_def col_defs)

lemma productD_parsed:
  "parseProductRow (sampleRuntime f) [112, 50] [102] 1
     [COL_Product_name \<mapsto> [97, 97, 97], COL_Description \<mapsto> [122, 122, 122]] = productD"
  by (simp add: parseProductRow_def cells_name_description trim_empty trim_aaa trim_zzz
        orUndefined_def orEmpty_def Let_def tokens_aaa_zzz productD_def)

lemma charScore_A:
  "charScoreOf (sampleRuntime f) (charVectorizer_m modelsA) (categoryCharVectors_m modelsA)
     productA 0 = 1"
  by (simp add: charScoreOf_def productCharVec_def modelsA_def productA_def orEmpty_def
        ngrams_aaa_sp vectorize_single similarity_single dot_values)

lemma strictOptions_simps:
  "similarityThreshold strictOptions = 2" "gapThreshold strictOptions = binary64 (5 / 100)"
  "tokenOverlapThreshold strictOptions = 1" "useOpenAI strictOptions"
  "openAIApiKey strictOptions = Some [107]" "confidenceMinPercent strictOptions = 50"
  by (simp_all add: strictOptions_def rerankOptions_def DEFAULT_OPTIONS_def)

lemma lexical_A_strict:
  "status_v (lexicalVerdict (sampleRuntime f) [catA] modelsA strictOptions productA)
     = not_mapped"
proof -
  have "\<not> gateSpec strictOptions [candA]"
    using literal_bounds(8) by (intro gate_A_high) (simp add: strictOptions_simps)
  then have "status_v (lexicalVerdict (sampleRuntime f) [catA] modelsA strictOptions productA)
               \<noteq> mapped"
    by (simp add: lexicalVerdict_status ranked_A)
  then show ?thesis
    using status.exhaust by blast
qed

lemma refine_A_failing:
  "refineWithOpenAI (sampleRuntime failingFetch) productA [candA] (categoryMap_m modelsA)
     strictOptions = Inl (Error [53, 48, 51])"
  by (simp add: refineWithOpenAI_def strictOptions_simps productA_def trim_aaa rerank_cases
        rerankResult_def fetchOpenAIEmbeddings_def sampleRuntime_def failingFetch_def)

lemma trim_abc:
  "trim [97, 97, 97, 32, 98, 98, 98, 32, 99, 99, 99]
     = [97, 97, 97, 32, 98, 98, 98, 32, 99, 99, 99]"
  by (simp add: trim_def isWhiteSpace_def)

lemma tokens_abc:
  "normalizeTokens (sampleRuntime f) (Some [97, 97, 97, 32, 98, 98, 98, 32, 99, 99, 99])
     = [[97, 97, 97], [98, 98, 98], [99, 99, 99]]"
  by (simp add: normalizeTokens_def tokenize_def sample_defs)

lemma productT_parsed:
  "parseProductRow (sampleRuntime f) [112, 51] [102] 2
     [COL_Product_name \<mapsto> [97, 97, 97, 32, 98, 98, 98, 32, 99, 99, 99]] = productT"
  by (simp add: parse_name_only trim_abc tokens_abc productT_def)

lemma cells_rowE:
  "cell2 rowE COL_Product_name COL_product_name = []"
  "cell2 rowE COL_Category COL_category = []"
  "cell2 rowE COL_Description COL_description = []"
  "cell1 rowE COL_Meta_description = []"
  "cell1 rowE COL_Page_title = []"
  "cell1 rowE COL_SEO_name = []"
  "cell1 rowE COL_Characteristics = []"
  by (simp_all add: rowE_def cell1_def cell2_def col_defs)

lemma productE_parsed:
  "parseProductRow (sampleRuntime f) [112, 52] [102] 3 rowE = productE"
  by (simp add: parseProductRow_def cells_rowE trim_empty orUndefined_def orEmpty_def
        normalizeTokens_empty Let_def productE_def)

lemma ngrams_abc:
  "count_list (generateCharNgrams (sampleRuntime f)
                 [97, 97, 97, 32, 98, 98, 98, 32, 99, 99, 99, 32] 3 5) [97, 97, 97] = 1"
  by (simp add: generateCharNgrams_def Let_def upt_rec sample_defs)

lemma candidate_third:
  "scoreCandidate 1 1 [] [[97, 97, 97], [98, 98, 98], [99, 99, 99]] catA
     = \<lparr>categoryId = [99, 49], categoryPath = [97, 97, 97],
        score = binary64 (1033333 / 1000000), overlap = 1,
        jaccard = binary64 (333333 / 1000000)\<rparr>"
  by (simp add: scoreCandidate_def catA_def newSet_def computeOverlap_def Let_def
        axes_one score_third(2,3))

lemma wordScore_T:
  "wordScoreOf (wordVectorizer_m modelsA) (categoryWordVectors_m modelsA) productT 0 = 1"
  by (simp add: wordScoreOf_def productWordVec_def modelsA_def productT_def vectorize_single
        similarity_single dot_values)

lemma charScore_T:
  "charScoreOf (sampleRuntime f) (charVectorizer_m modelsA) (categoryCharVectors_m modelsA)
     productT 0 = 1"
  by (simp add: charScoreOf_def productCharVec_def modelsA_def productT_def orEmpty_def
        ngrams_abc vectorize_single similarity_single dot_values)

lemma scored_T:
  "scoredCandidates (sampleRuntime f) [catA] (wordVectorizer_m modelsA)
     (categoryWordVectors_m modelsA) (charVectorizer_m modelsA) (categoryCharVectors_m modelsA)
     productT
   = [\<lparr>categoryId = [99, 49], categoryPath = [97, 97, 97],
       score = binary64 (1033333 / 1000000), overlap = 1,
       jaccard = binary64 (333333 / 1000000)\<rparr>]"
proof -
  have "scoredCandidates (sampleRuntime f) [catA] (wordVectorizer_m modelsA)
          (categoryWordVectors_m modelsA) (charVectorizer_m modelsA)
          (categoryCharVectors_m modelsA) productT
        = [scoreCandidate 1 1 [] [[97, 97, 97], [98, 98, 98], [99, 99, 99]] catA]"
    unfolding scoredCandidates_def Let_def
    by (simp add: wordScore_T charScore_T) (simp add: productT_def normalizeTokens_None newSet_def)
  then show ?thesis
    by (simp add: candidate_third)
qed

lemma combined_T:
  "combinedSpec (sampleRuntime f) 1 1 productT catA = 4653719614949513 / 4503599627370496"
proof -
  have j: "jaccardIndex (tokens_prod productT) (tokens_cat catA) = fdiv 1 3"
    by (simp add: jaccardIndex_def productT_def catA_def)
  have "combinedSpec (sampleRuntime f) 1 1 productT catA
          = fadd 1 (fmul (binary64 (1 / 10)) (fdiv 1 3))"
    unfolding combinedSpec_def Let_def j
    by (simp add: productT_def axes_one)
  then show ?thesis
    by (simp only: score_third(1))
qed

lemma scored_E:
  "scoredCandidates (sampleRuntime f) [catA] (wordVectorizer_m modelsA)
     (categoryWordVectors_m modelsA) (charVectorizer_m modelsA) (categoryCharVectors_m modelsA)
     productE
   = [\<lparr>categoryId = [99, 49], categoryPath = [97, 97, 97], score = 0, overlap = 0,
       jaccard = 0\<rparr>]"
proof -
  have "toLowerCase (sampleRuntime f) [32] = [32]"
    by (simp add: sampleRuntime_def sampleToLowerCase_def)
  then have n: "generateCharNgrams (sampleRuntime f) [32] 3 5 = []"
    by (rule ngrams_space)
  show ?thesis
    by (simp add: scoredCandidates_def modelsA_def productE_def catA_def wordScoreOf_def
          charScoreOf_def productWordVec_def productCharVec_def orEmpty_def n
          vectorize_single similarity_single dot_values Let_def normalizeTokens_None
          newSet_Nil scoreCandidate_zero)
qed

lemma cats7_parsed:
  "map (\<lambda>(uuid, cell). parseSeoRow (sampleRuntime f) uuid (Some cell))
     [([99, 49], [97, 97, 97]), ([99, 50], [98, 98, 98]), ([99, 51], [99, 99, 99]),
      ([99, 52], [100, 100, 100]), ([99, 53], [101, 101, 101]), ([99, 54], [102, 102, 102]),
      ([99, 55], [103, 103, 103])]
   = map Some cats7"
  by (simp add: cats7_def catA_def tripleCategory_def parseSeoRow_def trim_def
        normalizeTokens_def tokenize_def joinTokens_def Let_def sample_defs)

lemma tokens_zzz: "normalizeTokens (sampleRuntime f) (Some [122, 122, 122]) = [[122, 122, 122]]"
  by (simp add: normalizeTokens_def tokenize_def sample_defs)

lemma productZ_parsed:
  "parseProductRow (sampleRuntime f) [112, 53] [102] 4 [COL_Product_name \<mapsto> [122, 122, 122]]
     = productZ"
  by (simp add: parse_name_only trim_zzz tokens_zzz productZ_def)

lemma word_vocabulary:
  "set (vocabulary (wordVectorizer_m (buildModels rt categories)))
     = set (concat (map tokens_cat categories))"
  by (simp add: buildModels_def Let_def newTfIdfVectorizer_def set_buildVocabulary)

lemma char_vocabulary:
  "set (vocabulary (charVectorizer_m (buildModels rt categories)))
     = set (concat (map (\<lambda>c. generateCharNgrams rt (rawPath c) 3 5) categories))"
  by (simp add: buildModels_def Let_def newTfIdfVectorizer_def set_buildVocabulary)

lemma ngrams_cats7:
  "map (\<lambda>c. generateCharNgrams (sampleRuntime f) (rawPath c) 3 5) cats7
     = [[[97, 97, 97]], [[98, 98, 98]], [[99, 99, 99]], [[100, 100, 100]], [[101, 101, 101]],
        [[102, 102, 102]], [[103, 103, 103]]]"
  by (simp add: cats7_def catA_def tripleCategory_def generateCharNgrams_def Let_def upt_rec
        sample_defs)

lemma ngrams_zzz_sp:
  "generateCharNgrams (sampleRuntime f) [122, 122, 122, 32] 3 5
     = [[122, 122, 122], [122, 122, 32], [122, 122, 122, 32]]"
  by (simp add: generateCharNgrams_def Let_def upt_rec sample_defs)

lemma wordScore_Z:
  "wordScoreOf (wordVectorizer_m (buildModels (sampleRuntime f) cats7)) cwv productZ index = 0"
proof -
  have "allZero (productWordVec (wordVectorizer_m (buildModels (sampleRuntime f) cats7)) productZ)"
    unfolding productWordVec_def
    by (rule vectorize_allZero)
       (simp add: word_vocabulary cats7_def catA_def tripleCategory_def productZ_def)
  then show ?thesis
    unfolding wordScoreOf_def
    by (rule similarity_allZero) (simp add: productWordVec_def length_vectorize)
qed

lemma charScore_Z:
  "charScoreOf (sampleRuntime f) (charVectorizer_m (buildModels (sampleRuntime f) cats7)) ccv
     productZ index = 0"
proof -
  have "allZero (productCharVec (sampleRuntime f)
                   (charVectorizer_m (buildModels (sampleRuntime f) cats7)) productZ)"
    unfolding productCharVec_def Let_def
    by (rule vectorize_allZero)
       (simp add: char_vocabulary ngrams_cats7 productZ_def orEmpty_def ngrams_zzz_sp)
  then show ?thesis
    unfolding charScoreOf_def
    by (rule similarity_allZero) (simp add: productCharVec_def length_vectorize)
qed

lemma scored_Z:
  "scoredCandidates (sampleRuntime f) cats7
     (wordVectorizer_m (buildModels (sampleRuntime f) cats7))
     (categoryWordVectors_m (buildModels (sampleRuntime f) cats7))
     (charVectorizer_m (buildModels (sampleRuntime f) cats7))
     (categoryCharVectors_m (buildModels (sampleRuntime f) cats7)) productZ = zeros7"
  unfolding scoredCandidates_def Let_def wordScore_Z charScore_Z
  by (simp add: cats7_def catA_def tripleCategory_def productZ_def normalizeTokens_None
        newSet_def upt_rec scoreCandidate_def computeOverlap_def Let_def toFixed6_0 zeros7_def
        plainCandidate_def fmul_0 fadd_0 fdiv_0)

lemma sorted_zeros7: "sortByScoreDesc score zeros7 = zeros7"
  by (simp add: sortByScoreDesc_def zeros7_def plainCandidate_def)

lemma ranked_Z:
  "rankedCandidates_v (lexicalVerdict (sampleRuntime f) cats7 (buildModels (sampleRuntime f) cats7)
                         options productZ) = zeros7"
  by (simp add: lexicalVerdict_ranked scored_Z sorted_zeros7)

lemma wideGapOptions_simps:
  "similarityThreshold wideGapOptions = binary64 (55 / 100)" "gapThreshold wideGapOptions = 3"
  "tokenOverlapThreshold wideGapOptions = 1" "useOpenAI wideGapOptions"
  "openAIApiKey wideGapOptions = Some [107]" "confidenceMinPercent wideGapOptions = 50"
  by (simp_all add: wideGapOptions_def rerankOptions_def DEFAULT_OPTIONS_def)

lemma normalizeVector_unit: "normalizeVector [1] = [1]" "normalizeVector [- 1] = [- 1]"
  by (simp_all add: normalizeVector_def Let_def fadd_def fmul_def fdiv_def Math_sqrt_def
        binary64_small binary64_0 binary32_small)

lemma rerankResult_Z:
  "rerankResult (sampleRuntime fetchFirst) [107] [122, 122, 122] zeros7 categoryMap
     = Inr [[1], [1], [- 1], [- 1], [- 1], [- 1], [- 1]]"
  by (simp add: rerankResult_def fetchOpenAIEmbeddings_def sampleRuntime_def fetchFirst_def
        OPENAI_TOP_K_def zeros7_def upt_rec normalizeVector_unit)

lemma rescore_Z:
  "rescore [[1], [1], [- 1], [- 1], [- 1], [- 1], [- 1]] (take OPENAI_TOP_K zeros7) = rescored7"
  by (simp add: rescore_def Let_def OPENAI_TOP_K_def zeros7_def rescored7_def plainCandidate_def
        upt_rec cosineSimilarity_def dot_values toFixed6_unit)

lemma sorted_rescored7: "sortByScoreDesc score rescored7 = rescored7"
  by (simp add: sortByScoreDesc_def rescored7_def plainCandidate_def)

lemma sorted_merged7:
  "sortByScoreDesc score (rescored7 @ drop OPENAI_TOP_K zeros7) = merged7"
  by (simp add: sortByScoreDesc_def rescored7_def zeros7_def merged7_def OPENAI_TOP_K_def
        plainCandidate_def)

lemma refine_Z:
  "refineWithOpenAI (sampleRuntime fetchFirst) productZ zeros7 categoryMap wideGapOptions
     = Inr (Some (decideRefinement wideGapOptions rescored7 merged7))"
proof -
  have t: "trim (aggregatedText productZ) = [122, 122, 122]"
    by (simp add: productZ_def trim_zzz)
  have z: "zeros7 \<noteq> []" "min OPENAI_TOP_K (length zeros7) = 6"
    by (simp_all add: zeros7_def OPENAI_TOP_K_def)
  show ?thesis
    by (simp add: refineWithOpenAI_def wideGapOptions_simps t rerank_cases z rerankResult_Z
          rescore_Z sorted_rescored7 sorted_merged7)
qed

lemma gap_values:
  "fsub 1 (- 1) = 2" "fsub 1 0 = 1" "fsub 1 1 = 0" "fdiv 3 2 = 3 / 2"
  "max (3 / 2) (binary64 (1 / 50)) = 3 / 2"
  using literal_bounds(4)
  by (simp_all add: fsub_def fdiv_def binary64_small binary64_0 binary64_halves)

lemma strict_rescored7: "strictGate wideGapOptions rescored7"
  using literal_bounds(2,3)
  by (simp add: strictGate_def rescored7_def plainCandidate_def wideGapOptions_simps gap_values)

lemma strict_merged7: "\<not> strictGate wideGapOptions (take 5 merged7)"
  by (simp add: strictGate_def merged7_def plainCandidate_def wideGapOptions_simps gap_values)

lemma lexical_Z:
  "status_v (lexicalVerdict (sampleRuntime f) cats7 (buildModels (sampleRuntime f) cats7)
               wideGapOptions productZ) = not_mapped"
proof -
  have "\<forall>c \<in> set zeros7. score c < similarityThreshold wideGapOptions"
    using literal_bounds(1) by (simp add: zeros7_def plainCandidate_def wideGapOptions_simps)
  then have "\<not> gateSpec wideGapOptions (sortByScoreDesc score zeros7)"
    by (rule gateSpec_low)
  then have "status_v (lexicalVerdict (sampleRuntime f) cats7
                         (buildModels (sampleRuntime f) cats7) wideGapOptions productZ) \<noteq> mapped"
    by (simp add: lexicalVerdict_status ranked_Z sorted_zeros7)
  then show ?thesis
    using status.exhaust by blast
qed

lemma final_Z:
  "rankedCandidates_v (finalVerdict (sampleRuntime fetchFirst) cats7 wideGapOptions productZ)
     = merged7"
  "status_v (finalVerdict (sampleRuntime fetchFirst) cats7 wideGapOptions productZ) = mapped"
  using strict_rescored7
  by (simp_all add: finalVerdict_def openAIFallback_def lexical_Z ranked_Z wideGapOptions_simps
        refine_Z decideRefinement_status decideRefinement_best decideRefinement_ranked Let_def
        rescored7_def arrayAt_def)

lemma outcomes_Z:
  "outcomes (sampleRuntime f) cats7 parsedZ options
     = [finishProduct options productZ (finalVerdict (sampleRuntime f) cats7 options productZ)]"
  by (simp add: outcomes_eq cats7_def parsedZ_def mapProduct_final)
















section \<open>The claims\<close>

text \<open>
  Claim C1. For every non-empty category list and every product, the list that the lexical
  gate ranks is the candidates of the product, one per category, sorted by score; it has a
  best candidate, and the gate sets the status to mapped if and only if one of the four
  rules R1 to R4 holds for that list, the gap being the best score minus the second score
  when a second candidate exists and the best score otherwise. With reranking switched off
  that verdict is the status of the outcome. The sums, differences and products of the
  rules are those of the program's numbers.
\<close>

theorem C1_lexical_gate:
  assumes "categories \<noteq> []"
  shows "rankedCandidates_v
           (lexicalVerdict rt categories (buildModels rt categories) options product)
           = lexicalRanking rt categories product
       \<and> length (lexicalRanking rt categories product) = length categories
       \<and> best_v (lexicalVerdict rt categories (buildModels rt categories) options product)
           = Some (hd (lexicalRanking rt categories product))
       \<and> (status_v (lexicalVerdict rt categories (buildModels rt categories) options product)
            = mapped
          \<longleftrightarrow> gateSpec options (lexicalRanking rt categories product))
       \<and> (\<not> useOpenAI options \<longrightarrow>
            (status (mapProduct rt categories (buildModels rt categories) options product)
               = mapped
             \<longleftrightarrow> gateSpec options (lexicalRanking rt categories product)))"
proof -
  let ?m = "buildModels rt categories"
  have r: "rankedCandidates_v (lexicalVerdict rt categories ?m options product)
             = lexicalRanking rt categories product"
    by (simp add: lexicalVerdict_ranked lexicalRanking_def)
  have l: "length (lexicalRanking rt categories product) = length categories"
    by (simp add: lexicalRanking_def length_sortByScoreDesc length_scoredCandidates)
  with assms have "lexicalRanking rt categories product \<noteq> []"
    by (metis length_0_conv)
  then have b: "best_v (lexicalVerdict rt categories ?m options product)
                  = Some (hd (lexicalRanking rt categories product))"
    by (cases "lexicalRanking rt categories product")
       (simp_all add: lexicalVerdict_def lexicalGate_best lexicalRanking_def arrayAt_def)
  have s: "status_v (lexicalVerdict rt categories ?m options product) = mapped
             \<longleftrightarrow> gateSpec options (lexicalRanking rt categories product)"
    by (simp add: lexicalVerdict_def lexicalGate_status lexicalRanking_def)
  from r l b s show ?thesis
    by (simp add: mapProduct_status openAIFallback_off)
qed

theorem C1_lexical_gate_witness:
  "[catA] \<noteq> []
   \<and> \<not> useOpenAI DEFAULT_OPTIONS
   \<and> lexicalRanking (sampleRuntime failingFetch) [catA] productA = [candA]
   \<and> gateSpec DEFAULT_OPTIONS [candA]
   \<and> status (mapProduct (sampleRuntime failingFetch) [catA]
               (buildModels (sampleRuntime failingFetch) [catA]) DEFAULT_OPTIONS productA)
       = mapped
   \<and> \<not> gateSpec (DEFAULT_OPTIONS\<lparr>similarityThreshold := 2\<rparr>) [candA]
   \<and> status (mapProduct (sampleRuntime failingFetch) [catA]
               (buildModels (sampleRuntime failingFetch) [catA])
               (DEFAULT_OPTIONS\<lparr>similarityThreshold := 2\<rparr>) productA)
       = not_mapped"
proof -
  let ?rt = "sampleRuntime failingFetch"
  have ne: "[catA] \<noteq> []" by simp
  have r: "lexicalRanking ?rt [catA] productA = [candA]"
    by (simp add: lexicalRanking_def buildModels_A scored_A sortByScoreDesc_def)
  have g: "gateSpec DEFAULT_OPTIONS [candA]"
    using gate_A_default [of "binary64 (55 / 100)"] literal_bounds(2,7)
    by (simp add: DEFAULT_OPTIONS_def)
  have h: "\<not> gateSpec (DEFAULT_OPTIONS\<lparr>similarityThreshold := 2\<rparr>) [candA]"
    using literal_bounds(8) by (intro gate_A_high) simp
  have off: "\<not> useOpenAI DEFAULT_OPTIONS"
    "\<not> useOpenAI (DEFAULT_OPTIONS\<lparr>similarityThreshold := 2\<rparr>)"
    by (simp_all add: DEFAULT_OPTIONS_def)
  have two: "\<And>s. s = not_mapped \<longleftrightarrow> s \<noteq> mapped"
    using status.exhaust by auto
  show ?thesis
    using C1_lexical_gate [OF ne, of ?rt DEFAULT_OPTIONS productA]
      C1_lexical_gate [OF ne, of ?rt "DEFAULT_OPTIONS\<lparr>similarityThreshold := 2\<rparr>" productA]
      g h off
    by (simp add: r two)
qed

text \<open>
  Claim C2, as amended. For every product and every category of the corpus, the score of
  the candidate is the combined value rounded to six decimal places and read back as a
  number, where the combined value is 0.6 times the word cosine plus 0.4 times the
  character cosine, plus 0.05 times the stem-overlap count of the legacy label's tokens and
  the category's tokens when the product carries a legacy label and that count is positive
  (without a cap), plus 0.1 times the Jaccard index of the token sets of the product and
  the category, the terms being added from left to right in the program's numbers.
\<close>

theorem C2_score_rounded:
  assumes "index < length categories"
  shows "score (scoredCandidates rt categories wv cwv cv ccv product ! index) =
     toFixed6 (combinedSpec rt (wordScoreOf wv cwv product index)
                 (charScoreOf rt cv ccv product index) product (categories ! index))"
proof (cases "categoryOld product")
  case None
  then show ?thesis
    using assms
    by (simp add: scoredCandidates_nth scoreCandidate_score combinedSpec_def Let_def
          normalizeTokens_None stemOverlap_def)
next
  case (Some a)
  then show ?thesis
    using assms
    by (simp add: scoredCandidates_nth scoreCandidate_score combinedSpec_def Let_def)
qed

theorem C2_score_rounded_witness:
  "0 < length [catA]
   \<and> score (scoredCandidates (sampleRuntime failingFetch) [catA]
               (wordVectorizer_m modelsA) (categoryWordVectors_m modelsA)
               (charVectorizer_m modelsA) (categoryCharVectors_m modelsA) productT ! 0)
       = binary64 (1033333 / 1000000)
   \<and> toFixed6 (combinedSpec (sampleRuntime failingFetch)
                 (wordScoreOf (wordVectorizer_m modelsA) (categoryWordVectors_m modelsA)
                    productT 0)
                 (charScoreOf (sampleRuntime failingFetch) (charVectorizer_m modelsA)
                    (categoryCharVectors_m modelsA) productT 0)
                 productT ([catA] ! 0))
       = binary64 (1033333 / 1000000)"
proof -
  have len: "0 < length [catA]" by simp
  from C2_score_rounded [OF len, of "sampleRuntime failingFetch" "wordVectorizer_m modelsA"
         "categoryWordVectors_m modelsA" "charVectorizer_m modelsA"
         "categoryCharVectors_m modelsA" productT]
  show ?thesis
    by (simp add: scored_T)
qed

text \<open>
  Claim C2 as stated fails: the score is not the combined value itself. For the category
  \<open>aaa\<close> and the product \<open>aaa bbb ccc\<close> both cosines are 1 and the Jaccard index is 1/3,
  so the combined value is the double 1.0333333333333334 (and 31/30 in exact arithmetic),
  while the score is the double 1.033333.
\<close>

theorem C2_score_exact_counterexample:
  "score (scoredCandidates (sampleRuntime failingFetch) [catA]
            (wordVectorizer_m (buildModels (sampleRuntime failingFetch) [catA]))
            (categoryWordVectors_m (buildModels (sampleRuntime failingFetch) [catA]))
            (charVectorizer_m (buildModels (sampleRuntime failingFetch) [catA]))
            (categoryCharVectors_m (buildModels (sampleRuntime failingFetch) [catA]))
            productT ! 0)
     = binary64 (1033333 / 1000000)
   \<and> wordScoreOf (wordVectorizer_m (buildModels (sampleRuntime failingFetch) [catA]))
         (categoryWordVectors_m (buildModels (sampleRuntime failingFetch) [catA])) productT 0
       = 1
   \<and> charScoreOf (sampleRuntime failingFetch)
         (charVectorizer_m (buildModels (sampleRuntime failingFetch) [catA]))
         (categoryCharVectors_m (buildModels (sampleRuntime failingFetch) [catA])) productT 0
       = 1
   \<and> combinedSpec (sampleRuntime failingFetch) 1 1 productT ([catA] ! 0)
       = 4653719614949513 / 4503599627370496
   \<and> binary64 (1033333 / 1000000) \<noteq> 4653719614949513 / 4503599627370496
   \<and> binary64 (1033333 / 1000000) \<noteq> 31 / 30"
  by (simp add: buildModels_A scored_T wordScore_T charScore_T combined_T)
     (simp add: score_third(4))




text \<open>
  Claim C4. The semantic reranker is upgrade-only: for every product that the lexical
  gate maps, that is, whose outcome is mapped in the run with reranking switched off, the
  run with reranking switched on delivers the same outcome, so neither the status nor the
  chosen category path changes.
\<close>

theorem C4_rerank_upgrade_only:
  assumes "i < length (outcomes rt categories products (options\<lparr>useOpenAI := False\<rparr>))"
    and "status (outcomes rt categories products (options\<lparr>useOpenAI := False\<rparr>) ! i) = mapped"
  shows "outcomes rt categories products (options\<lparr>useOpenAI := True\<rparr>) ! i
           = outcomes rt categories products (options\<lparr>useOpenAI := False\<rparr>) ! i"
proof -
  from assms(1) have ne: "categories \<noteq> []" and i: "i < length (records products)"
    using outcomes_length by blast+
  let ?m = "buildModels rt categories"
  let ?p = "records products ! i"
  let ?v = "lexicalVerdict rt categories ?m options ?p"
  from assms(2) ne i
  have "status (mapProduct rt categories ?m (options\<lparr>useOpenAI := False\<rparr>) ?p) = mapped"
    by (simp add: outcomes_eq)
  then have lex: "status_v ?v = mapped"
    by (simp add: mapProduct_status openAIFallback_off lexicalVerdict_useOpenAI)
  have "mapProduct rt categories ?m (options\<lparr>useOpenAI := True\<rparr>) ?p
          = mapProduct rt categories ?m (options\<lparr>useOpenAI := False\<rparr>) ?p"
    using lex
    by (simp add: mapProduct_def lexicalVerdict_useOpenAI finishProduct_useOpenAI
          openAIFallback_mapped)
  with ne i show ?thesis
    by (simp add: outcomes_eq)
qed

theorem C4_rerank_upgrade_only_witness:
  "0 < length (outcomes (sampleRuntime failingFetch) [catA] parsedA
                 (rerankOptions\<lparr>useOpenAI := False\<rparr>))
   \<and> status (outcomes (sampleRuntime failingFetch) [catA] parsedA
                (rerankOptions\<lparr>useOpenAI := False\<rparr>) ! 0) = mapped
   \<and> outcomes (sampleRuntime failingFetch) [catA] parsedA (rerankOptions\<lparr>useOpenAI := True\<rparr>) ! 0
       = outcomes (sampleRuntime failingFetch) [catA] parsedA
           (rerankOptions\<lparr>useOpenAI := False\<rparr>) ! 0"
proof -
  have len: "0 < length (outcomes (sampleRuntime failingFetch) [catA] parsedA
                           (rerankOptions\<lparr>useOpenAI := False\<rparr>))"
    by (simp add: outcomes_A)
  have "gateSpec (rerankOptions\<lparr>useOpenAI := False\<rparr>) [candA]"
    using literal_bounds(2,5,7)
    by (simp add: gateSpec_def gapSpec_def R1_def rerankOptions_def DEFAULT_OPTIONS_def
          candA_def)
  then have st: "status (outcomes (sampleRuntime failingFetch) [catA] parsedA
                           (rerankOptions\<lparr>useOpenAI := False\<rparr>) ! 0) = mapped"
    by (simp add: outcomes_A status_A)
  from C4_rerank_upgrade_only [OF len st] len st show ?thesis
    by blast
qed

text \<open>
  Claim C5, as amended. When the reranker runs on a product with usable text and
  delivers a refinement, it has replaced the scores of the top six lexical candidates by
  the cosines of the embeddings (rounded to six decimal places) and sorted them; the best
  and the number two are the first two of these rescored candidates, the gap is taken
  between them, and the product is mapped if and only if that best candidate passes the
  stricter acceptance. The list that is returned is the rescored candidates merged with
  the untouched remainder and sorted again. The cosines, the gap and the thresholds are
  computed in the program's numbers.
\<close>

theorem C5_rerank_decision:
  assumes "trim (aggregatedText product) \<noteq> []"
    and "refineWithOpenAI rt product ranked categoryMap options = Inr (Some r)"
  shows "\<exists>apiKey embeddings.
           openAIApiKey options = Some apiKey
           \<and> rerankResult rt apiKey (trim (aggregatedText product)) ranked categoryMap
               = Inr embeddings
           \<and> (\<forall>i < length (take OPENAI_TOP_K ranked).
                 rescore embeddings (take OPENAI_TOP_K ranked) ! i
                   = (ranked ! i)\<lparr>score := toFixed6 (cosineSimilarity (embeddings ! 0)
                                                       (embeddings ! Suc i))\<rparr>)
           \<and> rankedCandidates_r r
               = sortByScoreDesc score
                   (sortByScoreDesc score (rescore embeddings (take OPENAI_TOP_K ranked))
                    @ drop OPENAI_TOP_K ranked)
           \<and> bestCandidate r
               = arrayAt (sortByScoreDesc score (rescore embeddings (take OPENAI_TOP_K ranked))) 0
           \<and> (status_r r = mapped
                \<longleftrightarrow> strictGate options
                      (sortByScoreDesc score (rescore embeddings (take OPENAI_TOP_K ranked))))"
  using refine_Some_cases [OF assms(2)] assms(1)
  by (auto simp add: decideRefinement_ranked decideRefinement_best decideRefinement_status
        rescore_nth)

theorem C5_rerank_decision_witness:
  "trim (aggregatedText productZ) \<noteq> []
   \<and> refineWithOpenAI (sampleRuntime fetchFirst) productZ zeros7
        (categoryMap_m (buildModels (sampleRuntime fetchFirst) cats7)) wideGapOptions
       = Inr (Some (decideRefinement wideGapOptions rescored7 merged7))
   \<and> 0 < length (take OPENAI_TOP_K zeros7)
   \<and> rescored7 ! 0 = (zeros7 ! 0)\<lparr>score := toFixed6 (cosineSimilarity [1] [1])\<rparr>
   \<and> rankedCandidates_r (decideRefinement wideGapOptions rescored7 merged7) = merged7
   \<and> bestCandidate (decideRefinement wideGapOptions rescored7 merged7)
       = Some (plainCandidate 49 97 1)
   \<and> status_r (decideRefinement wideGapOptions rescored7 merged7) = mapped
   \<and> strictGate wideGapOptions rescored7"
proof -
  have t: "trim (aggregatedText productZ) \<noteq> []"
    by (simp add: productZ_def trim_zzz)
  let ?R = "decideRefinement wideGapOptions rescored7 merged7"
  let ?cm = "categoryMap_m (buildModels (sampleRuntime fetchFirst) cats7)"
  note r = refine_Z [of ?cm]
  from C5_rerank_decision [OF t r] obtain apiKey embeddings where
    k: "openAIApiKey wideGapOptions = Some apiKey"
    and e: "rerankResult (sampleRuntime fetchFirst) apiKey (trim (aggregatedText productZ))
              zeros7 ?cm = Inr embeddings"
    and q: "\<forall>i < length (take OPENAI_TOP_K zeros7).
              rescore embeddings (take OPENAI_TOP_K zeros7) ! i
                = (zeros7 ! i)\<lparr>score := toFixed6 (cosineSimilarity (embeddings ! 0)
                                                    (embeddings ! Suc i))\<rparr>"
    and m: "rankedCandidates_r ?R
              = sortByScoreDesc score
                  (sortByScoreDesc score (rescore embeddings (take OPENAI_TOP_K zeros7))
                   @ drop OPENAI_TOP_K zeros7)"
    and b: "bestCandidate ?R
              = arrayAt (sortByScoreDesc score (rescore embeddings (take OPENAI_TOP_K zeros7))) 0"
    and s: "status_r ?R = mapped
              \<longleftrightarrow> strictGate wideGapOptions
                    (sortByScoreDesc score (rescore embeddings (take OPENAI_TOP_K zeros7)))"
    by blast
  from k have "apiKey = [107]"
    by (simp add: wideGapOptions_simps)
  with e have emb: "embeddings = [[1], [1], [- 1], [- 1], [- 1], [- 1], [- 1]]"
    by (simp add: productZ_def trim_zzz rerankResult_Z)
  then have rs: "sortByScoreDesc score (rescore embeddings (take OPENAI_TOP_K zeros7))
                   = rescored7"
    by (simp add: rescore_Z sorted_rescored7)
  have len: "0 < length (take OPENAI_TOP_K zeros7)"
    by (simp add: OPENAI_TOP_K_def zeros7_def)
  with q have "rescore embeddings (take OPENAI_TOP_K zeros7) ! 0
                 = (zeros7 ! 0)\<lparr>score := toFixed6 (cosineSimilarity (embeddings ! 0)
                                                     (embeddings ! Suc 0))\<rparr>"
    by blast
  then have first: "rescored7 ! 0 = (zeros7 ! 0)\<lparr>score := toFixed6 (cosineSimilarity [1] [1])\<rparr>"
    by (simp add: emb rescore_Z)
  have h: "arrayAt rescored7 0 = Some (plainCandidate 49 97 1)"
    by (simp add: rescored7_def arrayAt_def)
  from m b s strict_rescored7 t r len first show ?thesis
    by (simp add: rs sorted_merged7 h)
qed

text \<open>
  Claim C5 as stated fails: the gap is not taken against the number two of the merged
  list. With seven categories, a product that shares nothing with them and a gap threshold
  of 3, the lexical gate rejects the product; the reranker scores the first category 1 and
  the next five -1 and maps the product, the gap among the rescored candidates being 2.
  In the merged list the seventh category, with its lexical score 0, is the number two: the
  gap to it is 1, below the required 1.5.
\<close>

theorem C5_merged_gap_counterexample:
  "status_v (lexicalVerdict (sampleRuntime fetchFirst) cats7
               (buildModels (sampleRuntime fetchFirst) cats7) wideGapOptions productZ)
     = not_mapped
   \<and> status (outcomes (sampleRuntime fetchFirst) cats7 parsedZ wideGapOptions ! 0) = mapped
   \<and> candidates (outcomes (sampleRuntime fetchFirst) cats7 parsedZ wideGapOptions ! 0)
       = take 5 merged7
   \<and> \<not> strictGate wideGapOptions
         (candidates (outcomes (sampleRuntime fetchFirst) cats7 parsedZ wideGapOptions ! 0))"
  using strict_merged7
  by (simp add: lexical_Z outcomes_Z finishProduct_def Let_def final_Z)

text \<open>
  Claim C6, as amended. For every product whose aggregated text is empty, both axis
  vectors are all-zero and every candidate has the score 0; the product is not mapped,
  whether reranking is switched on or not, in every configuration in which at least one of
  the similarity threshold, the overlap threshold and the gap threshold is positive, and
  it is mapped when the corpus is not empty and none of the three is positive. (The runtime
  is taken to lower-case a single space to itself.)
\<close>

theorem C6_empty_text:
  assumes lower: "toLowerCase rt [32] = [32]"
    and noText: "aggregatedText (parseProductRow rt uuid filename index row) = []"
  shows "allZero (productWordVec (wordVectorizer_m (buildModels rt categories))
                    (parseProductRow rt uuid filename index row))
       \<and> allZero (productCharVec rt (charVectorizer_m (buildModels rt categories))
                    (parseProductRow rt uuid filename index row))
       \<and> list_all (\<lambda>c. score c = 0)
           (scoredCandidates rt categories (wordVectorizer_m (buildModels rt categories))
              (categoryWordVectors_m (buildModels rt categories))
              (charVectorizer_m (buildModels rt categories))
              (categoryCharVectors_m (buildModels rt categories))
              (parseProductRow rt uuid filename index row))
       \<and> (0 < similarityThreshold options \<or> 0 < tokenOverlapThreshold options
            \<or> 0 < gapThreshold options
          \<longrightarrow> status (mapProduct rt categories (buildModels rt categories) options
                       (parseProductRow rt uuid filename index row)) = not_mapped)
       \<and> (categories \<noteq> [] \<and> similarityThreshold options \<le> 0
            \<and> tokenOverlapThreshold options \<le> 0 \<and> gapThreshold options \<le> 0
          \<longrightarrow> status (mapProduct rt categories (buildModels rt categories) options
                       (parseProductRow rt uuid filename index row)) = mapped)"
proof -
  let ?p = "parseProductRow rt uuid filename index row"
  let ?m = "buildModels rt categories"
  let ?cs = "scoredCandidates rt categories (wordVectorizer_m ?m) (categoryWordVectors_m ?m)
               (charVectorizer_m ?m) (categoryCharVectors_m ?m) ?p"
  note e = parse_empty_text [OF noText]
  note z = empty_text_product [OF lower e]
  have zero: "\<forall>c \<in> set ?cs. score c = 0 \<and> overlap c = 0 \<and> jaccard c = 0"
    by (rule z(3))
  have "trim (aggregatedText ?p) = []"
    by (simp add: noText trim_empty)
  then have r: "\<not> refineAccepts rt ?p (sortByScoreDesc score ?cs) (categoryMap_m ?m) options"
    by (simp add: refineAccepts_iff)
  have st: "status (mapProduct rt categories ?m options ?p) = mapped
              \<longleftrightarrow> gateSpec options (sortByScoreDesc score ?cs)"
    using r by (simp add: mapProduct_status_iff Let_def)
  have two: "\<And>s. s = not_mapped \<longleftrightarrow> s \<noteq> mapped"
    using status.exhaust by auto
  have down: "status (mapProduct rt categories ?m options ?p) = not_mapped"
    if "0 < similarityThreshold options \<or> 0 < tokenOverlapThreshold options
        \<or> 0 < gapThreshold options"
  proof (cases "?cs = []")
    case True
    then show ?thesis
      by (simp add: two st sortByScoreDesc_def gateSpec_def)
  next
    case False
    from that show ?thesis
      unfolding two st gateSpec_zero [OF zero False] by auto
  qed
  have up: "status (mapProduct rt categories ?m options ?p) = mapped"
    if "categories \<noteq> [] \<and> similarityThreshold options \<le> 0
        \<and> tokenOverlapThreshold options \<le> 0 \<and> gapThreshold options \<le> 0"
  proof -
    from that have "?cs \<noteq> []"
      using length_scoredCandidates by (metis length_0_conv)
    with that show ?thesis
      unfolding st gateSpec_zero [OF zero \<open>?cs \<noteq> []\<close>] by simp
  qed
  from z(1,2) zero down up show ?thesis
    by (simp add: list_all_iff)
qed

theorem C6_empty_text_witness:
  "toLowerCase (sampleRuntime failingFetch) [32] = [32]
   \<and> aggregatedText (parseProductRow (sampleRuntime failingFetch) [112, 52] [102] 3 rowE)
       = []
   \<and> similarityThreshold (zeroOptions\<lparr>gapThreshold := 1\<rparr>) \<le> 0
   \<and> 0 < gapThreshold (zeroOptions\<lparr>gapThreshold := 1\<rparr>)
   \<and> allZero (productWordVec (wordVectorizer_m (buildModels (sampleRuntime failingFetch) cats7))
                (parseProductRow (sampleRuntime failingFetch) [112, 52] [102] 3 rowE))
   \<and> allZero (productCharVec (sampleRuntime failingFetch)
                (charVectorizer_m (buildModels (sampleRuntime failingFetch) cats7))
                (parseProductRow (sampleRuntime failingFetch) [112, 52] [102] 3 rowE))
   \<and> status (mapProduct (sampleRuntime failingFetch) cats7
               (buildModels (sampleRuntime failingFetch) cats7)
               (zeroOptions\<lparr>gapThreshold := 1\<rparr>)
               (parseProductRow (sampleRuntime failingFetch) [112, 52] [102] 3 rowE))
       = not_mapped
   \<and> cats7 \<noteq> []
   \<and> status (mapProduct (sampleRuntime failingFetch) cats7
               (buildModels (sampleRuntime failingFetch) cats7) zeroOptions
               (parseProductRow (sampleRuntime failingFetch) [112, 52] [102] 3 rowE))
       = mapped"
proof -
  have l: "toLowerCase (sampleRuntime failingFetch) [32] = [32]"
    by (simp add: sampleRuntime_def sampleToLowerCase_def)
  have e: "aggregatedText (parseProductRow (sampleRuntime failingFetch) [112, 52] [102] 3
             rowE) = []"
    by (simp add: productE_parsed productE_def)
  have p: "similarityThreshold (zeroOptions\<lparr>gapThreshold := 1\<rparr>) \<le> 0"
    "0 < gapThreshold (zeroOptions\<lparr>gapThreshold := 1\<rparr>)"
    by (simp_all add: zeroOptions_def DEFAULT_OPTIONS_def)
  have q: "cats7 \<noteq> []" "similarityThreshold zeroOptions \<le> 0"
    "tokenOverlapThreshold zeroOptions \<le> 0" "gapThreshold zeroOptions \<le> 0"
    by (simp_all add: zeroOptions_def DEFAULT_OPTIONS_def cats7_def)
  from C6_empty_text [OF l e, of cats7 "zeroOptions\<lparr>gapThreshold := 1\<rparr>"]
    C6_empty_text [OF l e, of cats7 zeroOptions] l e p q
  show ?thesis
    by simp
qed

text \<open>
  Claim C6 as stated fails when no threshold is positive: with the similarity, gap and
  overlap thresholds all 0, a product without any text scores 0 against the category
  \<open>aaa\<close>, passes rule R1 and is mapped.
\<close>

theorem C6_zero_thresholds_counterexample:
  "aggregatedText (parseProductRow (sampleRuntime failingFetch) [112, 52] [102] 3 rowE) = []
   \<and> status (mapProduct (sampleRuntime failingFetch) [catA]
               (buildModels (sampleRuntime failingFetch) [catA]) zeroOptions
               (parseProductRow (sampleRuntime failingFetch) [112, 52] [102] 3 rowE))
       = mapped"
proof -
  have "gateSpec zeroOptions
          [\<lparr>categoryId = [99, 49], categoryPath = [97, 97, 97], score = 0, overlap = 0,
            jaccard = 0\<rparr>]"
    by (simp add: gateSpec_def gapSpec_def R1_def zeroOptions_def DEFAULT_OPTIONS_def)
  then show ?thesis
    by (simp add: productE_parsed buildModels_A mapProduct_status_iff scored_E
          sortByScoreDesc_def Let_def)
       (simp add: productE_def)
qed

text \<open>
  Claim C7. Gate monotonicity in the similarity threshold: for a fixed category corpus,
  product corpus and configuration, raising the similarity threshold alone never turns a
  product that is not mapped into a mapped one, and lowering it alone never turns a mapped
  product into one that is not mapped. This holds with reranking switched on as well, the
  embedding service answering the same request in the same way.
\<close>

theorem C7_threshold_monotone:
  assumes "t1 \<le> t2"
    and "i < length (outcomes rt categories products (options\<lparr>similarityThreshold := t1\<rparr>))"
  shows "(status (outcomes rt categories products (options\<lparr>similarityThreshold := t1\<rparr>) ! i)
            = not_mapped
          \<longrightarrow> status (outcomes rt categories products (options\<lparr>similarityThreshold := t2\<rparr>) ! i)
                = not_mapped)
       \<and> (status (outcomes rt categories products (options\<lparr>similarityThreshold := t2\<rparr>) ! i)
            = mapped
          \<longrightarrow> status (outcomes rt categories products (options\<lparr>similarityThreshold := t1\<rparr>) ! i)
                = mapped)"
proof -
  from assms(2) have ne: "categories \<noteq> []" and i: "i < length (records products)"
    using outcomes_length by blast+
  let ?m = "buildModels rt categories"
  let ?p = "records products ! i"
  have down: "status (mapProduct rt categories ?m (options\<lparr>similarityThreshold := t2\<rparr>) ?p)
                = mapped
              \<Longrightarrow> status (mapProduct rt categories ?m (options\<lparr>similarityThreshold := t1\<rparr>) ?p)
                    = mapped"
    using mapProduct_mono [OF assms(1)] .
  have two: "\<And>s. s = not_mapped \<longleftrightarrow> s \<noteq> mapped"
    using status.exhaust by auto
  from down ne i show ?thesis
    by (auto simp add: outcomes_eq two)
qed

theorem C7_threshold_monotone_witness:
  "binary64 (3 / 10) \<le> binary64 (55 / 100)
   \<and> 0 < length (outcomes (sampleRuntime failingFetch) [catA] parsedA
                   (DEFAULT_OPTIONS\<lparr>similarityThreshold := binary64 (3 / 10)\<rparr>))
   \<and> status (outcomes (sampleRuntime failingFetch) [catA] parsedA
                (DEFAULT_OPTIONS\<lparr>similarityThreshold := binary64 (55 / 100)\<rparr>) ! 0) = mapped
   \<and> status (outcomes (sampleRuntime failingFetch) [catA] parsedA
                (DEFAULT_OPTIONS\<lparr>similarityThreshold := binary64 (3 / 10)\<rparr>) ! 0) = mapped
   \<and> (2 :: real) \<le> 3
   \<and> 0 < length (outcomes (sampleRuntime failingFetch) [catA] parsedA
                   (DEFAULT_OPTIONS\<lparr>similarityThreshold := 2\<rparr>))
   \<and> status (outcomes (sampleRuntime failingFetch) [catA] parsedA
                (DEFAULT_OPTIONS\<lparr>similarityThreshold := 2\<rparr>) ! 0) = not_mapped
   \<and> status (outcomes (sampleRuntime failingFetch) [catA] parsedA
                (DEFAULT_OPTIONS\<lparr>similarityThreshold := 3\<rparr>) ! 0) = not_mapped"
proof -
  let ?rt = "sampleRuntime failingFetch"
  have le: "binary64 (3 / 10) \<le> binary64 (55 / 100)"
    by (rule binary64_mono) simp
  have len: "0 < length (outcomes ?rt [catA] parsedA
                           (DEFAULT_OPTIONS\<lparr>similarityThreshold := binary64 (3 / 10)\<rparr>))"
    by (simp add: outcomes_A)
  have "binary64 (55 / 100) \<le> binary64 (11 / 10)"
    by (rule binary64_mono) simp
  then have hi: "status (outcomes ?rt [catA] parsedA
                      (DEFAULT_OPTIONS\<lparr>similarityThreshold := binary64 (55 / 100)\<rparr>) ! 0)
                   = mapped"
    by (simp add: outcomes_A status_A gate_A_default)
  have le2: "(2 :: real) \<le> 3" by simp
  have len2: "0 < length (outcomes ?rt [catA] parsedA
                            (DEFAULT_OPTIONS\<lparr>similarityThreshold := 2\<rparr>))"
    by (simp add: outcomes_A)
  have "\<not> gateSpec (DEFAULT_OPTIONS\<lparr>similarityThreshold := 2\<rparr>) [candA]"
    using literal_bounds(8) by (intro gate_A_high) simp
  then have "status (outcomes ?rt [catA] parsedA
                       (DEFAULT_OPTIONS\<lparr>similarityThreshold := 2\<rparr>) ! 0) \<noteq> mapped"
    by (simp add: outcomes_A status_A DEFAULT_OPTIONS_def)
  then have lo: "status (outcomes ?rt [catA] parsedA
                           (DEFAULT_OPTIONS\<lparr>similarityThreshold := 2\<rparr>) ! 0) = not_mapped"
    using status.exhaust by blast
  from C7_threshold_monotone [OF le len] C7_threshold_monotone [OF le2 len2]
    hi lo le len le2 len2
  show ?thesis
    by blast
qed

text \<open>
  Claim C8, as amended. For every product in every run there is a best candidate, and
  the confidence percent of the outcome is \<open>Math.round\<close> of that candidate's score times
  100, the product being the double that the multiplication delivers. The best candidate
  is the one whose category path is chosen when the product is mapped, and the head of the
  candidate list when it is not. The percent is not confined to the range from 0 to 100.
\<close>

theorem C8_confidence:
  assumes "i < length (outcomes rt categories products options)"
  shows "\<exists>b. best_v (finalVerdict rt categories options (records products ! i)) = Some b
           \<and> confidence (outcomes rt categories products options ! i)
               = Math_round (fmul (score b) 100)
           \<and> (status (outcomes rt categories products options ! i) = mapped
                \<longrightarrow> seoCategory (outcomes rt categories products options ! i)
                      = Some (categoryPath b))
           \<and> (status (outcomes rt categories products options ! i) = not_mapped
                \<longrightarrow> arrayAt (candidates (outcomes rt categories products options ! i)) 0
                      = Some b)"
proof -
  from assms have ne: "categories \<noteq> []" and i: "i < length (records products)"
    using outcomes_length by blast+
  let ?v = "finalVerdict rt categories options (records products ! i)"
  have co: "coherent ?v"
    using ne by (rule finalVerdict_coherent)
  then obtain b where b: "best_v ?v = Some b"
    by (auto simp add: coherent_def)
  have o: "outcomes rt categories products options ! i
             = finishProduct options (records products ! i) ?v"
    using ne i by (simp add: outcomes_eq mapProduct_final)
  from co b show ?thesis
    unfolding o
    by (auto simp add: finishProduct_def Let_def coherent_def confidenceOf_def arrayAt_take5)
qed

theorem C8_confidence_witness:
  "0 < length (outcomes (sampleRuntime failingFetch) [catA] parsedA DEFAULT_OPTIONS)
   \<and> best_v (finalVerdict (sampleRuntime failingFetch) [catA] DEFAULT_OPTIONS
               (records parsedA ! 0)) = Some candA
   \<and> confidence (outcomes (sampleRuntime failingFetch) [catA] parsedA DEFAULT_OPTIONS ! 0)
       = Math_round (fmul (score candA) 100)
   \<and> status (outcomes (sampleRuntime failingFetch) [catA] parsedA DEFAULT_OPTIONS ! 0) = mapped
   \<and> seoCategory (outcomes (sampleRuntime failingFetch) [catA] parsedA DEFAULT_OPTIONS ! 0)
       = Some (categoryPath candA)"
proof -
  let ?rt = "sampleRuntime failingFetch"
  have len: "0 < length (outcomes ?rt [catA] parsedA DEFAULT_OPTIONS)"
    by (simp add: outcomes_A)
  have b: "best_v (finalVerdict ?rt [catA] DEFAULT_OPTIONS (records parsedA ! 0)) = Some candA"
    by (simp add: finalVerdict_def openAIFallback_off DEFAULT_OPTIONS_def parsedA_def
          buildModels_A lexicalVerdict_def lexicalGate_best scored_A sortByScoreDesc_def
          arrayAt_def)
  have st: "status (outcomes ?rt [catA] parsedA DEFAULT_OPTIONS ! 0) = mapped"
    using gate_A_default [of "binary64 (55 / 100)"] literal_bounds(2,7)
    by (simp add: outcomes_A status_A DEFAULT_OPTIONS_def)
  from C8_confidence [OF len] b st len show ?thesis
    by auto
qed

text \<open>
  Claim C8 as stated fails for the range: the product \<open>aaa\<close> against the category
  \<open>aaa\<close> has both cosines 1 and the Jaccard index 1, so its score is 1.1 and its
  confidence percent is 110.
\<close>

theorem C8_confidence_range_counterexample:
  "confidence (outcomes (sampleRuntime failingFetch) [catA] parsedA DEFAULT_OPTIONS ! 0) = 110
   \<and> \<not> (0 \<le> confidence (outcomes (sampleRuntime failingFetch) [catA] parsedA
                           DEFAULT_OPTIONS ! 0)
        \<and> confidence (outcomes (sampleRuntime failingFetch) [catA] parsedA DEFAULT_OPTIONS ! 0)
            \<le> 100)"
proof -
  have "status_v (lexicalVerdict (sampleRuntime failingFetch) [catA] modelsA DEFAULT_OPTIONS
                    productA) = mapped"
    using gate_A_default [of "binary64 (55 / 100)"] literal_bounds(2,7)
    by (simp add: lexicalVerdict_status ranked_A DEFAULT_OPTIONS_def)
  then have "confidence (mapProduct (sampleRuntime failingFetch) [catA] modelsA DEFAULT_OPTIONS
                           productA)
               = confidencePercent_v (lexicalVerdict (sampleRuntime failingFetch) [catA] modelsA
                                        DEFAULT_OPTIONS productA)"
    by (simp add: mapProduct_def openAIFallback_mapped finishProduct_def Let_def)
  also have "\<dots> = 110"
    by (simp add: lexicalVerdict_def lexicalGate_confidence scored_A sortByScoreDesc_def
          arrayAt_def confidenceOf_def candA_def confidence_110)
  finally have "confidence (outcomes (sampleRuntime failingFetch) [catA] parsedA
                              DEFAULT_OPTIONS ! 0) = 110"
    by (simp add: outcomes_A)
  then show ?thesis
    by simp
qed

text \<open>
  Claim C9. \<open>mapProducts\<close> raises an error if and only if the category list is empty, and
  then it raises whatever the products and the embedding service are; for a non-empty
  category list it returns a result with exactly one outcome per input product, in order.
  A failure of the reranker (an error of the embedding service, a response with too few
  embeddings) does not abort the run: the product stays not mapped and the error is
  recorded in the reason of its outcome.
\<close>

theorem C9_only_empty_corpus_aborts:
  "((\<exists>e. mapProducts rt categories products options = Inl e) \<longleftrightarrow> categories = [])
   \<and> (categories = [] \<longrightarrow>
        mapProducts rt categories products options = Inl (Error MSG_NOT_LOADED))
   \<and> (categories \<noteq> [] \<longrightarrow>
        (\<exists>response. mapProducts rt categories products options = Inr response
            \<and> items response = outcomes rt categories products options)
        \<and> map productRecord (outcomes rt categories products options) = records products)
   \<and> (\<forall>i e. i < length (outcomes rt categories products options)
          \<and> status_v (lexicalVerdict rt categories (buildModels rt categories) options
                         (records products ! i)) = not_mapped
          \<and> useOpenAI options
          \<and> refineWithOpenAI rt (records products ! i)
               (rankedCandidates_v (lexicalVerdict rt categories (buildModels rt categories)
                                      options (records products ! i)))
               (categoryMap_m (buildModels rt categories)) options = Inl e
        \<longrightarrow> status (outcomes rt categories products options ! i) = not_mapped
            \<and> OpenAIFallbackError e \<in> set (reason (outcomes rt categories products options ! i)))"
proof (intro conjI allI impI)
  show "(\<exists>e. mapProducts rt categories products options = Inl e) \<longleftrightarrow> categories = []"
    by (simp add: mapProducts_def Let_def)
next
  assume "categories = []"
  then show "mapProducts rt categories products options = Inl (Error MSG_NOT_LOADED)"
    by (simp add: mapProducts_def)
next
  assume "categories \<noteq> []"
  then show "\<exists>response. mapProducts rt categories products options = Inr response
               \<and> items response = outcomes rt categories products options"
    by (simp add: outcomes_def mapProducts_def Let_def)
next
  assume "categories \<noteq> []"
  then show "map productRecord (outcomes rt categories products options) = records products"
    by (simp add: outcomes_eq mapProduct_record comp_def)
next
  fix i e
  let ?m = "buildModels rt categories"
  let ?p = "records products ! i"
  let ?v = "lexicalVerdict rt categories ?m options ?p"
  assume h: "i < length (outcomes rt categories products options)
      \<and> status_v ?v = not_mapped \<and> useOpenAI options
      \<and> refineWithOpenAI rt ?p (rankedCandidates_v ?v) (categoryMap_m ?m) options = Inl e"
  then have ne: "categories \<noteq> []" and i: "i < length (records products)"
    using outcomes_length by blast+
  from h have st: "status_v (openAIFallback rt ?p (categoryMap_m ?m) options ?v) = not_mapped"
    and re: "OpenAIFallbackError e
               \<in> set (reason_v (openAIFallback rt ?p (categoryMap_m ?m) options ?v))"
    using openAIFallback_thrown by blast+
  from st ne i show "status (outcomes rt categories products options ! i) = not_mapped"
    by (simp add: outcomes_eq mapProduct_status)
  from re ne i
  show "OpenAIFallbackError e \<in> set (reason (outcomes rt categories products options ! i))"
    by (simp add: outcomes_eq mapProduct_def finishProduct_reason)
qed

theorem C9_only_empty_corpus_aborts_witness:
  "mapProducts (sampleRuntime failingFetch) [] parsedA strictOptions
     = Inl (Error MSG_NOT_LOADED)
   \<and> [catA] \<noteq> []
   \<and> map productRecord (outcomes (sampleRuntime failingFetch) [catA] parsedA strictOptions)
       = [productA]
   \<and> 0 < length (outcomes (sampleRuntime failingFetch) [catA] parsedA strictOptions)
   \<and> status_v (lexicalVerdict (sampleRuntime failingFetch) [catA]
                 (buildModels (sampleRuntime failingFetch) [catA]) strictOptions
                 (records parsedA ! 0)) = not_mapped
   \<and> useOpenAI strictOptions
   \<and> refineWithOpenAI (sampleRuntime failingFetch) (records parsedA ! 0)
        (rankedCandidates_v (lexicalVerdict (sampleRuntime failingFetch) [catA]
                               (buildModels (sampleRuntime failingFetch) [catA]) strictOptions
                               (records parsedA ! 0)))
        (categoryMap_m (buildModels (sampleRuntime failingFetch) [catA])) strictOptions
       = Inl (Error [53, 48, 51])
   \<and> status (outcomes (sampleRuntime failingFetch) [catA] parsedA strictOptions ! 0)
       = not_mapped
   \<and> OpenAIFallbackError (Error [53, 48, 51])
       \<in> set (reason (outcomes (sampleRuntime failingFetch) [catA] parsedA strictOptions ! 0))"
proof -
  let ?rt = "sampleRuntime failingFetch"
  have p0: "records parsedA ! 0 = productA"
    by (simp add: parsedA_def)
  have ne: "[catA] \<noteq> []" by simp
  have len: "0 < length (outcomes ?rt [catA] parsedA strictOptions)"
    by (simp add: outcomes_A)
  have lex: "status_v (lexicalVerdict ?rt [catA] (buildModels ?rt [catA]) strictOptions
                         (records parsedA ! 0)) = not_mapped"
    by (simp add: p0 buildModels_A lexical_A_strict)
  have on: "useOpenAI strictOptions"
    by (simp add: strictOptions_simps)
  have thrown: "refineWithOpenAI ?rt (records parsedA ! 0)
        (rankedCandidates_v (lexicalVerdict ?rt [catA] (buildModels ?rt [catA]) strictOptions
                               (records parsedA ! 0)))
        (categoryMap_m (buildModels ?rt [catA])) strictOptions = Inl (Error [53, 48, 51])"
    by (simp add: p0 buildModels_A ranked_A refine_A_failing)
  have recs: "records parsedA = [productA]"
    by (simp add: parsedA_def)
  from C9_only_empty_corpus_aborts [of ?rt "[]" parsedA strictOptions]
  have empty: "mapProducts ?rt [] parsedA strictOptions = Inl (Error MSG_NOT_LOADED)"
    by simp
  from C9_only_empty_corpus_aborts [of ?rt "[catA]" parsedA strictOptions] ne len lex on thrown
  have "map productRecord (outcomes ?rt [catA] parsedA strictOptions) = records parsedA"
    and "status (outcomes ?rt [catA] parsedA strictOptions ! 0) = not_mapped"
    and "OpenAIFallbackError (Error [53, 48, 51])
           \<in> set (reason (outcomes ?rt [catA] parsedA strictOptions ! 0))"
    by blast+
  with empty ne len lex on thrown recs show ?thesis
    by simp
qed

text \<open>
  Claim C10. The character axis of a product depends only on its product name and its
  legacy category label: two products that agree on both have the same character cosine
  against every category, whatever their descriptions, aggregated texts and tokens are.
\<close>

theorem C10_char_axis_inputs:
  assumes "productName p = productName q" and "categoryOld p = categoryOld q"
  shows "charScoreOf rt charVectorizer categoryCharVectors p index
           = charScoreOf rt charVectorizer categoryCharVectors q index"
  using assms by (simp add: charScoreOf_def productCharVec_def)

theorem C10_char_axis_inputs_witness:
  "productName productA = productName productD
   \<and> categoryOld productA = categoryOld productD
   \<and> description productA \<noteq> description productD
   \<and> tokens_prod productA \<noteq> tokens_prod productD
   \<and> charScoreOf (sampleRuntime failingFetch) (charVectorizer_m modelsA)
        (categoryCharVectors_m modelsA) productD 0 = 1"
proof -
  have n: "productName productA = productName productD"
    and c: "categoryOld productA = categoryOld productD"
    by (simp_all add: productA_def productD_def)
  have "description productA \<noteq> description productD"
    and "tokens_prod productA \<noteq> tokens_prod productD"
    by (simp_all add: productA_def productD_def)
  with C10_char_axis_inputs [OF n c, of "sampleRuntime failingFetch" "charVectorizer_m modelsA"
         "categoryCharVectors_m modelsA" 0] n c
  show ?thesis
    by (simp add: charScore_A)
qed

end
